theory Spec2Isabelle
  imports Complex_Main
begin

section \<open>Numbers\<close>

text \<open>
  The pages compute with JavaScript numbers.  They are modelled as real numbers: every
  arithmetic expression of the source is written with the same operations in the same
  order, evaluated exactly.  \<open>Math.min\<close>, \<open>Math.max\<close>, \<open>Math.sqrt\<close> and
  \<open>Math.pow(R, 3)\<close> are \<open>min\<close>, \<open>max\<close>, \<open>sqrt\<close> and \<open>R ^ 3\<close>.  Colours, canvas
  coordinates and DOM handles have no part in the kinematics and are left out of the
  records.
\<close>

text \<open>
  A run of a stepper is a list of inputs, one per call; \<open>foldl step s inputs\<close> is the
  state after the run and \<open>states_after step s inputs\<close> lists the state observed after
  each call.
\<close>

fun states_after :: "('s \<Rightarrow> 'i \<Rightarrow> 's) \<Rightarrow> 's \<Rightarrow> 'i list \<Rightarrow> 's list" where
  "states_after step s [] = []"
| "states_after step s (i # inputs) = step s i # states_after step (step s i) inputs"

text \<open>A call \<open>update(deltaTime, speedMultiplier)\<close> whose scaled delta is not negative.\<close>

definition nonneg_delta :: "real \<times> real \<Rightarrow> bool" where
  "nonneg_delta i = (0 \<le> fst i * snd i)"

section \<open>Two balls dropped with a time delay (dualball-simulation)\<close>

text \<open>
  One entry of \<open>this.balls\<close>.  The trail is the list of the \<open>height\<close> values pushed by
  \<open>update\<close>, oldest first.
\<close>

record ball =
  b_id :: nat
  b_dropTime :: real
  b_initialHeight :: real
  b_height :: real
  b_velocity :: real
  b_falling :: bool
  b_landed :: bool
  b_trail :: "real list"

record dualball =
  db_g :: real
  db_totalTime :: real
  db_ball1FallTime :: real
  db_ball2FallTime :: real
  db_ball1Height :: real
  db_ball2Height :: real
  db_heightDifference :: real
  db_ball1ImpactVelocity :: real
  db_ball2ImpactVelocity :: real
  db_balls :: "ball list"
  db_time :: real

text \<open>\<open>CONFIG.physics\<close> of the page.\<close>

definition CONFIG_dualball_g :: real where
  "CONFIG_dualball_g = 9.8"

definition CONFIG_dualball_totalTime :: real where
  "CONFIG_dualball_totalTime = 5.0"

text \<open>The constructor \<open>new DualBallSimulation()\<close>, field by field.\<close>

definition DualBallSimulation_new :: dualball where
  "DualBallSimulation_new =
     (let g = CONFIG_dualball_g;
          totalTime = CONFIG_dualball_totalTime;
          ball1FallTime = 5.0;
          ball2FallTime = 3.0;
          ball1Height = 0.5 * g * ball1FallTime * ball1FallTime;
          ball2Height = 0.5 * g * ball2FallTime * ball2FallTime;
          heightDifference = ball1Height - ball2Height;
          ball1ImpactVelocity = g * ball1FallTime;
          ball2ImpactVelocity = g * ball2FallTime
      in \<lparr> db_g = g, db_totalTime = totalTime,
           db_ball1FallTime = ball1FallTime, db_ball2FallTime = ball2FallTime,
           db_ball1Height = ball1Height, db_ball2Height = ball2Height,
           db_heightDifference = heightDifference,
           db_ball1ImpactVelocity = ball1ImpactVelocity,
           db_ball2ImpactVelocity = ball2ImpactVelocity,
           db_balls =
             [\<lparr> b_id = 1, b_dropTime = 0, b_initialHeight = ball1Height,
                b_height = ball1Height, b_velocity = 0, b_falling = False,
                b_landed = False, b_trail = [] \<rparr>,
              \<lparr> b_id = 2, b_dropTime = 2.0, b_initialHeight = ball2Height,
                b_height = ball2Height, b_velocity = 0, b_falling = False,
                b_landed = False, b_trail = [] \<rparr>],
           db_time = 0 \<rparr>)"

definition ball_reset :: "ball \<Rightarrow> ball" where
  "ball_reset b =
     b\<lparr> b_height := b_initialHeight b, b_velocity := 0, b_falling := False,
        b_landed := False, b_trail := [] \<rparr>"

definition DualBallSimulation_reset :: "dualball \<Rightarrow> dualball" where
  "DualBallSimulation_reset sim =
     sim\<lparr> db_time := 0, db_balls := map ball_reset (db_balls sim) \<rparr>"

text \<open>
  The body of \<open>this.balls.forEach\<close> in \<open>update\<close>; \<open>sim\<close> is \<open>this\<close> after the time has
  been advanced and clamped.  \<open>trail.push\<close> appends, \<open>trail.shift\<close> drops the oldest entry.
\<close>

definition ball_update :: "dualball \<Rightarrow> ball \<Rightarrow> ball" where
  "ball_update sim b =
     (if db_time sim \<ge> b_dropTime b \<and> \<not> b_landed b then
        (let fallTime = db_time sim - b_dropTime b;
             h = b_initialHeight b - 0.5 * db_g sim * fallTime * fallTime;
             v = db_g sim * fallTime;
             pushed = b_trail b @ [h];
             trail = (if length pushed > 60 then tl pushed else pushed);
             b1 = b\<lparr> b_falling := True, b_height := h, b_velocity := v, b_trail := trail \<rparr>
         in if h \<le> 0
            then b1\<lparr> b_height := 0, b_landed := True,
                     b_velocity := (if b_id b = 1 then db_ball1ImpactVelocity sim
                                    else db_ball2ImpactVelocity sim) \<rparr>
            else b1)
      else b)"

text \<open>\<open>update(deltaTime, speedMultiplier)\<close>: the new simulation and the returned flag.\<close>

definition DualBallSimulation_update :: "dualball \<Rightarrow> real \<Rightarrow> real \<Rightarrow> dualball \<times> bool" where
  "DualBallSimulation_update sim deltaTime speedMultiplier =
     (let scaledDelta = deltaTime * speedMultiplier;
          t1 = db_time sim + scaledDelta;
          t2 = (if t1 > db_totalTime sim then db_totalTime sim else t1);
          sim1 = sim\<lparr> db_time := t2 \<rparr>;
          sim2 = sim1\<lparr> db_balls := map (ball_update sim1) (db_balls sim1) \<rparr>
      in (sim2, list_all b_landed (db_balls sim2)))"

text \<open>One \<open>update\<close> call with the input \<open>(deltaTime, speedMultiplier)\<close>, as a step.\<close>

definition DualBall_step :: "dualball \<Rightarrow> real \<times> real \<Rightarrow> dualball" where
  "DualBall_step sim i = fst (DualBallSimulation_update sim (fst i) (snd i))"

text \<open>
  The page state of the dual-ball driver (\<open>state\<close>) and its animation-frame callback
  \<open>animate(timestamp)\<close>.  \<open>dualball_frame_deltaTime\<close> is the constant \<open>deltaTime\<close> of
  the callback.  The second component of the result tells whether the callback asks for
  another frame (\<open>requestAnimationFrame(animate)\<close>).
\<close>

record dualball_page =
  dp_isPlaying :: bool
  dp_speedMultiplier :: real
  dp_lastTimestamp :: real
  dp_simulation :: dualball

definition dualball_frame_deltaTime :: "real \<Rightarrow> real \<Rightarrow> real" where
  "dualball_frame_deltaTime timestamp lastTimestamp =
     min ((timestamp - lastTimestamp) / 1000) 0.1"

definition dualball_animate :: "dualball_page \<Rightarrow> real \<Rightarrow> dualball_page \<times> bool" where
  "dualball_animate st timestamp =
     (if \<not> dp_isPlaying st then (st, False)
      else
        (let deltaTime = dualball_frame_deltaTime timestamp (dp_lastTimestamp st);
             st1 = st\<lparr> dp_lastTimestamp := timestamp \<rparr>;
             (sim, completed) =
               DualBallSimulation_update (dp_simulation st1) deltaTime (dp_speedMultiplier st1);
             st2 = st1\<lparr> dp_simulation := sim \<rparr>
         in if completed then (st2\<lparr> dp_isPlaying := False \<rparr>, False) else (st2, True)))"

text \<open>
  A run of the driver: one callback per frame timestamp.  \<open>dualball_frame_deltas\<close> lists
  the \<open>deltaTime\<close> of each frame of a run that starts with \<open>lastTimestamp\<close>.
\<close>

definition dualball_frame :: "dualball_page \<Rightarrow> real \<Rightarrow> dualball_page" where
  "dualball_frame st timestamp = fst (dualball_animate st timestamp)"

fun dualball_frame_deltas :: "real \<Rightarrow> real list \<Rightarrow> real list" where
  "dualball_frame_deltas lastTimestamp [] = []"
| "dualball_frame_deltas lastTimestamp (timestamp # rest) =
     dualball_frame_deltaTime timestamp lastTimestamp # dualball_frame_deltas timestamp rest"

section \<open>Brick thrown to a mason (wastage-simulation)\<close>

datatype brick_phase =
  throwing | ascending | at_target | continuing | at_max | descending | landed

text \<open>
  \<open>currentKE\<close>, \<open>currentPE\<close> and \<open>currentTotal\<close> are first assigned by \<open>update\<close>; before
  that they are \<open>undefined\<close>, here \<open>None\<close>.
\<close>

record brick =
  bt_g :: real
  bt_targetHeight :: real
  bt_velocityAtTarget :: real
  bt_initialVelocity :: real
  bt_keAtTarget :: real
  bt_peAtTarget :: real
  bt_totalEnergyAtTarget :: real
  bt_idealEnergy :: real
  bt_wastedEnergy :: real
  bt_wastePercentage :: real
  bt_wastePercentageAlt :: real
  bt_additionalHeight :: real
  bt_maxHeight :: real
  bt_timeToTarget :: real
  bt_timeToMax :: real
  bt_time :: real
  bt_height :: real
  bt_velocity :: real
  bt_phase :: brick_phase
  bt_reachedTarget :: bool
  bt_reachedMax :: bool
  bt_trail :: "real list"
  bt_currentKE :: "real option"
  bt_currentPE :: "real option"
  bt_currentTotal :: "real option"

definition BrickThrowSimulation_reset :: "brick \<Rightarrow> brick" where
  "BrickThrowSimulation_reset s =
     s\<lparr> bt_time := 0, bt_height := 0, bt_velocity := bt_initialVelocity s,
        bt_phase := throwing, bt_reachedTarget := False, bt_reachedMax := False,
        bt_trail := [] \<rparr>"

text \<open>
  The constructor: the three \<open>CONFIG.physics\<close> values, \<open>calculateEnergetics()\<close>, then
  \<open>reset()\<close>.
\<close>

definition BrickThrowSimulation_new :: brick where
  "BrickThrowSimulation_new =
     (let g = 10;
          targetHeight = 10;
          velocityAtTarget = 6;
          initialVelocity = sqrt (velocityAtTarget * velocityAtTarget + 2 * g * targetHeight);
          keAtTarget = 0.5 * velocityAtTarget * velocityAtTarget;
          peAtTarget = g * targetHeight;
          totalEnergyAtTarget = keAtTarget + peAtTarget;
          idealEnergy = peAtTarget;
          wastedEnergy = totalEnergyAtTarget - idealEnergy;
          wastePercentage = (wastedEnergy / totalEnergyAtTarget) * 100;
          wastePercentageAlt = (wastedEnergy / idealEnergy) * 100;
          additionalHeight = (velocityAtTarget * velocityAtTarget) / (2 * g);
          maxHeight = targetHeight + additionalHeight;
          timeToTarget = (initialVelocity - velocityAtTarget) / g;
          timeToMax = initialVelocity / g
      in BrickThrowSimulation_reset
           \<lparr> bt_g = g, bt_targetHeight = targetHeight, bt_velocityAtTarget = velocityAtTarget,
             bt_initialVelocity = initialVelocity, bt_keAtTarget = keAtTarget,
             bt_peAtTarget = peAtTarget, bt_totalEnergyAtTarget = totalEnergyAtTarget,
             bt_idealEnergy = idealEnergy, bt_wastedEnergy = wastedEnergy,
             bt_wastePercentage = wastePercentage, bt_wastePercentageAlt = wastePercentageAlt,
             bt_additionalHeight = additionalHeight, bt_maxHeight = maxHeight,
             bt_timeToTarget = timeToTarget, bt_timeToMax = timeToMax,
             bt_time = 0, bt_height = 0, bt_velocity = 0, bt_phase = throwing,
             bt_reachedTarget = False, bt_reachedMax = False, bt_trail = [],
             bt_currentKE = None, bt_currentPE = None, bt_currentTotal = None \<rparr>)"

text \<open>The branch of \<open>update\<close> for the phases \<open>ascending\<close> and \<open>continuing\<close>.\<close>

definition brick_rise :: "brick \<Rightarrow> brick" where
  "brick_rise s =
     (let v = bt_initialVelocity s - bt_g s * bt_time s;
          h = bt_initialVelocity s * bt_time s - 0.5 * bt_g s * bt_time s * bt_time s;
          pushed = bt_trail s @ [h];
          trail = (if length pushed > 80 then tl pushed else pushed);
          s1 = s\<lparr> bt_velocity := v, bt_height := h, bt_trail := trail \<rparr>;
          s2 = (if bt_height s1 \<ge> bt_targetHeight s1 \<and> \<not> bt_reachedTarget s1
                then s1\<lparr> bt_reachedTarget := True, bt_phase := at_target \<rparr> else s1)
      in if bt_velocity s2 \<le> 0
         then s2\<lparr> bt_phase := at_max, bt_reachedMax := True,
                  bt_height := bt_maxHeight s2, bt_velocity := 0 \<rparr>
         else s2)"

text \<open>The branch of \<open>update\<close> for the phase \<open>descending\<close>.\<close>

definition brick_fall :: "brick \<Rightarrow> brick" where
  "brick_fall s =
     (let v = - bt_g s * bt_time s;
          h = bt_maxHeight s - 0.5 * bt_g s * bt_time s * bt_time s;
          pushed = bt_trail s @ [h];
          trail = (if length pushed > 80 then tl pushed else pushed);
          s1 = s\<lparr> bt_velocity := v, bt_height := h, bt_trail := trail \<rparr>
      in if bt_height s1 \<le> 0 then s1\<lparr> bt_height := 0, bt_phase := landed \<rparr> else s1)"

text \<open>
  The two \<open>setTimeout\<close> calls of \<open>update\<close>.  A call in phase \<open>at_target\<close> schedules a
  callback 500 ms later, a call in phase \<open>at_max\<close> one 800 ms later; the callbacks are the
  arrow functions of the source.
\<close>

datatype timeout = Timeout_at_target | Timeout_at_max

fun timeout_delay_ms :: "timeout \<Rightarrow> nat" where
  "timeout_delay_ms Timeout_at_target = 500"
| "timeout_delay_ms Timeout_at_max = 800"

fun timeout_callback :: "timeout \<Rightarrow> brick \<Rightarrow> brick" where
  "timeout_callback Timeout_at_target s =
     (if bt_phase s = at_target then s\<lparr> bt_phase := continuing \<rparr> else s)"
| "timeout_callback Timeout_at_max s =
     (if bt_phase s = at_max then s\<lparr> bt_phase := descending, bt_time := 0 \<rparr> else s)"

text \<open>
  \<open>update(deltaTime, speedMultiplier)\<close>: the new simulation, the returned flag, and the
  timeout the call has scheduled, if any.
\<close>

definition BrickThrowSimulation_update ::
    "brick \<Rightarrow> real \<Rightarrow> real \<Rightarrow> brick \<times> bool \<times> timeout option" where
  "BrickThrowSimulation_update s deltaTime speedMultiplier =
     (let scaledDelta = deltaTime * speedMultiplier;
          s1 = s\<lparr> bt_time := bt_time s + scaledDelta \<rparr>;
          s2 = (if bt_phase s1 = throwing \<and> bt_time s1 > 0.3
                then s1\<lparr> bt_phase := ascending, bt_time := 0 \<rparr> else s1);
          (s3, scheduled) =
            (if bt_phase s2 = ascending \<or> bt_phase s2 = continuing then (brick_rise s2, None)
             else if bt_phase s2 = at_target then (s2, Some Timeout_at_target)
             else if bt_phase s2 = at_max then (s2, Some Timeout_at_max)
             else if bt_phase s2 = descending then (brick_fall s2, None)
             else (s2, None));
          currentKE = 0.5 * bt_velocity s3 * bt_velocity s3;
          currentPE = bt_g s3 * max 0 (bt_height s3);
          s4 = s3\<lparr> bt_currentKE := Some currentKE, bt_currentPE := Some currentPE,
                   bt_currentTotal := Some (currentKE + currentPE) \<rparr>
      in (s4, bt_phase s4 = landed, scheduled))"

definition BrickThrow_step :: "brick \<Rightarrow> real \<times> real \<Rightarrow> brick" where
  "BrickThrow_step s i = fst (BrickThrowSimulation_update s (fst i) (snd i))"

text \<open>
  A run of the page: calls of \<open>update\<close> and firings of scheduled timeouts, in the order
  in which the event loop runs them.  The world is the simulation and the timeouts that
  are scheduled and have not fired.  A timeout that is not pending cannot fire.
\<close>

datatype brick_event = Update real real | Fire timeout

record brick_world =
  bw_sim :: brick
  bw_pending :: "timeout list"

fun brick_step :: "brick_world \<Rightarrow> brick_event \<Rightarrow> brick_world" where
  "brick_step w (Update deltaTime speedMultiplier) =
     (let (s, completed, scheduled) =
            BrickThrowSimulation_update (bw_sim w) deltaTime speedMultiplier
      in \<lparr> bw_sim = s,
           bw_pending = bw_pending w @ (case scheduled of None \<Rightarrow> [] | Some t \<Rightarrow> [t]) \<rparr>)"
| "brick_step w (Fire t) =
     (if t \<in> set (bw_pending w)
      then \<lparr> bw_sim = timeout_callback t (bw_sim w), bw_pending = remove1 t (bw_pending w) \<rparr>
      else w)"

definition brick_world_new :: brick_world where
  "brick_world_new = \<lparr> bw_sim = BrickThrowSimulation_new, bw_pending = [] \<rparr>"

fun nonneg_event :: "brick_event \<Rightarrow> bool" where
  "nonneg_event (Update deltaTime speedMultiplier) = nonneg_delta (deltaTime, speedMultiplier)"
| "nonneg_event (Fire t) = True"

text \<open>The \<open>(deltaTime, speedMultiplier)\<close> inputs of a run, in order.\<close>

fun brick_inputs :: "brick_event list \<Rightarrow> (real \<times> real) list" where
  "brick_inputs [] = []"
| "brick_inputs (Update deltaTime speedMultiplier # es) =
     (deltaTime, speedMultiplier) # brick_inputs es"
| "brick_inputs (Fire t # es) = brick_inputs es"

text \<open>The events of a list of \<open>update\<close> calls with no timeout firing between them.\<close>

definition brick_updates :: "(real \<times> real) list \<Rightarrow> brick_event list" where
  "brick_updates inputs = map (\<lambda>i. Update (fst i) (snd i)) inputs"

text \<open>The simulation after each \<open>update\<close> call of a run.\<close>

fun brick_states :: "brick_world \<Rightarrow> brick_event list \<Rightarrow> brick list" where
  "brick_states w [] = []"
| "brick_states w (Update deltaTime speedMultiplier # es) =
     (let w1 = brick_step w (Update deltaTime speedMultiplier)
      in bw_sim w1 # brick_states w1 es)"
| "brick_states w (Fire t # es) = brick_states (brick_step w (Fire t)) es"

text \<open>
  The page state of the brick-throw driver and its callback \<open>animate(timestamp)\<close>; the
  third component of the result is the timeout scheduled by the \<open>update\<close> call.
\<close>

record brick_page =
  bp_isPlaying :: bool
  bp_speedMultiplier :: real
  bp_lastTimestamp :: real
  bp_simulation :: brick

definition brick_frame_deltaTime :: "real \<Rightarrow> real \<Rightarrow> real" where
  "brick_frame_deltaTime timestamp lastTimestamp =
     min ((timestamp - lastTimestamp) / 1000) 0.1"

definition brick_animate :: "brick_page \<Rightarrow> real \<Rightarrow> brick_page \<times> bool \<times> timeout option" where
  "brick_animate st timestamp =
     (if \<not> bp_isPlaying st then (st, False, None)
      else
        (let deltaTime = brick_frame_deltaTime timestamp (bp_lastTimestamp st);
             st1 = st\<lparr> bp_lastTimestamp := timestamp \<rparr>;
             (sim, completed, scheduled) =
               BrickThrowSimulation_update (bp_simulation st1) deltaTime (bp_speedMultiplier st1);
             st2 = st1\<lparr> bp_simulation := sim \<rparr>
         in if completed then (st2\<lparr> bp_isPlaying := False \<rparr>, False, scheduled)
            else (st2, True, scheduled)))"

section \<open>Satellite with half the escape speed (halfesc-simulation)\<close>

record halfesc =
  he_G :: real
  he_M_earth :: real
  he_R_earth :: real
  he_v_escape :: real
  he_v_orbital :: real
  he_orbitRadius :: real
  he_height :: real
  he_isPlaying :: bool
  he_angle :: real

text \<open>The constructor; \<open>6.674e-11\<close>, \<open>5.972e24\<close> and \<open>6.371e6\<close> are written as fractions.\<close>

definition HalfEscapeSimulation_new :: halfesc where
  "HalfEscapeSimulation_new =
     (let G = 6674 / 10 ^ 14;
          M_earth = 5972 * 10 ^ 21;
          R_earth = 6371 * 10 ^ 3;
          v_escape = sqrt (2 * G * M_earth / R_earth);
          v_orbital = v_escape / 2;
          orbitRadius = 2 * R_earth;
          height = R_earth
      in \<lparr> he_G = G, he_M_earth = M_earth, he_R_earth = R_earth, he_v_escape = v_escape,
           he_v_orbital = v_orbital, he_orbitRadius = orbitRadius, he_height = height,
           he_isPlaying = False, he_angle = 0 \<rparr>)"

text \<open>
  The inner function \<open>animate\<close> of \<open>play()\<close>, one call per animation frame, and \<open>play()\<close>
  itself, which runs the first frame at once.
\<close>

definition halfesc_animate :: "halfesc \<Rightarrow> halfesc" where
  "halfesc_animate s =
     (if \<not> he_isPlaying s then s
      else (let angularSpeed = 0.02 in s\<lparr> he_angle := he_angle s + angularSpeed \<rparr>))"

definition HalfEscapeSimulation_play :: "halfesc \<Rightarrow> halfesc" where
  "HalfEscapeSimulation_play s =
     (if he_isPlaying s then s else halfesc_animate (s\<lparr> he_isPlaying := True \<rparr>))"

fun halfesc_frames :: "nat \<Rightarrow> halfesc \<Rightarrow> halfesc" where
  "halfesc_frames 0 s = s"
| "halfesc_frames (Suc n) s = halfesc_frames n (halfesc_animate s)"

section \<open>Free fall past sixteen storeys (freefall-simulation)\<close>

definition CONFIG_freefall_g :: real where
  "CONFIG_freefall_g = 10"

definition CONFIG_freefall_totalTime :: real where
  "CONFIG_freefall_totalTime = 4"

definition CONFIG_freefall_storeyHeight :: real where
  "CONFIG_freefall_storeyHeight = 5"

record falling_ball =
  fb_y :: real
  fb_velocity :: real
  fb_currentFloor :: int
  fb_storeysFallen :: int
  fb_finished :: bool

definition FallingBall_reset :: falling_ball where
  "FallingBall_reset =
     \<lparr> fb_y = 0, fb_velocity = 0, fb_currentFloor = 16, fb_storeysFallen = 0,
       fb_finished = False \<rparr>"

text \<open>\<open>update(currentTime)\<close> of \<open>FallingBall\<close>: the argument is the absolute time.\<close>

definition FallingBall_update :: "falling_ball \<Rightarrow> real \<Rightarrow> falling_ball" where
  "FallingBall_update b currentTime =
     (if fb_finished b then b
      else
        (let over = (currentTime \<ge> CONFIG_freefall_totalTime);
             t = (if over then CONFIG_freefall_totalTime else currentTime);
             b1 = (if over then b\<lparr> fb_finished := True \<rparr> else b);
             y = 0.5 * CONFIG_freefall_g * t * t;
             storeysFallen = min 16 \<lfloor>y / CONFIG_freefall_storeyHeight\<rfloor>
         in b1\<lparr> fb_y := y, fb_velocity := CONFIG_freefall_g * t,
                 fb_storeysFallen := storeysFallen,
                 fb_currentFloor := max 0 (16 - storeysFallen) \<rparr>))"

record freefall_page =
  fp_isPlaying :: bool
  fp_speed :: real
  fp_currentTime :: real
  fp_ball :: falling_ball
  fp_lastTimestamp :: real
  fp_completedIntervals :: "int set"

definition freefall_frame_deltaTime :: "real \<Rightarrow> real \<Rightarrow> real" where
  "freefall_frame_deltaTime timestamp lastTimestamp = (timestamp - lastTimestamp) / 1000"

text \<open>
  \<open>animate(timestamp)\<close> of the free-fall page.  The callback always asks for another
  frame; the next call returns at once when \<open>isPlaying\<close> has been cleared.
\<close>

definition freefall_animate :: "freefall_page \<Rightarrow> real \<Rightarrow> freefall_page" where
  "freefall_animate st timestamp =
     (if \<not> fp_isPlaying st then st
      else
        (let deltaTime = freefall_frame_deltaTime timestamp (fp_lastTimestamp st);
             st1 = st\<lparr> fp_lastTimestamp := timestamp,
                       fp_currentTime := fp_currentTime st + deltaTime * fp_speed st \<rparr>;
             st2 = (if fp_currentTime st1 \<ge> CONFIG_freefall_totalTime
                    then st1\<lparr> fp_currentTime := CONFIG_freefall_totalTime,
                              fp_isPlaying := False \<rparr>
                    else st1);
             st3 = st2\<lparr> fp_ball := FallingBall_update (fp_ball st2) (fp_currentTime st2) \<rparr>;
             currentInterval = \<lfloor>fp_currentTime st3\<rfloor>
         in if currentInterval > 0 \<and> currentInterval \<notin> fp_completedIntervals st3
            then st3\<lparr> fp_completedIntervals :=
                       insert currentInterval (fp_completedIntervals st3) \<rparr>
            else st3))"

section \<open>Kepler's third law (unnamed/part_001)\<close>

text \<open>\<open>CONFIG.physics\<close>: \<open>6.67430e-11\<close>, \<open>1.989e30\<close>, \<open>1e12\<close> and \<open>1e10\<close>.\<close>

definition CONFIG_kepler_G :: real where
  "CONFIG_kepler_G = 667430 / 10 ^ 16"

definition CONFIG_kepler_M_sun :: real where
  "CONFIG_kepler_M_sun = 1989 * 10 ^ 27"

definition CONFIG_kepler_R1 :: real where
  "CONFIG_kepler_R1 = 10 ^ 12"

definition CONFIG_kepler_R2 :: real where
  "CONFIG_kepler_R2 = 10 ^ 10"

definition calculatePeriod :: "real \<Rightarrow> real" where
  "calculatePeriod R = 2 * pi * sqrt (R ^ 3 / (CONFIG_kepler_G * CONFIG_kepler_M_sun))"

definition T1 :: real where
  "T1 = calculatePeriod CONFIG_kepler_R1"

definition T2 :: real where
  "T2 = calculatePeriod CONFIG_kepler_R2"

definition PERIOD_RATIO :: real where
  "PERIOD_RATIO = T1 / T2"

section \<open>Stone thrown vertically (stonethrow-simulation)\<close>

datatype stone_phase = Ready | Rising | Falling | Landed

record stonethrow =
  st_g :: real
  st_maxHeight :: real
  st_timeToMaxHeight :: real
  st_initialVelocity :: real
  st_timeToFall :: real
  st_totalTime :: real
  st_time :: real
  st_height :: real
  st_velocity :: real
  st_phase :: stone_phase

definition StoneThrowSimulation_new :: stonethrow where
  "StoneThrowSimulation_new =
     (let g = 9.8;
          maxHeight = 500;
          timeToMaxHeight = 10;
          initialVelocity = g * timeToMaxHeight;
          timeToFall = sqrt ((2 * maxHeight) / g);
          totalTime = timeToMaxHeight + timeToFall
      in \<lparr> st_g = g, st_maxHeight = maxHeight, st_timeToMaxHeight = timeToMaxHeight,
           st_initialVelocity = initialVelocity, st_timeToFall = timeToFall,
           st_totalTime = totalTime, st_time = 0, st_height = 0,
           st_velocity = initialVelocity, st_phase = Ready \<rparr>)"

text \<open>\<open>update(deltaTime)\<close>: the new simulation and the returned flag.\<close>

definition StoneThrowSimulation_update :: "stonethrow \<Rightarrow> real \<Rightarrow> stonethrow \<times> bool" where
  "StoneThrowSimulation_update s deltaTime =
     (let s1 = s\<lparr> st_time := st_time s + deltaTime \<rparr>
      in if st_time s1 \<ge> st_totalTime s1
         then (s1\<lparr> st_time := st_totalTime s1, st_height := 0, st_velocity := 0,
                   st_phase := Landed \<rparr>, True)
         else
           (let s2 =
                  (if st_time s1 \<le> st_timeToMaxHeight s1
                   then s1\<lparr> st_phase := Rising,
                            st_height := st_initialVelocity s1 * st_time s1
                                         - 0.5 * st_g s1 * st_time s1 * st_time s1,
                            st_velocity := st_initialVelocity s1 - st_g s1 * st_time s1 \<rparr>
                   else
                     (let fallTime = st_time s1 - st_timeToMaxHeight s1
                      in s1\<lparr> st_phase := Falling,
                               st_height := st_maxHeight s1 - 0.5 * st_g s1 * fallTime * fallTime,
                               st_velocity := - st_g s1 * fallTime \<rparr>))
            in (s2\<lparr> st_height := max 0 (st_height s2) \<rparr>, False)))"

definition StoneThrow_step :: "stonethrow \<Rightarrow> real \<Rightarrow> stonethrow" where
  "StoneThrow_step s deltaTime = fst (StoneThrowSimulation_update s deltaTime)"

section \<open>Projectile with air resistance (unnamed/part_000, first page)\<close>

record airres =
  ar_g :: real
  ar_u :: real
  ar_vReturn :: real
  ar_idealMaxHeight :: real
  ar_idealTimeUp :: real
  ar_idealTotalTime :: real
  ar_energyLost :: real
  ar_energyLostUp :: real
  ar_realMaxHeight :: real
  ar_realTimeUp :: real
  ar_realTotalTime :: real
  ar_time :: real
  ar_idealHeight :: real
  ar_realHeight :: real

text \<open>The constructor with \<open>calculateParams()\<close>.\<close>

definition AirResistanceSimulation_new :: airres where
  "AirResistanceSimulation_new =
     (let g = 10;
          u = 20;
          vReturn = 18;
          idealMaxHeight = (u * u) / (2 * g);
          idealTimeUp = u / g;
          idealTotalTime = 2 * idealTimeUp;
          initialKE = 0.5 * u * u;
          finalKE = 0.5 * vReturn * vReturn;
          energyLost = initialKE - finalKE;
          energyLostUp = energyLost / 2;
          realMaxHeight = (initialKE - energyLostUp) / g
      in \<lparr> ar_g = g, ar_u = u, ar_vReturn = vReturn, ar_idealMaxHeight = idealMaxHeight,
           ar_idealTimeUp = idealTimeUp, ar_idealTotalTime = idealTotalTime,
           ar_energyLost = energyLost, ar_energyLostUp = energyLostUp,
           ar_realMaxHeight = realMaxHeight, ar_realTimeUp = 1.9, ar_realTotalTime = 3.8,
           ar_time = 0, ar_idealHeight = 0, ar_realHeight = 0 \<rparr>)"

definition AirResistanceSimulation_update :: "airres \<Rightarrow> real \<Rightarrow> airres \<times> bool" where
  "AirResistanceSimulation_update s deltaTime =
     (let s1 = s\<lparr> ar_time := ar_time s + deltaTime \<rparr>;
          t = ar_time s1;
          idealHeight =
            (if t \<le> ar_idealTimeUp s1 then ar_u s1 * t - 0.5 * ar_g s1 * t * t
             else if t \<le> ar_idealTotalTime s1
             then (let fallTime = t - ar_idealTimeUp s1
                   in ar_idealMaxHeight s1 - 0.5 * ar_g s1 * fallTime * fallTime)
             else 0);
          effectiveGUp = ar_g s1 * 1.1;
          effectiveGDown = ar_g s1 * 0.9;
          realHeight =
            (if t \<le> ar_realTimeUp s1 then ar_u s1 * t - 0.5 * effectiveGUp * t * t
             else if t \<le> ar_realTotalTime s1
             then (let fallTime = t - ar_realTimeUp s1
                   in ar_realMaxHeight s1 - 0.5 * effectiveGDown * fallTime * fallTime)
             else 0);
          s2 = s1\<lparr> ar_idealHeight := max 0 idealHeight, ar_realHeight := max 0 realHeight \<rparr>
      in (s2, ar_time s2 \<ge> max (ar_idealTotalTime s2) (ar_realTotalTime s2)))"

definition AirResistance_step :: "airres \<Rightarrow> real \<Rightarrow> airres" where
  "AirResistance_step s deltaTime = fst (AirResistanceSimulation_update s deltaTime)"

section \<open>Kinetic energy halved on the way up (unnamed/part_000, second page)\<close>

definition CONFIG_ke_g :: real where
  "CONFIG_ke_g = 10"

definition CONFIG_ke_v0 :: real where
  "CONFIG_ke_v0 = 4"

definition CONFIG_ke_mass :: real where
  "CONFIG_ke_mass = 1"

definition KE0 :: real where
  "KE0 = 0.5 * CONFIG_ke_mass * CONFIG_ke_v0 * CONFIG_ke_v0"

record projectile =
  pj_y :: real
  pj_v :: real
  pj_time :: real
  pj_ascending :: bool
  pj_finished :: bool
  pj_KE :: real
  pj_PE :: real
  pj_totalE :: real

definition Projectile_reset :: projectile where
  "Projectile_reset =
     \<lparr> pj_y = 0, pj_v = CONFIG_ke_v0, pj_time = 0, pj_ascending = True, pj_finished = False,
       pj_KE = KE0, pj_PE = 0, pj_totalE = KE0 \<rparr>"

text \<open>\<open>update(deltaTime)\<close> of \<open>Projectile\<close>; it returns nothing.\<close>

definition Projectile_update :: "projectile \<Rightarrow> real \<Rightarrow> projectile" where
  "Projectile_update p deltaTime =
     (if pj_finished p then p
      else
        (let p1 = p\<lparr> pj_time := pj_time p + deltaTime \<rparr>;
             v = CONFIG_ke_v0 - CONFIG_ke_g * pj_time p1;
             y = CONFIG_ke_v0 * pj_time p1 - 0.5 * CONFIG_ke_g * pj_time p1 * pj_time p1;
             p2 = p1\<lparr> pj_v := v, pj_y := y, pj_ascending := (v > 0),
                      pj_KE := 0.5 * CONFIG_ke_mass * v * v,
                      pj_PE := CONFIG_ke_mass * CONFIG_ke_g * y \<rparr>
         in if pj_y p2 \<le> 0 \<and> pj_time p2 > 0.1
            then p2\<lparr> pj_y := 0, pj_v := CONFIG_ke_v0, pj_KE := KE0, pj_PE := 0,
                     pj_finished := True \<rparr>
            else p2))"

section \<open>Two falling stones (satmass-simulation, second page)\<close>

text \<open>
  \<open>finalVelocity\<close> and \<open>fallTime\<close> are \<open>null\<close> until the stone reaches the ground.  The
  trail of a stone is filled by the drawing code only and is left out.
\<close>

record stone =
  sn_id :: nat
  sn_initialHeight :: real
  sn_height :: real
  sn_velocity :: real
  sn_time :: real
  sn_reachedGround :: bool
  sn_finalVelocity :: "real option"
  sn_fallTime :: "real option"
  sn_theoreticalFinalV :: real
  sn_theoreticalFallTime :: real

record fallingstones =
  fs_stones :: "stone list"
  fs_time :: real
  fs_g :: real
  fs_theoreticalRatio :: real

definition stone_new :: "real \<Rightarrow> nat \<Rightarrow> real \<Rightarrow> stone" where
  "stone_new g n h =
     \<lparr> sn_id = n, sn_initialHeight = h, sn_height = h, sn_velocity = 0, sn_time = 0,
       sn_reachedGround = False, sn_finalVelocity = None, sn_fallTime = None,
       sn_theoreticalFinalV = sqrt (2 * g * h),
       sn_theoreticalFallTime = sqrt (2 * h / g) \<rparr>"

text \<open>The constructor with \<open>calculateTheoreticalValues()\<close>; \<open>h1 = 20\<close>, \<open>h2 = 30\<close>.\<close>

definition FallingStonesSimulation_new :: fallingstones where
  "FallingStonesSimulation_new =
     (let g = 10;
          stone1 = stone_new g 1 20;
          stone2 = stone_new g 2 30
      in \<lparr> fs_stones = [stone1, stone2], fs_time = 0, fs_g = g,
           fs_theoreticalRatio = sn_theoreticalFinalV stone1 / sn_theoreticalFinalV stone2 \<rparr>)"

text \<open>The body of \<open>this.stones.forEach\<close> in \<open>update\<close>.\<close>

definition stone_update :: "real \<Rightarrow> real \<Rightarrow> stone \<Rightarrow> stone" where
  "stone_update g scaledDelta st =
     (if \<not> sn_reachedGround st then
        (let st1 = st\<lparr> sn_time := sn_time st + scaledDelta \<rparr>;
             st2 = st1\<lparr> sn_velocity := g * sn_time st1,
                        sn_height := sn_initialHeight st1
                                     - 0.5 * g * sn_time st1 * sn_time st1 \<rparr>
         in if sn_height st2 \<le> 0
            then st2\<lparr> sn_height := 0, sn_velocity := sn_theoreticalFinalV st2,
                      sn_reachedGround := True,
                      sn_finalVelocity := Some (sn_theoreticalFinalV st2),
                      sn_fallTime := Some (sn_time st2) \<rparr>
            else st2)
      else st)"

definition FallingStonesSimulation_update ::
    "fallingstones \<Rightarrow> real \<Rightarrow> real \<Rightarrow> fallingstones \<times> bool" where
  "FallingStonesSimulation_update s deltaTime speedMultiplier =
     (let scaledDelta = deltaTime * speedMultiplier;
          s1 = s\<lparr> fs_time := fs_time s + scaledDelta \<rparr>;
          s2 = s1\<lparr> fs_stones := map (stone_update (fs_g s1) scaledDelta) (fs_stones s1) \<rparr>
      in (s2, list_all sn_reachedGround (fs_stones s2)))"

definition FallingStones_step :: "fallingstones \<Rightarrow> real \<times> real \<Rightarrow> fallingstones" where
  "FallingStones_step s i = fst (FallingStonesSimulation_update s (fst i) (snd i))"

section \<open>Last t seconds of ascent (unnamed/part_003, third page)\<close>

datatype throw_phase = Ascending | Descending | Complete

record ballthrow =
  ba_u :: real
  ba_g :: real
  ba_tLast :: real
  ba_totalAscentTime :: real
  ba_maxHeight :: real
  ba_intervalStart :: real
  ba_intervalEnd :: real
  ba_heightAtIntervalStart :: real
  ba_theoreticalDistance :: real
  ba_actualIntervalDistance :: real
  ba_time :: real
  ba_height :: real
  ba_velocity :: real
  ba_phase :: throw_phase
  ba_inInterval :: bool
  ba_trail :: "real list"
  ba_intervalPositions :: "(real \<times> real) list"
  ba_completed :: bool
  ba_symmetryTime :: real
  ba_symmetryHeight :: real

definition BallThrowSimulation_reset :: "ballthrow \<Rightarrow> ballthrow" where
  "BallThrowSimulation_reset s =
     s\<lparr> ba_time := 0, ba_height := 0, ba_velocity := ba_u s, ba_phase := Ascending,
        ba_inInterval := False, ba_trail := [], ba_intervalPositions := [],
        ba_completed := False, ba_symmetryTime := 0, ba_symmetryHeight := 0 \<rparr>"

text \<open>The constructor: \<open>reset()\<close>, then \<open>calculateTheoreticalValues()\<close>.\<close>

definition BallThrowSimulation_new :: ballthrow where
  "BallThrowSimulation_new =
     (let u = 20;
          g = 10;
          tLast = 1;
          totalAscentTime = u / g;
          maxHeight = (u * u) / (2 * g);
          intervalStart = max 0 (totalAscentTime - tLast);
          intervalEnd = totalAscentTime;
          tStart = intervalStart;
          heightAtIntervalStart = u * tStart - 0.5 * g * tStart * tStart;
          theoreticalDistance = 0.5 * g * tLast * tLast;
          actualIntervalDistance = maxHeight - heightAtIntervalStart
      in BallThrowSimulation_reset
           \<lparr> ba_u = u, ba_g = g, ba_tLast = tLast, ba_totalAscentTime = totalAscentTime,
             ba_maxHeight = maxHeight, ba_intervalStart = intervalStart,
             ba_intervalEnd = intervalEnd, ba_heightAtIntervalStart = heightAtIntervalStart,
             ba_theoreticalDistance = theoreticalDistance,
             ba_actualIntervalDistance = actualIntervalDistance,
             ba_time = 0, ba_height = 0, ba_velocity = 0, ba_phase = Ascending,
             ba_inInterval = False, ba_trail = [], ba_intervalPositions = [],
             ba_completed = False, ba_symmetryTime = 0, ba_symmetryHeight = 0 \<rparr>)"

definition ballthrow_push_trail :: "ballthrow \<Rightarrow> ballthrow" where
  "ballthrow_push_trail s =
     (let pushed = ba_trail s @ [ba_height s]
      in s\<lparr> ba_trail := (if length pushed > 100 then tl pushed else pushed) \<rparr>)"

definition BallThrowSimulation_update :: "ballthrow \<Rightarrow> real \<Rightarrow> real \<Rightarrow> ballthrow \<times> bool" where
  "BallThrowSimulation_update s deltaTime speedMultiplier =
     (let scaledDelta = deltaTime * speedMultiplier;
          s' =
            (if ba_phase s = Ascending then
               (let s1 = s\<lparr> ba_time := ba_time s + scaledDelta \<rparr>;
                    s2 = s1\<lparr> ba_velocity := ba_u s1 - ba_g s1 * ba_time s1,
                             ba_height := ba_u s1 * ba_time s1
                                          - 0.5 * ba_g s1 * ba_time s1 * ba_time s1 \<rparr>;
                    s3 = (if ba_time s2 \<ge> ba_intervalStart s2 \<and> ba_time s2 \<le> ba_intervalEnd s2
                          then s2\<lparr> ba_inInterval := True,
                                   ba_intervalPositions :=
                                     ba_intervalPositions s2 @ [(ba_time s2, ba_height s2)] \<rparr>
                          else s2\<lparr> ba_inInterval := False \<rparr>);
                    s4 = ballthrow_push_trail s3
                in if ba_time s4 \<ge> ba_totalAscentTime s4
                   then s4\<lparr> ba_phase := Descending, ba_time := 0, ba_velocity := 0,
                            ba_height := ba_maxHeight s4 \<rparr>
                   else s4)
             else if ba_phase s = Descending then
               (let s1 = s\<lparr> ba_time := ba_time s + scaledDelta \<rparr>;
                    s2 = s1\<lparr> ba_velocity := - ba_g s1 * ba_time s1,
                             ba_height := ba_maxHeight s1
                                          - 0.5 * ba_g s1 * ba_time s1 * ba_time s1 \<rparr>;
                    s3 = ballthrow_push_trail s2;
                    s4 = (if ba_time s3 \<le> ba_tLast s3
                          then s3\<lparr> ba_symmetryTime := ba_time s3,
                                   ba_symmetryHeight := ba_maxHeight s3 - ba_height s3 \<rparr>
                          else s3)
                in if ba_height s4 \<le> 0
                   then s4\<lparr> ba_height := 0, ba_phase := Complete, ba_completed := True \<rparr>
                   else s4)
             else s)
      in (s', ba_completed s'))"

definition BallThrow_step :: "ballthrow \<Rightarrow> real \<times> real \<Rightarrow> ballthrow" where
  "BallThrow_step s i = fst (BallThrowSimulation_update s (fst i) (snd i))"

section \<open>Closed forms and invariants\<close>

text \<open>
  The closed form of the dual-ball page, in the words of its comments: a ball that has
  fallen for \<open>tau\<close> seconds is at \<open>h\<^sub>0 - \<onehalf> g tau\<^sup>2\<close> with speed \<open>g tau\<close>, where \<open>tau\<close> is
  the time since its drop, zero before the drop.
\<close>

definition ball_closed_form :: "dualball \<Rightarrow> ball \<Rightarrow> bool" where
  "ball_closed_form sim b =
     (let tau = max 0 (db_time sim - b_dropTime b)
      in b_height b = b_initialHeight b - 0.5 * db_g sim * tau * tau
         \<and> b_velocity b = db_g sim * tau)"

definition dualball_closed_form :: "dualball \<Rightarrow> bool" where
  "dualball_closed_form sim = list_all (ball_closed_form sim) (db_balls sim)"

text \<open>
  What every state of the dual-ball page reached with non-negative scaled deltas
  satisfies: each ball starts at the height from which it lands exactly at \<open>totalTime\<close>,
  it is on its closed form, and it has landed exactly when the time is \<open>totalTime\<close>.
\<close>

definition ball_inv :: "dualball \<Rightarrow> ball \<Rightarrow> bool" where
  "ball_inv sim b =
     (b_dropTime b \<le> db_totalTime sim
      \<and> b_initialHeight b
          = 0.5 * db_g sim * (db_totalTime sim - b_dropTime b) * (db_totalTime sim - b_dropTime b)
      \<and> (b_id b = 1 \<longrightarrow>
            db_ball1ImpactVelocity sim = db_g sim * (db_totalTime sim - b_dropTime b))
      \<and> (b_id b \<noteq> 1 \<longrightarrow>
            db_ball2ImpactVelocity sim = db_g sim * (db_totalTime sim - b_dropTime b))
      \<and> ball_closed_form sim b
      \<and> b_landed b = (db_time sim = db_totalTime sim))"

definition db_inv :: "dualball \<Rightarrow> bool" where
  "db_inv sim =
     (0 < db_g sim \<and> db_time sim \<le> db_totalTime sim \<and> db_balls sim \<noteq> []
      \<and> list_all (ball_inv sim) (db_balls sim))"

definition db_heights_ok :: "dualball \<Rightarrow> bool" where
  "db_heights_ok sim = list_all (\<lambda>b. 0 \<le> b_height b) (db_balls sim)"

text \<open>The three stages of the brick-throw \<open>update\<close>, named for the proofs.\<close>

definition brick_advance :: "brick \<Rightarrow> real \<Rightarrow> brick" where
  "brick_advance s scaledDelta =
     (let s1 = s\<lparr> bt_time := bt_time s + scaledDelta \<rparr>
      in if bt_phase s1 = throwing \<and> bt_time s1 > 0.3
         then s1\<lparr> bt_phase := ascending, bt_time := 0 \<rparr> else s1)"

definition brick_move :: "brick \<Rightarrow> brick" where
  "brick_move s =
     (if bt_phase s = ascending \<or> bt_phase s = continuing then brick_rise s
      else if bt_phase s = descending then brick_fall s
      else s)"

definition brick_energies :: "brick \<Rightarrow> brick" where
  "brick_energies s =
     s\<lparr> bt_currentKE := Some (0.5 * bt_velocity s * bt_velocity s),
        bt_currentPE := Some (bt_g s * max 0 (bt_height s)),
        bt_currentTotal :=
          Some (0.5 * bt_velocity s * bt_velocity s + bt_g s * max 0 (bt_height s)) \<rparr>"

definition brick_inv :: "brick \<Rightarrow> bool" where
  "brick_inv s = (0 \<le> bt_g s \<and> 0 \<le> bt_maxHeight s \<and> 0 \<le> bt_time s \<and> 0 \<le> bt_height s)"

definition projectile_inv :: "projectile \<Rightarrow> bool" where
  "projectile_inv p = (0 \<le> pj_time p \<and> 0 \<le> pj_y p)"

definition fs_heights_ok :: "fallingstones \<Rightarrow> bool" where
  "fs_heights_ok s = list_all (\<lambda>st. 0 \<le> sn_height st) (fs_stones s)"

definition ballthrow_inv :: "ballthrow \<Rightarrow> bool" where
  "ballthrow_inv s =
     (0 < ba_g s \<and> ba_totalAscentTime s * ba_g s = ba_u s \<and> 0 \<le> ba_maxHeight s
      \<and> 0 \<le> ba_time s \<and> 0 \<le> ba_height s)"

text \<open>
  The trajectories of the other pages, in the words of their comments.  Stone-throw: up
  with \<open>u t - \<onehalf> g t\<^sup>2\<close> and \<open>u - g t\<close> until \<open>timeToMaxHeight\<close>, then down from \<open>maxHeight\<close>
  with \<open>maxHeight - \<onehalf> g tau\<^sup>2\<close> and \<open>- g tau\<close>, \<open>tau\<close> the time since the top.
\<close>

definition stonethrow_height_at :: "stonethrow \<Rightarrow> real \<Rightarrow> real" where
  "stonethrow_height_at s t =
     (if t \<le> st_timeToMaxHeight s
      then st_initialVelocity s * t - 0.5 * st_g s * t * t
      else st_maxHeight s
           - 0.5 * st_g s * (t - st_timeToMaxHeight s) * (t - st_timeToMaxHeight s))"

definition stonethrow_velocity_at :: "stonethrow \<Rightarrow> real \<Rightarrow> real" where
  "stonethrow_velocity_at s t =
     (if t \<le> st_timeToMaxHeight s then st_initialVelocity s - st_g s * t
      else - st_g s * (t - st_timeToMaxHeight s))"

text \<open>
  The stone of stone-throw is on its trajectory until it has landed; then it rests at
  \<open>totalTime\<close>.  \<open>stonethrow_inv\<close> holds the constants of the constructor and a time that
  is not negative.
\<close>

definition stonethrow_closed_form :: "stonethrow \<Rightarrow> bool" where
  "stonethrow_closed_form s =
     (if st_phase s = Landed
      then st_time s = st_totalTime s \<and> st_height s = 0 \<and> st_velocity s = 0
      else st_height s = stonethrow_height_at s (st_time s)
           \<and> st_velocity s = stonethrow_velocity_at s (st_time s))"

definition stonethrow_inv :: "stonethrow \<Rightarrow> bool" where
  "stonethrow_inv s =
     (st_g s = 9.8 \<and> st_initialVelocity s = 98 \<and> st_timeToMaxHeight s = 10
      \<and> st_maxHeight s = 500 \<and> st_totalTime s = 10 + sqrt (2 * 500 / 9.8)
      \<and> 0 \<le> st_time s)"

text \<open>
  Air-resistance: the ideal flight with \<open>g\<close> both ways, and the real one with \<open>1.1 g\<close> on
  the way up and \<open>0.9 g\<close> on the way down; both rest at 0 after their total time.
\<close>

definition airres_ideal_at :: "airres \<Rightarrow> real \<Rightarrow> real" where
  "airres_ideal_at s t =
     (if t \<le> ar_idealTimeUp s then ar_u s * t - 0.5 * ar_g s * t * t
      else if t \<le> ar_idealTotalTime s
      then ar_idealMaxHeight s - 0.5 * ar_g s * (t - ar_idealTimeUp s) * (t - ar_idealTimeUp s)
      else 0)"

definition airres_real_at :: "airres \<Rightarrow> real \<Rightarrow> real" where
  "airres_real_at s t =
     (if t \<le> ar_realTimeUp s then ar_u s * t - 0.5 * (ar_g s * 1.1) * t * t
      else if t \<le> ar_realTotalTime s
      then ar_realMaxHeight s
           - 0.5 * (ar_g s * 0.9) * (t - ar_realTimeUp s) * (t - ar_realTimeUp s)
      else 0)"

text \<open>
  What every state of the air-resistance page reached from the constructed one satisfies:
  the constants are those of the constructor and the two heights are the trajectories at
  the time, not below 0.
\<close>

definition airres_inv :: "airres \<Rightarrow> bool" where
  "airres_inv s =
     (ar_g s = 10 \<and> ar_u s = 20 \<and> ar_idealMaxHeight s = 20 \<and> ar_idealTimeUp s = 2
      \<and> ar_idealTotalTime s = 4 \<and> ar_realMaxHeight s = 18.1 \<and> ar_realTimeUp s = 1.9
      \<and> ar_realTotalTime s = 3.8
      \<and> ar_idealHeight s = max 0 (airres_ideal_at s (ar_time s))
      \<and> ar_realHeight s = max 0 (airres_real_at s (ar_time s)))"

text \<open>The two heights of air-resistance are exactly those of the trajectories.\<close>

definition airres_closed_form :: "airres \<Rightarrow> bool" where
  "airres_closed_form s =
     (ar_idealHeight s = airres_ideal_at s (ar_time s)
      \<and> ar_realHeight s = airres_real_at s (ar_time s))"

text \<open>The kinetic-energy projectile: \<open>y = v\<^sub>0 t - \<onehalf> g t\<^sup>2\<close> and \<open>v = v\<^sub>0 - g t\<close>.\<close>

definition projectile_height_at :: "real \<Rightarrow> real" where
  "projectile_height_at t = CONFIG_ke_v0 * t - 0.5 * CONFIG_ke_g * t * t"

definition projectile_velocity_at :: "real \<Rightarrow> real" where
  "projectile_velocity_at t = CONFIG_ke_v0 - CONFIG_ke_g * t"

text \<open>
  Falling stones: a stone in the air has the clock of the page as its own time and is at
  \<open>h\<^sub>0 - \<onehalf> g t\<^sup>2\<close> with speed \<open>g t\<close>; a stone on the ground is at 0 with its theoretical
  final speed.
\<close>

definition stone_closed_form :: "real \<Rightarrow> real \<Rightarrow> stone \<Rightarrow> bool" where
  "stone_closed_form g t st =
     (if sn_reachedGround st
      then sn_height st = 0 \<and> sn_velocity st = sn_theoreticalFinalV st
      else sn_time st = t \<and> sn_height st = sn_initialHeight st - 0.5 * g * t * t
           \<and> sn_velocity st = g * t)"

definition fs_closed_form :: "fallingstones \<Rightarrow> bool" where
  "fs_closed_form s = list_all (stone_closed_form (fs_g s) (fs_time s)) (fs_stones s)"

text \<open>
  Ball-throw: the time is counted from the start of the phase.  Ascending,
  \<open>h = u t - \<onehalf> g t\<^sup>2\<close> and \<open>v = u - g t\<close>; descending, \<open>h = maxHeight - \<onehalf> g t\<^sup>2\<close> and
  \<open>v = - g t\<close>; complete, the ball is on the ground.
\<close>

definition ballthrow_closed_form :: "ballthrow \<Rightarrow> bool" where
  "ballthrow_closed_form s =
     (if ba_phase s = Ascending
      then ba_height s = ba_u s * ba_time s - 0.5 * ba_g s * ba_time s * ba_time s
           \<and> ba_velocity s = ba_u s - ba_g s * ba_time s
      else if ba_phase s = Descending
      then ba_height s = ba_maxHeight s - 0.5 * ba_g s * ba_time s * ba_time s
           \<and> ba_velocity s = - ba_g s * ba_time s
      else ba_height s = 0)"

text \<open>
  The brick waits in the phases \<open>at_target\<close> and \<open>at_max\<close> for its timeout.
  \<open>upto_pause\<close> cuts a sequence of states after the first one that waits.
  \<open>scaled_total\<close> is the simulated time a list of calls adds up to.
\<close>

definition brick_paused :: "brick \<Rightarrow> bool" where
  "brick_paused s = (bt_phase s = at_target \<or> bt_phase s = at_max)"

fun upto_pause :: "brick list \<Rightarrow> brick list" where
  "upto_pause [] = []"
| "upto_pause (s # ss) = (if brick_paused s then [s] else s # upto_pause ss)"

definition scaled_total :: "(real \<times> real) list \<Rightarrow> real" where
  "scaled_total inputs = sum_list (map (\<lambda>i. fst i * snd i) inputs)"

section \<open>Runs and invariants\<close>

lemma states_after_inv:
  assumes step: "\<And>s i. I s \<Longrightarrow> P i \<Longrightarrow> I (step s i)"
  shows "I s \<Longrightarrow> list_all P inputs \<Longrightarrow> list_all I (states_after step s inputs)"
  by (induction inputs arbitrary: s) (simp_all add: step)

lemma states_after_all:
  assumes step: "\<And>s i. I (step s i)"
  shows "list_all I (states_after step s inputs)"
  by (induction inputs arbitrary: s) (simp_all add: step)

lemma foldl_inv:
  assumes step: "\<And>s i. I s \<Longrightarrow> P i \<Longrightarrow> I (step s i)"
  shows "I s \<Longrightarrow> list_all P inputs \<Longrightarrow> I (foldl step s inputs)"
  by (induction inputs arbitrary: s) (simp_all add: step)

lemma states_after_sorted:
  assumes step: "\<And>s i. I s \<Longrightarrow> P i \<Longrightarrow> I (step s i) \<and> f s \<le> f (step s i)"
  shows "I s \<Longrightarrow> list_all P inputs \<Longrightarrow> sorted (map f (s # states_after step s inputs))"
proof (induction inputs arbitrary: s)
  case Nil
  then show ?case by simp
next
  case (Cons i inputs)
  then have "I (step s i)" "f s \<le> f (step s i)" using step [of s i] by simp_all
  moreover have "sorted (map f (step s i # states_after step (step s i) inputs))"
    using Cons.IH [of "step s i"] Cons.prems \<open>I (step s i)\<close> by simp
  ultimately show ?case by (simp only: states_after.simps list.map sorted2 simp_thms)
qed

section \<open>Arithmetic of the parabolas\<close>

lemma sq_le: "0 \<le> a \<Longrightarrow> a \<le> b \<Longrightarrow> a * a \<le> b * (b::real)"
  by (simp add: mult_mono)

lemma sq_eq: "0 \<le> a \<Longrightarrow> a \<le> b \<Longrightarrow> b * b \<le> a * a \<Longrightarrow> a = (b::real)"
proof (rule ccontr)
  assume h: "0 \<le> a" "a \<le> b" "b * b \<le> a * a" and ne: "a \<noteq> b"
  then have "a < b" by simp
  with h have "a * a < b * b" by (intro mult_strict_mono') simp_all
  with h show False by simp
qed

lemma fall_height_sign:
  fixes g :: real
  assumes "0 < g"
  shows "(0.5 * g * F * F - 0.5 * g * tau * tau \<le> 0) = (F * F \<le> tau * tau)"
proof -
  have "0.5 * g * F * F - 0.5 * g * tau * tau = (0.5 * g) * (F * F - tau * tau)"
    by (simp add: algebra_simps)
  moreover have "0 < 0.5 * g" using assms by simp
  ultimately show ?thesis
    by (simp add: mult_le_0_iff)
qed

lemma rise_height_nonneg:
  fixes u g t :: real
  assumes "0 \<le> g" "0 \<le> t" "\<not> u - g * t \<le> 0"
  shows "0 \<le> u * t - 0.5 * g * t * t"
proof -
  have "0 \<le> g * t" using assms by simp
  with assms have "0 \<le> u - 0.5 * g * t" by linarith
  then have "0 \<le> t * (u - 0.5 * g * t)" using assms by (intro mult_nonneg_nonneg)
  then show ?thesis by (simp add: algebra_simps)
qed

lemma ascent_height_nonneg:
  fixes u g t T :: real
  assumes "0 < g" "0 \<le> t" "T * g = u" "\<not> T \<le> t"
  shows "0 \<le> u * t - 0.5 * g * t * t"
proof (rule rise_height_nonneg)
  have "g * t < g * T" using assms by (intro mult_strict_left_mono) simp_all
  then show "\<not> u - g * t \<le> 0" using assms by (simp add: mult.commute)
qed (use assms in simp_all)

lemma early_height_nonneg:
  fixes t :: real
  assumes "0 \<le> t" "\<not> 0.1 < t"
  shows "0 \<le> 4 * t - 0.5 * 10 * t * t"
proof -
  have "0 \<le> t * (4 - 5 * t)" using assms by (intro mult_nonneg_nonneg) simp_all
  then show ?thesis by (simp add: algebra_simps)
qed

lemma sqrt_236_bounds: "15 < sqrt 236" "sqrt 236 < 16"
  by (rule real_less_rsqrt, simp) (rule real_less_lsqrt, simp_all)

lemma sqrt_stone_bounds: "0 < sqrt (2 * 500 / 9.8)" "sqrt (2 * 500 / 9.8) \<le> 20"
  by (simp, rule real_le_lsqrt, simp_all)


lemma sqrt_ratio: "0 < c \<Longrightarrow> 0 < b \<Longrightarrow> sqrt (a / c) / sqrt (b / c) = sqrt (a / b)"
  by (simp add: real_sqrt_divide)

section \<open>The dual-ball stepper keeps its invariant\<close>

lemma ball_inv_cong:
  assumes "db_g s' = db_g s" "db_totalTime s' = db_totalTime s"
    "db_ball1ImpactVelocity s' = db_ball1ImpactVelocity s"
    "db_ball2ImpactVelocity s' = db_ball2ImpactVelocity s"
    "max 0 (db_time s' - b_dropTime b) = max 0 (db_time s - b_dropTime b)"
    "(db_time s' = db_totalTime s) = (db_time s = db_totalTime s)"
    "ball_inv s b"
  shows "ball_inv s' b"
  using assms by (auto simp add: ball_inv_def ball_closed_form_def Let_def split: if_splits)

lemma ball_update_inv:
  assumes g: "0 < db_g sim"
    and same: "db_g sim' = db_g sim" "db_totalTime sim' = db_totalTime sim"
           "db_ball1ImpactVelocity sim' = db_ball1ImpactVelocity sim"
           "db_ball2ImpactVelocity sim' = db_ball2ImpactVelocity sim"
    and t: "db_time sim \<le> db_time sim'" "db_time sim' \<le> db_totalTime sim"
    and b: "ball_inv sim b"
  shows "ball_inv sim' (ball_update sim' b)"
proof (cases "db_time sim' \<ge> b_dropTime b \<and> \<not> b_landed b")
  case False
  then have upd: "ball_update sim' b = b" by (auto simp add: ball_update_def)
  show ?thesis
  proof (cases "b_landed b")
    case True
    with b have "db_time sim = db_totalTime sim" by (simp add: ball_inv_def)
    with t have "db_time sim' = db_time sim" by simp
    with b same show ?thesis unfolding upd by (intro ball_inv_cong [of sim' sim]) simp_all
  next
    case nl: False
    with False have lt: "db_time sim' < b_dropTime b" by simp
    with t have lt0: "db_time sim < b_dropTime b" by simp
    from b have "b_dropTime b \<le> db_totalTime sim" by (simp add: ball_inv_def)
    with lt lt0 have ne: "db_time sim' \<noteq> db_totalTime sim" "db_time sim \<noteq> db_totalTime sim"
      by simp_all
    from lt lt0 have mx: "max 0 (db_time sim' - b_dropTime b) = 0"
      "max 0 (db_time sim - b_dropTime b) = 0"
      by simp_all
    from b same ne mx show ?thesis unfolding upd by (intro ball_inv_cong [of sim' sim]) simp_all
  qed
next
  case True
  define tau where "tau = db_time sim' - b_dropTime b"
  define F where "F = db_totalTime sim - b_dropTime b"
  define g where "g = db_g sim"
  have tau: "0 \<le> tau" "tau \<le> F" using True t by (simp_all add: tau_def F_def)
  have h0: "b_initialHeight b = 0.5 * g * F * F" using b by (simp add: ball_inv_def F_def g_def)
  have imp: "b_id b = 1 \<Longrightarrow> db_ball1ImpactVelocity sim = g * F"
     "b_id b \<noteq> 1 \<Longrightarrow> db_ball2ImpactVelocity sim = g * F"
    using b by (simp_all add: ball_inv_def F_def g_def)
  have drop: "b_dropTime b \<le> db_totalTime sim" using b by (simp add: ball_inv_def)
  have le: "tau * tau \<le> F * F" using tau by (rule sq_le)
  have mx: "max 0 tau = tau" using tau by simp
  have sign: "(0.5 * g * F * F - 0.5 * g * tau * tau \<le> 0) = (F * F \<le> tau * tau)"
    using \<open>0 < db_g sim\<close> unfolding g_def by (rule fall_height_sign)
  have upd: "ball_update sim' b =
      (let h = b_initialHeight b - 0.5 * g * tau * tau;
           pushed = b_trail b @ [h];
           trail = (if length pushed > 60 then tl pushed else pushed);
           b1 = b\<lparr> b_falling := True, b_height := h, b_velocity := g * tau, b_trail := trail \<rparr>
       in if h \<le> 0 then b1\<lparr> b_height := 0, b_landed := True, b_velocity := g * F \<rparr> else b1)"
    using True same imp by (simp add: ball_update_def Let_def tau_def g_def)
  show ?thesis
  proof (cases "F * F \<le> tau * tau")
    case neg: True
    with tau have eq: "tau = F" by (intro sq_eq)
    then have t5: "db_time sim' = db_totalTime sim" by (simp add: tau_def F_def)
    have hz: "b_initialHeight b - 0.5 * g * tau * tau \<le> 0" using h0 eq by simp
    have "ball_closed_form sim' (ball_update sim' b)"
      using hz h0 eq same t5 drop unfolding upd ball_closed_form_def Let_def
      by (simp add: g_def F_def)
    then show ?thesis
      using hz same t5 drop h0 imp unfolding ball_inv_def upd Let_def
      by (simp add: g_def F_def)
  next
    case pos: False
    then have hp: "\<not> b_initialHeight b - 0.5 * g * tau * tau \<le> 0" using sign h0 by simp
    from pos have "tau \<noteq> F" by auto
    then have t5: "db_time sim' \<noteq> db_totalTime sim" by (simp add: tau_def F_def)
    have "ball_closed_form sim' (ball_update sim' b)"
      using hp same mx unfolding upd ball_closed_form_def Let_def
      by (simp add: g_def tau_def)
    then show ?thesis
      using hp same t5 drop h0 imp True unfolding ball_inv_def upd Let_def
      by (simp add: g_def F_def)
  qed
qed

lemma DualBall_step_inv:
  assumes "db_inv sim" "nonneg_delta i"
  shows "db_inv (DualBall_step sim i)"
proof -
  define t' where "t' = (if db_time sim + fst i * snd i > db_totalTime sim then db_totalTime sim
                         else db_time sim + fst i * snd i)"
  define sim1 where "sim1 = sim\<lparr> db_time := t' \<rparr>"
  have step: "DualBall_step sim i = sim1\<lparr> db_balls := map (ball_update sim1) (db_balls sim1) \<rparr>"
    by (simp add: DualBall_step_def DualBallSimulation_update_def Let_def sim1_def t'_def)
  have t: "db_time sim \<le> t'" "t' \<le> db_totalTime sim"
    using assms by (auto simp: t'_def db_inv_def nonneg_delta_def)
  have "list_all (ball_inv sim1) (map (ball_update sim1) (db_balls sim))"
    unfolding list_all_iff
  proof (clarsimp)
    fix b assume "b \<in> set (db_balls sim)"
    with assms have "ball_inv sim b" by (simp add: db_inv_def list_all_iff)
    then show "ball_inv sim1 (ball_update sim1 b)"
      using assms t by (intro ball_update_inv) (simp_all add: sim1_def db_inv_def)
  qed
  moreover have "ball_inv (sim1\<lparr> db_balls := bs \<rparr>) = ball_inv sim1" for bs
    by (rule ext) (simp add: ball_inv_def ball_closed_form_def)
  ultimately show ?thesis
    using assms t by (simp add: step db_inv_def sim1_def)
qed

lemma DualBall_new_inv: "db_inv DualBallSimulation_new"
  by (simp add: db_inv_def ball_inv_def ball_closed_form_def DualBallSimulation_new_def Let_def
      CONFIG_dualball_g_def CONFIG_dualball_totalTime_def)

lemma db_inv_closed_form: "db_inv sim \<Longrightarrow> dualball_closed_form sim"
  by (simp add: db_inv_def dualball_closed_form_def ball_inv_def list_all_iff)

lemma ball_update_height: "0 \<le> b_height b \<Longrightarrow> 0 \<le> b_height (ball_update sim b)"
  by (simp add: ball_update_def Let_def)

lemma DualBall_step_heights: "db_heights_ok sim \<Longrightarrow> db_heights_ok (DualBall_step sim i)"
  by (simp add: db_heights_ok_def DualBall_step_def DualBallSimulation_update_def Let_def
      list_all_iff ball_update_height)

lemma DualBall_new_heights: "db_heights_ok DualBallSimulation_new"
  by (simp add: db_heights_ok_def DualBallSimulation_new_def Let_def CONFIG_dualball_g_def)

lemma dualball_run_inv:
  "list_all nonneg_delta ds \<Longrightarrow> db_inv (foldl DualBall_step DualBallSimulation_new ds)"
  by (rule foldl_inv [where I = db_inv and P = nonneg_delta])
    (simp_all add: DualBall_step_inv DualBall_new_inv)

lemmas dualball_eval = DualBallSimulation_new_def DualBall_step_def DualBallSimulation_update_def
  ball_update_def CONFIG_dualball_g_def CONFIG_dualball_totalTime_def Let_def

section \<open>The brick-throw stepper, stage by stage\<close>

lemma brick_update_fst:
  "fst (BrickThrowSimulation_update s dt k)
     = brick_energies (brick_move (brick_advance s (dt * k)))"
  by (simp add: BrickThrowSimulation_update_def brick_energies_def brick_move_def
      brick_advance_def Let_def)

lemma brick_update_completed:
  "fst (snd (BrickThrowSimulation_update s dt k))
     = (bt_phase (brick_move (brick_advance s (dt * k))) = landed)"
  by (simp add: BrickThrowSimulation_update_def brick_move_def brick_advance_def Let_def)

lemma brick_update_scheduled:
  "snd (snd (BrickThrowSimulation_update s dt k)) =
     (if bt_phase (brick_advance s (dt * k)) = at_target then Some Timeout_at_target
      else if bt_phase (brick_advance s (dt * k)) = at_max then Some Timeout_at_max
      else None)"
  by (simp add: BrickThrowSimulation_update_def brick_advance_def Let_def)

lemma BrickThrow_step_stages:
  "BrickThrow_step s i = brick_energies (brick_move (brick_advance s (fst i * snd i)))"
  by (simp add: BrickThrow_step_def brick_update_fst)

lemma brick_rise_inv: "brick_inv s \<Longrightarrow> brick_inv (brick_rise s)"
  using rise_height_nonneg [of "bt_g s" "bt_time s" "bt_initialVelocity s"]
  by (auto simp add: brick_inv_def brick_rise_def Let_def)

lemma brick_fall_inv: "brick_inv s \<Longrightarrow> brick_inv (brick_fall s)"
  by (auto simp add: brick_inv_def brick_fall_def Let_def)

lemma brick_update_inv:
  assumes "brick_inv s" "0 \<le> dt * k"
  shows "brick_inv (fst (BrickThrowSimulation_update s dt k))"
proof -
  have "brick_inv (brick_advance s (dt * k))"
    using assms by (simp add: brick_advance_def brick_inv_def Let_def)
  then have "brick_inv (brick_move (brick_advance s (dt * k)))"
    by (simp add: brick_move_def brick_rise_inv brick_fall_inv)
  then show ?thesis
    by (simp add: brick_update_fst brick_energies_def brick_inv_def)
qed

lemma timeout_callback_inv: "brick_inv s \<Longrightarrow> brick_inv (timeout_callback t s)"
  by (cases t) (simp_all add: brick_inv_def)

lemma brick_step_inv:
  "brick_inv (bw_sim w) \<Longrightarrow> nonneg_event e \<Longrightarrow> brick_inv (bw_sim (brick_step w e))"
  by (cases e)
    (simp_all add: split_beta Let_def brick_update_inv timeout_callback_inv nonneg_delta_def)

lemma brick_new_inv: "brick_inv (bw_sim brick_world_new)"
  by (simp add: brick_world_new_def BrickThrowSimulation_new_def BrickThrowSimulation_reset_def
      brick_inv_def Let_def)

lemmas brick_eval =
  brick_world_new_def BrickThrowSimulation_new_def BrickThrowSimulation_reset_def
  BrickThrowSimulation_update_def brick_rise_def brick_fall_def Let_def

lemma brick_rise_fields [simp]:
  "bt_g (brick_rise s) = bt_g s" "bt_initialVelocity (brick_rise s) = bt_initialVelocity s"
  "bt_maxHeight (brick_rise s) = bt_maxHeight s" "bt_time (brick_rise s) = bt_time s"
  by (simp_all add: brick_rise_def Let_def)

lemma brick_fall_fields [simp]:
  "bt_g (brick_fall s) = bt_g s" "bt_initialVelocity (brick_fall s) = bt_initialVelocity s"
  "bt_maxHeight (brick_fall s) = bt_maxHeight s" "bt_time (brick_fall s) = bt_time s"
  by (simp_all add: brick_fall_def Let_def)

lemma brick_advance_fields [simp]:
  "bt_g (brick_advance s d) = bt_g s" "bt_initialVelocity (brick_advance s d) = bt_initialVelocity s"
  "bt_maxHeight (brick_advance s d) = bt_maxHeight s"
  "bt_height (brick_advance s d) = bt_height s" "bt_velocity (brick_advance s d) = bt_velocity s"
  "bt_trail (brick_advance s d) = bt_trail s"
  "bt_reachedTarget (brick_advance s d) = bt_reachedTarget s"
  "bt_reachedMax (brick_advance s d) = bt_reachedMax s"
  by (simp_all add: brick_advance_def Let_def)

lemma brick_energies_fields [simp]:
  "bt_g (brick_energies s) = bt_g s" "bt_initialVelocity (brick_energies s) = bt_initialVelocity s"
  "bt_maxHeight (brick_energies s) = bt_maxHeight s" "bt_time (brick_energies s) = bt_time s"
  "bt_height (brick_energies s) = bt_height s" "bt_velocity (brick_energies s) = bt_velocity s"
  "bt_phase (brick_energies s) = bt_phase s" "bt_trail (brick_energies s) = bt_trail s"
  "bt_reachedTarget (brick_energies s) = bt_reachedTarget s"
  "bt_reachedMax (brick_energies s) = bt_reachedMax s"
  by (simp_all add: brick_energies_def)

lemma brick_rise_closed:
  "bt_phase (brick_rise s) \<noteq> at_max \<Longrightarrow>
     bt_height (brick_rise s)
       = bt_initialVelocity s * bt_time s - 0.5 * bt_g s * bt_time s * bt_time s
     \<and> bt_velocity (brick_rise s) = bt_initialVelocity s - bt_g s * bt_time s"
  by (simp add: brick_rise_def Let_def split: if_splits)

lemma brick_rise_pinned:
  "bt_phase (brick_rise s) = at_max \<Longrightarrow> bt_phase s \<noteq> at_max \<Longrightarrow>
     bt_height (brick_rise s) = bt_maxHeight s \<and> bt_velocity (brick_rise s) = 0"
  by (simp add: brick_rise_def Let_def split: if_splits)

lemma brick_rise_phase:
  "bt_phase (brick_rise s) = at_max \<or> bt_phase (brick_rise s) = at_target
     \<or> bt_phase (brick_rise s) = bt_phase s"
  by (simp add: brick_rise_def Let_def)

lemma brick_fall_closed:
  "bt_phase (brick_fall s) \<noteq> landed \<Longrightarrow>
     bt_height (brick_fall s) = bt_maxHeight s - 0.5 * bt_g s * bt_time s * bt_time s
     \<and> bt_velocity (brick_fall s) = - bt_g s * bt_time s"
  by (simp add: brick_fall_def Let_def split: if_splits)

lemma brick_fall_phase:
  "bt_phase (brick_fall s) = landed \<or> bt_phase (brick_fall s) = bt_phase s"
  by (simp add: brick_fall_def Let_def)

lemma brick_move_rising:
  assumes "bt_phase (brick_move s) = ascending \<or> bt_phase (brick_move s) = continuing"
  shows "bt_height (brick_move s)
           = bt_initialVelocity s * bt_time (brick_move s)
             - 0.5 * bt_g s * bt_time (brick_move s) * bt_time (brick_move s)
         \<and> bt_velocity (brick_move s) = bt_initialVelocity s - bt_g s * bt_time (brick_move s)"
proof (cases "bt_phase s = ascending \<or> bt_phase s = continuing")
  case True
  then have m: "brick_move s = brick_rise s" by (simp add: brick_move_def)
  with assms have "bt_phase (brick_rise s) \<noteq> at_max" by auto
  then show ?thesis unfolding m using brick_rise_closed [of s] by simp
next
  case False
  show ?thesis
  proof (cases "bt_phase s = descending")
    case True
    with False have m: "brick_move s = brick_fall s" by (simp add: brick_move_def)
    with assms True brick_fall_phase [of s] show ?thesis by auto
  next
    case nd: False
    with False have "brick_move s = s" by (simp add: brick_move_def)
    with assms False show ?thesis by simp
  qed
qed

lemma brick_move_falling:
  assumes "bt_phase (brick_move s) = descending"
  shows "bt_height (brick_move s)
           = bt_maxHeight s - 0.5 * bt_g s * bt_time (brick_move s) * bt_time (brick_move s)
         \<and> bt_velocity (brick_move s) = - bt_g s * bt_time (brick_move s)"
proof (cases "bt_phase s = ascending \<or> bt_phase s = continuing")
  case True
  then have m: "brick_move s = brick_rise s" by (simp add: brick_move_def)
  with assms True brick_rise_phase [of s] show ?thesis by auto
next
  case False
  with assms have d: "bt_phase s = descending" by (auto simp add: brick_move_def split: if_splits)
  with False have m: "brick_move s = brick_fall s" by (simp add: brick_move_def)
  with assms have "bt_phase (brick_fall s) \<noteq> landed" by simp
  then show ?thesis unfolding m using brick_fall_closed [of s] by simp
qed

lemma brick_move_pinned:
  assumes "bt_phase (brick_move s) = at_max" "bt_phase s \<noteq> at_max"
  shows "bt_height (brick_move s) = bt_maxHeight s \<and> bt_velocity (brick_move s) = 0"
proof (cases "bt_phase s = ascending \<or> bt_phase s = continuing")
  case True
  then have m: "brick_move s = brick_rise s" by (simp add: brick_move_def)
  with assms show ?thesis using brick_rise_pinned [of s] by simp
next
  case False
  show ?thesis
  proof (cases "bt_phase s = descending")
    case True
    with False have m: "brick_move s = brick_fall s" by (simp add: brick_move_def)
    with assms True brick_fall_phase [of s] show ?thesis by auto
  next
    case nd: False
    with False have "brick_move s = s" by (simp add: brick_move_def)
    with assms show ?thesis by simp
  qed
qed

lemma brick_advance_phase:
  "bt_phase s \<noteq> throwing \<Longrightarrow> bt_phase (brick_advance s d) = bt_phase s"
  "bt_phase s \<noteq> throwing \<Longrightarrow> bt_time (brick_advance s d) = bt_time s + d"
  by (simp_all add: brick_advance_def Let_def)

section \<open>Some runs of the brick-throw page\<close>

text \<open>
  The states reached by a few short runs, evaluated once.  The initial speed is
  \<open>\<surd>236\<close>, between 15 and 16; the brick is launched by the first call that takes the
  wind-up past 0.3 s.
\<close>

lemma brick_new_constants:
  "bt_initialVelocity BrickThrowSimulation_new = sqrt 236" "bt_g BrickThrowSimulation_new = 10"
  "bt_maxHeight BrickThrowSimulation_new = 11.8" "bt_time BrickThrowSimulation_new = 0"
  "bt_height BrickThrowSimulation_new = 0" "bt_phase BrickThrowSimulation_new = throwing"
  by (simp_all add: BrickThrowSimulation_new_def BrickThrowSimulation_reset_def Let_def)

lemma launch_run:
  "bw_sim (foldl brick_step brick_world_new [Update 0.4 1])
   = BrickThrowSimulation_new \<lparr> bt_time := 0, bt_height := 0, bt_velocity := sqrt 236,
       bt_phase := ascending, bt_trail := [0],
       bt_currentKE := Some (0.5 * sqrt 236 * sqrt 236), bt_currentPE := Some 0,
       bt_currentTotal := Some (0.5 * sqrt 236 * sqrt 236) \<rparr>"
  by (simp add: brick_eval)

lemma target_run:
  "bw_sim (foldl brick_step brick_world_new [Update 0.4 1, Update 1 1])
   = BrickThrowSimulation_new \<lparr> bt_time := 1, bt_height := sqrt 236 - 5,
       bt_velocity := sqrt 236 - 10, bt_phase := at_target, bt_reachedTarget := True,
       bt_trail := [0, sqrt 236 - 5],
       bt_currentKE := Some (0.5 * (sqrt 236 - 10) * (sqrt 236 - 10)),
       bt_currentPE := Some (10 * (sqrt 236 - 5)),
       bt_currentTotal :=
         Some (0.5 * (sqrt 236 - 10) * (sqrt 236 - 10) + 10 * (sqrt 236 - 5)) \<rparr>"
  using sqrt_236_bounds by (simp add: brick_eval)

lemma pause_run:
  "bw_sim (foldl brick_step brick_world_new [Update 0.4 1, Update 1 1, Update 0.1 1])
   = BrickThrowSimulation_new \<lparr> bt_time := 1.1, bt_height := sqrt 236 - 5,
       bt_velocity := sqrt 236 - 10, bt_phase := at_target, bt_reachedTarget := True,
       bt_trail := [0, sqrt 236 - 5],
       bt_currentKE := Some (0.5 * (sqrt 236 - 10) * (sqrt 236 - 10)),
       bt_currentPE := Some (10 * (sqrt 236 - 5)),
       bt_currentTotal :=
         Some (0.5 * (sqrt 236 - 10) * (sqrt 236 - 10) + 10 * (sqrt 236 - 5)) \<rparr>"
  using sqrt_236_bounds by (simp add: brick_eval)

lemma direct_run:
  "bw_sim (foldl brick_step brick_world_new [Update 0.4 1, Update 1.1 1])
   = BrickThrowSimulation_new \<lparr> bt_time := 1.1, bt_height := sqrt 236 * 1.1 - 6.05,
       bt_velocity := sqrt 236 - 11, bt_phase := at_target, bt_reachedTarget := True,
       bt_trail := [0, sqrt 236 * 1.1 - 6.05],
       bt_currentKE := Some (0.5 * (sqrt 236 - 11) * (sqrt 236 - 11)),
       bt_currentPE := Some (10 * (sqrt 236 * 1.1 - 6.05)),
       bt_currentTotal :=
         Some (0.5 * (sqrt 236 - 11) * (sqrt 236 - 11) + 10 * (sqrt 236 * 1.1 - 6.05)) \<rparr>"
  using sqrt_236_bounds by (simp add: brick_eval)

lemma apex_run:
  "bw_sim (foldl brick_step brick_world_new
      [Update 0.4 1, Update 2 1, Update 0.1 1, Fire Timeout_at_max])
   = BrickThrowSimulation_new \<lparr> bt_time := 0, bt_height := 11.8, bt_velocity := 0,
       bt_phase := descending, bt_reachedTarget := True, bt_reachedMax := True,
       bt_trail := [0, sqrt 236 * 2 - 20],
       bt_currentKE := Some 0, bt_currentPE := Some 118, bt_currentTotal := Some 118 \<rparr>"
  using sqrt_236_bounds by (simp add: brick_eval)

lemma landed_run:
  "bw_sim (foldl brick_step brick_world_new
      [Update 0.4 1, Update 2 1, Update 0.1 1, Fire Timeout_at_max, Update 2 1])
   = BrickThrowSimulation_new \<lparr> bt_time := 2, bt_height := 0, bt_velocity := - 20,
       bt_phase := landed, bt_reachedTarget := True, bt_reachedMax := True,
       bt_trail := [0, sqrt 236 * 2 - 20, 11.8 - 20],
       bt_currentKE := Some 200, bt_currentPE := Some 0, bt_currentTotal := Some 200 \<rparr>"
  using sqrt_236_bounds by (simp add: brick_eval)

lemma brick_rising_run:
  "bw_sim (foldl brick_step brick_world_new [Update 0.4 1, Update 0.5 1])
   = BrickThrowSimulation_new \<lparr> bt_time := 0.5, bt_height := sqrt 236 * 0.5 - 1.25,
       bt_velocity := sqrt 236 - 5, bt_phase := ascending,
       bt_trail := [0, sqrt 236 * 0.5 - 1.25],
       bt_currentKE := Some (0.5 * (sqrt 236 - 5) * (sqrt 236 - 5)),
       bt_currentPE := Some (10 * (sqrt 236 * 0.5 - 1.25)),
       bt_currentTotal :=
         Some (0.5 * (sqrt 236 - 5) * (sqrt 236 - 5) + 10 * (sqrt 236 * 0.5 - 1.25)) \<rparr>"
  using sqrt_236_bounds by (simp add: brick_eval)

lemma brick_overshoot_run:
  "bw_sim (foldl brick_step brick_world_new [Update 0.4 1, Update 10 1])
   = BrickThrowSimulation_new \<lparr> bt_time := 10, bt_height := 11.8, bt_velocity := 0,
       bt_phase := at_max, bt_reachedMax := True,
       bt_trail := [0, sqrt 236 * 10 - 500],
       bt_currentKE := Some 0, bt_currentPE := Some 118, bt_currentTotal := Some 118 \<rparr>"
  using sqrt_236_bounds by (simp add: brick_eval)

section \<open>Heights of the other steppers\<close>

lemma StoneThrow_step_height: "0 \<le> st_height (StoneThrow_step s dt)"
  by (simp add: StoneThrow_step_def StoneThrowSimulation_update_def Let_def)

lemma AirResistance_step_height:
  "0 \<le> ar_idealHeight (AirResistance_step s dt) \<and> 0 \<le> ar_realHeight (AirResistance_step s dt)"
  by (simp add: AirResistance_step_def AirResistanceSimulation_update_def Let_def)

lemma Projectile_update_inv:
  assumes "projectile_inv p" "0 \<le> dt"
  shows "projectile_inv (Projectile_update p dt)"
proof (cases "pj_finished p")
  case True
  with assms show ?thesis by (simp add: Projectile_update_def)
next
  case False
  define t where "t = pj_time p + dt"
  have t: "0 \<le> t" using assms by (simp add: t_def projectile_inv_def)
  show ?thesis
  proof (cases "4 * t - 0.5 * 10 * t * t \<le> 0 \<and> 0.1 < t")
    case True
    with False t show ?thesis
      by (simp add: Projectile_update_def projectile_inv_def Let_def CONFIG_ke_v0_def
          CONFIG_ke_g_def t_def)
  next
    case nf: False
    have "0 \<le> 4 * t - 0.5 * 10 * t * t"
    proof (cases "0.1 < t")
      case True with nf show ?thesis by simp
    next
      case False with t show ?thesis by (intro early_height_nonneg)
    qed
    with False nf t show ?thesis
      by (simp add: Projectile_update_def projectile_inv_def Let_def CONFIG_ke_v0_def
          CONFIG_ke_g_def t_def)
  qed
qed

lemma Projectile_reset_inv: "projectile_inv Projectile_reset"
  by (simp add: projectile_inv_def Projectile_reset_def)

lemma stone_update_height: "0 \<le> sn_height st \<Longrightarrow> 0 \<le> sn_height (stone_update g d st)"
  by (simp add: stone_update_def Let_def)

lemma FallingStones_step_heights: "fs_heights_ok s \<Longrightarrow> fs_heights_ok (FallingStones_step s i)"
  by (simp add: fs_heights_ok_def FallingStones_step_def FallingStonesSimulation_update_def
      Let_def list_all_iff stone_update_height)

lemma FallingStones_new_heights: "fs_heights_ok FallingStonesSimulation_new"
  by (simp add: fs_heights_ok_def FallingStonesSimulation_new_def stone_new_def Let_def)

lemma ballthrow_push_trail_simps [simp]:
  "ba_height (ballthrow_push_trail s) = ba_height s"
  "ba_velocity (ballthrow_push_trail s) = ba_velocity s"
  "ba_time (ballthrow_push_trail s) = ba_time s"
  "ba_g (ballthrow_push_trail s) = ba_g s"
  "ba_u (ballthrow_push_trail s) = ba_u s"
  "ba_maxHeight (ballthrow_push_trail s) = ba_maxHeight s"
  "ba_totalAscentTime (ballthrow_push_trail s) = ba_totalAscentTime s"
  "ba_tLast (ballthrow_push_trail s) = ba_tLast s"
  "ba_phase (ballthrow_push_trail s) = ba_phase s"
  by (simp_all add: ballthrow_push_trail_def Let_def)

lemma BallThrow_step_inv:
  assumes "ballthrow_inv s" "nonneg_delta i"
  shows "ballthrow_inv (BallThrow_step s i)"
proof -
  define t where "t = ba_time s + fst i * snd i"
  have t: "0 \<le> t" using assms by (simp add: t_def ballthrow_inv_def nonneg_delta_def)
  have asc: "\<not> ba_totalAscentTime s \<le> t \<Longrightarrow> 0 \<le> ba_u s * t - 0.5 * ba_g s * t * t"
    using assms t by (intro ascent_height_nonneg [where T = "ba_totalAscentTime s"])
      (simp_all add: ballthrow_inv_def)
  show ?thesis
    using assms t asc
    by (auto simp add: BallThrow_step_def BallThrowSimulation_update_def Let_def ballthrow_inv_def
        t_def)
qed

lemma BallThrow_new_inv: "ballthrow_inv BallThrowSimulation_new"
  by (simp add: ballthrow_inv_def BallThrowSimulation_new_def BallThrowSimulation_reset_def
      Let_def)

section \<open>The other steppers, call by call\<close>

subsection \<open>Stone-throw\<close>

lemma StoneThrow_update_landing:
  assumes "st_totalTime s \<le> st_time s + dt"
  shows "StoneThrowSimulation_update s dt
           = (s\<lparr> st_time := st_totalTime s, st_height := 0, st_velocity := 0,
                 st_phase := Landed \<rparr>, True)"
  using assms by (simp add: StoneThrowSimulation_update_def Let_def)

lemma StoneThrow_update_flying:
  assumes "\<not> st_totalTime s \<le> st_time s + dt"
  shows "\<not> snd (StoneThrowSimulation_update s dt)
     \<and> st_time (StoneThrow_step s dt) = st_time s + dt
     \<and> st_height (StoneThrow_step s dt) = max 0 (stonethrow_height_at s (st_time s + dt))
     \<and> st_velocity (StoneThrow_step s dt) = stonethrow_velocity_at s (st_time s + dt)
     \<and> st_phase (StoneThrow_step s dt) \<noteq> Landed"
  using assms
  by (simp add: StoneThrow_step_def StoneThrowSimulation_update_def Let_def
      stonethrow_height_at_def stonethrow_velocity_at_def)

lemma StoneThrow_landed_again:
  assumes "snd (StoneThrowSimulation_update s d0)" "0 \<le> dt"
  shows "StoneThrowSimulation_update (StoneThrow_step s d0) dt = (StoneThrow_step s d0, True)"
proof -
  have l: "st_totalTime s \<le> st_time s + d0"
    using assms(1) StoneThrow_update_flying [of s d0] by blast
  show ?thesis
    using assms(2)
    by (simp add: StoneThrow_step_def StoneThrow_update_landing [OF l])
      (simp add: StoneThrowSimulation_update_def Let_def)
qed

lemma StoneThrow_step_time:
  "st_time (StoneThrow_step s dt) = min (st_time s + dt) (st_totalTime s)"
  by (simp add: StoneThrow_step_def StoneThrowSimulation_update_def Let_def min_def)

lemma StoneThrow_step_consts:
  "st_totalTime (StoneThrow_step s dt) = st_totalTime s"
  by (simp add: StoneThrow_step_def StoneThrowSimulation_update_def Let_def)

lemma stonethrow_time_sorted:
  assumes "list_all (\<lambda>dt. 0 \<le> dt) ts"
  shows "sorted (map st_time
           (StoneThrowSimulation_new # states_after StoneThrow_step StoneThrowSimulation_new ts))"
  using assms
  by (intro states_after_sorted
        [where I = "\<lambda>s. st_time s \<le> st_totalTime s" and P = "\<lambda>dt. 0 \<le> dt"])
    (simp_all add: StoneThrow_step_time StoneThrow_step_consts StoneThrowSimulation_new_def
      Let_def)

lemma StoneThrow_step_clamped:
  "(st_totalTime s \<le> st_time s + dt \<longrightarrow> st_height (StoneThrow_step s dt) = 0)
   \<and> (\<not> st_totalTime s \<le> st_time s + dt \<longrightarrow>
        st_height (StoneThrow_step s dt) = max 0 (stonethrow_height_at s (st_time s + dt)))"
  using StoneThrow_update_landing [of s dt] StoneThrow_update_flying [of s dt]
  by (auto simp add: StoneThrow_step_def)

lemma stone_fall_nonneg:
  fixes x :: real
  assumes "0 \<le> x" "x \<le> sqrt (2 * 500 / 9.8)"
  shows "0 \<le> 500 - 0.5 * 9.8 * x * x"
proof -
  have "x * x \<le> sqrt (2 * 500 / 9.8) * sqrt (2 * 500 / 9.8)" using assms by (rule sq_le)
  also have "\<dots> = 2 * 500 / 9.8" by simp
  finally show ?thesis by simp
qed

lemma stone_rise_nonneg:
  fixes t :: real
  assumes "0 \<le> t" "t \<le> 10"
  shows "0 \<le> 98 * t - 0.5 * 9.8 * t * t"
proof -
  have "0 \<le> t * (98 - 4.9 * t)" using assms by (intro mult_nonneg_nonneg) simp_all
  then show ?thesis by (simp add: algebra_simps)
qed

lemma stonethrow_inv_consts:
  assumes "stonethrow_inv s"
  shows "st_g s = 9.8" "st_initialVelocity s = 98" "st_timeToMaxHeight s = 10"
    "st_maxHeight s = 500" "st_totalTime s = 10 + sqrt (2 * 500 / 9.8)" "0 \<le> st_time s"
  using assms unfolding stonethrow_inv_def by blast+

lemma stonethrow_height_nonneg:
  assumes "stonethrow_inv s" "0 \<le> t" "\<not> st_totalTime s \<le> t"
  shows "0 \<le> stonethrow_height_at s t"
proof (cases "t \<le> 10")
  case True
  have "0 \<le> 98 * t - 0.5 * 9.8 * t * t" using assms(2) True by (rule stone_rise_nonneg)
  with True show ?thesis
    unfolding stonethrow_height_at_def stonethrow_inv_consts [OF assms(1)] by simp
next
  case False
  have "0 \<le> t - 10" "t - 10 \<le> sqrt (2 * 500 / 9.8)"
    using False assms(3) unfolding stonethrow_inv_consts [OF assms(1)] by simp_all
  then have "0 \<le> 500 - 0.5 * 9.8 * (t - 10) * (t - 10)" by (rule stone_fall_nonneg)
  with False show ?thesis
    unfolding stonethrow_height_at_def stonethrow_inv_consts [OF assms(1)] by simp
qed

lemma StoneThrow_step_fields:
  "st_g (StoneThrow_step s dt) = st_g s"
  "st_initialVelocity (StoneThrow_step s dt) = st_initialVelocity s"
  "st_timeToMaxHeight (StoneThrow_step s dt) = st_timeToMaxHeight s"
  "st_maxHeight (StoneThrow_step s dt) = st_maxHeight s"
  by (simp_all add: StoneThrow_step_def StoneThrowSimulation_update_def Let_def)

lemma StoneThrow_step_closed_form:
  assumes "stonethrow_inv s \<and> stonethrow_closed_form s" "0 \<le> dt"
  shows "stonethrow_inv (StoneThrow_step s dt) \<and> stonethrow_closed_form (StoneThrow_step s dt)"
proof -
  note c = stonethrow_inv_consts [OF conjunct1 [OF assms(1)]]
  have t: "0 \<le> st_time s + dt" using c(6) assms(2) by simp
  have tot: "(0::real) \<le> 10 + sqrt (2 * 500 / 9.8)"
    using real_sqrt_ge_zero [of "2 * 500 / 9.8"] by simp
  have inv: "stonethrow_inv (StoneThrow_step s dt)"
    unfolding stonethrow_inv_def StoneThrow_step_fields StoneThrow_step_consts
      StoneThrow_step_time
    using c t tot by (simp add: min_def)
  show ?thesis
  proof (cases "st_totalTime s \<le> st_time s + dt")
    case True
    then show ?thesis
      using inv
      by (simp add: StoneThrow_step_def StoneThrow_update_landing [OF True]
          stonethrow_closed_form_def)
  next
    case False
    have n: "0 \<le> stonethrow_height_at s (st_time s + dt)"
      using conjunct1 [OF assms(1)] t False by (rule stonethrow_height_nonneg)
    have same: "stonethrow_height_at (StoneThrow_step s dt) = stonethrow_height_at s"
      "stonethrow_velocity_at (StoneThrow_step s dt) = stonethrow_velocity_at s"
      by (rule ext, simp add: stonethrow_height_at_def StoneThrow_step_fields,
          rule ext, simp add: stonethrow_velocity_at_def StoneThrow_step_fields)
    show ?thesis
      using inv n StoneThrow_update_flying [OF False]
      by (simp add: stonethrow_closed_form_def same)
  qed
qed

lemma StoneThrow_new_inv:
  "stonethrow_inv StoneThrowSimulation_new \<and> stonethrow_closed_form StoneThrowSimulation_new"
  by (simp add: stonethrow_inv_def stonethrow_closed_form_def stonethrow_height_at_def
      stonethrow_velocity_at_def StoneThrowSimulation_new_def Let_def)

lemma stonethrow_run_closed_form:
  assumes "list_all (\<lambda>dt. 0 \<le> dt) ts"
  shows "list_all stonethrow_closed_form
           (states_after StoneThrow_step StoneThrowSimulation_new ts)"
proof -
  have "list_all (\<lambda>s. stonethrow_inv s \<and> stonethrow_closed_form s)
          (states_after StoneThrow_step StoneThrowSimulation_new ts)"
    using assms
    by (intro states_after_inv
          [where I = "\<lambda>s. stonethrow_inv s \<and> stonethrow_closed_form s"
             and P = "\<lambda>dt. 0 \<le> dt"])
      (simp_all only: StoneThrow_step_closed_form StoneThrow_new_inv simp_thms)
  then show ?thesis by (simp add: list_all_iff)
qed

subsection \<open>Air-resistance\<close>

lemma AirResistance_step_closed:
  "ar_time (AirResistance_step s dt) = ar_time s + dt
   \<and> ar_idealHeight (AirResistance_step s dt) = max 0 (airres_ideal_at s (ar_time s + dt))
   \<and> ar_realHeight (AirResistance_step s dt) = max 0 (airres_real_at s (ar_time s + dt))"
  by (simp add: AirResistance_step_def AirResistanceSimulation_update_def Let_def
      airres_ideal_at_def airres_real_at_def)

lemma AirResistance_update_flag:
  "snd (AirResistanceSimulation_update s dt)
     = (max (ar_idealTotalTime s) (ar_realTotalTime s) \<le> ar_time s + dt)"
  by (simp add: AirResistanceSimulation_update_def Let_def)

lemma AirResistance_step_inv: "airres_inv s \<Longrightarrow> airres_inv (AirResistance_step s dt)"
  by (simp add: airres_inv_def AirResistance_step_def AirResistanceSimulation_update_def Let_def
      airres_ideal_at_def airres_real_at_def)

lemma AirResistance_new_inv: "airres_inv AirResistanceSimulation_new"
  by (simp add: airres_inv_def AirResistanceSimulation_new_def Let_def
      airres_ideal_at_def airres_real_at_def)

lemma airres_run_inv: "airres_inv (foldl AirResistance_step AirResistanceSimulation_new ts)"
proof -
  have "list_all (\<lambda>i. True) ts" by (simp add: list_all_iff)
  then show ?thesis
    by (intro foldl_inv [where I = airres_inv and P = "\<lambda>i. True"])
      (simp_all add: AirResistance_step_inv AirResistance_new_inv)
qed

lemma airres_terminal_update:
  assumes "airres_inv s" "max (ar_idealTotalTime s) (ar_realTotalTime s) \<le> ar_time s" "0 \<le> dt"
  shows "AirResistanceSimulation_update s dt = (s\<lparr> ar_time := ar_time s + dt \<rparr>, True)"
proof -
  have t: "4 \<le> ar_time s" using assms by (simp add: airres_inv_def)
  have c: "ar_g s = 10" "ar_u s = 20" "ar_idealMaxHeight s = 20" "ar_idealTimeUp s = 2"
    "ar_idealTotalTime s = 4" "ar_realTimeUp s = 1.9" "ar_realTotalTime s = 3.8"
    using assms(1) by (simp_all add: airres_inv_def)
  have z: "max 0 (airres_ideal_at s x) = 0 \<and> max 0 (airres_real_at s x) = 0" if "4 \<le> x" for x
  proof (cases "x = 4")
    case True
    then show ?thesis by (simp add: airres_ideal_at_def airres_real_at_def c)
  next
    case False
    with that have "4 < x" by simp
    then show ?thesis by (simp add: airres_ideal_at_def airres_real_at_def c)
  qed
  have h: "ar_idealHeight s = 0" "ar_realHeight s = 0"
    using assms(1) z [OF t] by (simp_all add: airres_inv_def)
  have t': "4 \<le> ar_time s + dt" using t assms(3) by simp
  have st: "AirResistance_step s dt = s\<lparr> ar_time := ar_time s + dt \<rparr>"
  proof -
    have "AirResistance_step s dt
            = s\<lparr> ar_time := ar_time s + dt,
                 ar_idealHeight := max 0 (airres_ideal_at s (ar_time s + dt)),
                 ar_realHeight := max 0 (airres_real_at s (ar_time s + dt)) \<rparr>"
      by (simp add: AirResistance_step_def AirResistanceSimulation_update_def Let_def
          airres_ideal_at_def airres_real_at_def)
    also have "\<dots> = s\<lparr> ar_time := ar_time s + dt, ar_idealHeight := 0, ar_realHeight := 0 \<rparr>"
      using z [OF t'] by simp
    also have "\<dots> = s\<lparr> ar_time := ar_time s + dt \<rparr>" using h by simp
    finally show ?thesis .
  qed
  have "snd (AirResistanceSimulation_update s dt)"
    using t' c by (simp add: AirResistance_update_flag)
  with st show ?thesis by (simp add: AirResistance_step_def prod_eq_iff)
qed

lemma airres_terminal_run:
  assumes "max (ar_idealTotalTime (foldl AirResistance_step AirResistanceSimulation_new ts))
               (ar_realTotalTime (foldl AirResistance_step AirResistanceSimulation_new ts))
             \<le> ar_time (foldl AirResistance_step AirResistanceSimulation_new ts)"
    "0 \<le> dt"
  shows "AirResistanceSimulation_update (foldl AirResistance_step AirResistanceSimulation_new ts) dt
           = ((foldl AirResistance_step AirResistanceSimulation_new ts)
                \<lparr> ar_time := ar_time (foldl AirResistance_step AirResistanceSimulation_new ts)
                              + dt \<rparr>, True)"
  using airres_run_inv [of ts] assms by (rule airres_terminal_update)

lemma airres_inv_consts:
  assumes "airres_inv s"
  shows "ar_g s = 10" "ar_u s = 20" "ar_idealMaxHeight s = 20" "ar_idealTimeUp s = 2"
    "ar_idealTotalTime s = 4" "ar_realMaxHeight s = 18.1" "ar_realTimeUp s = 1.9"
    "ar_realTotalTime s = 3.8"
  using assms unfolding airres_inv_def by blast+

lemma airres_heights_nonneg:
  assumes "airres_inv s" "0 \<le> t"
  shows "0 \<le> airres_ideal_at s t" "0 \<le> airres_real_at s t"
proof -
  note c = airres_inv_consts [OF assms(1)]
  have i1: "0 \<le> 20 * t - 0.5 * 10 * t * t" if "t \<le> 2"
  proof -
    have "0 \<le> t * (20 - 5 * t)" using assms(2) that by (intro mult_nonneg_nonneg) simp_all
    then show ?thesis by (simp add: algebra_simps)
  qed
  have i2: "0 \<le> 20 - 0.5 * 10 * (t - 2) * (t - 2)" if "\<not> t \<le> 2" "t \<le> 4"
  proof -
    have "(t - 2) * (t - 2) \<le> 2 * 2" using that by (intro sq_le) simp_all
    then have sq: "(t - 2) * (t - 2) \<le> 4" by simp
    have e: "0.5 * 10 * (t - 2) * (t - 2) = 5 * ((t - 2) * (t - 2))" by simp
    show ?thesis unfolding e using sq by linarith
  qed
  show "0 \<le> airres_ideal_at s t"
    unfolding airres_ideal_at_def c using i1 i2 by simp
  have r1: "0 \<le> 20 * t - 0.5 * (10 * 1.1) * t * t" if "t \<le> 1.9"
  proof -
    have "0 \<le> t * (20 - 5.5 * t)" using assms(2) that by (intro mult_nonneg_nonneg) simp_all
    then show ?thesis by (simp add: algebra_simps)
  qed
  have r2: "0 \<le> 18.1 - 0.5 * (10 * 0.9) * (t - 1.9) * (t - 1.9)" if "\<not> t \<le> 1.9" "t \<le> 3.8"
  proof -
    have "(t - 1.9) * (t - 1.9) \<le> 1.9 * 1.9" using that by (intro sq_le) simp_all
    then have sq: "(t - 1.9) * (t - 1.9) \<le> 361 / 100" by simp
    have e: "0.5 * (10 * 0.9) * (t - 1.9) * (t - 1.9) = 4.5 * ((t - 1.9) * (t - 1.9))" by simp
    show ?thesis unfolding e using sq by linarith
  qed
  show "0 \<le> airres_real_at s t"
    unfolding airres_real_at_def c using r1 r2 by simp
qed

lemma AirResistance_step_exact:
  assumes "airres_inv s \<and> 0 \<le> ar_time s" "0 \<le> dt"
  shows "(airres_inv (AirResistance_step s dt) \<and> 0 \<le> ar_time (AirResistance_step s dt))"
    "airres_closed_form (AirResistance_step s dt)"
proof -
  have inv: "airres_inv (AirResistance_step s dt)"
    using assms by (simp add: AirResistance_step_inv)
  have t: "0 \<le> ar_time (AirResistance_step s dt)"
    using assms AirResistance_step_closed [of s dt] by simp
  from inv t show "airres_inv (AirResistance_step s dt) \<and> 0 \<le> ar_time (AirResistance_step s dt)"
    by simp
  show "airres_closed_form (AirResistance_step s dt)"
    using inv airres_heights_nonneg [OF inv t]
    by (simp add: airres_closed_form_def airres_inv_def)
qed

lemma airres_run_closed_form:
  assumes "list_all (\<lambda>dt. 0 \<le> dt) ts"
  shows "list_all airres_closed_form
           (states_after AirResistance_step AirResistanceSimulation_new ts)"
proof -
  have "list_all (\<lambda>s. (airres_inv s \<and> 0 \<le> ar_time s) \<and> airres_closed_form s)
          (states_after AirResistance_step AirResistanceSimulation_new ts)"
    using assms
  proof (intro states_after_inv
          [where I = "\<lambda>s. (airres_inv s \<and> 0 \<le> ar_time s) \<and> airres_closed_form s"
             and P = "\<lambda>dt. 0 \<le> dt"])
    show "(airres_inv AirResistanceSimulation_new \<and> 0 \<le> ar_time AirResistanceSimulation_new)
            \<and> airres_closed_form AirResistanceSimulation_new"
      by (simp add: AirResistance_new_inv)
        (simp add: AirResistanceSimulation_new_def airres_closed_form_def airres_ideal_at_def
          airres_real_at_def Let_def)
  next
    fix s :: airres and i :: real
    assume "(airres_inv s \<and> 0 \<le> ar_time s) \<and> airres_closed_form s" "0 \<le> i"
    then show "(airres_inv (AirResistance_step s i) \<and> 0 \<le> ar_time (AirResistance_step s i))
       \<and> airres_closed_form (AirResistance_step s i)"
      using AirResistance_step_exact [of s i] by blast
  qed
  then show ?thesis by (simp add: list_all_iff)
qed

subsection \<open>Projectile\<close>

lemma Projectile_update_finished: "pj_finished p \<Longrightarrow> Projectile_update p dt = p"
  by (simp add: Projectile_update_def)

lemma Projectile_update_flying:
  assumes "\<not> pj_finished p"
    "\<not> (projectile_height_at (pj_time p + dt) \<le> 0 \<and> pj_time p + dt > 0.1)"
  shows "pj_time (Projectile_update p dt) = pj_time p + dt
     \<and> pj_y (Projectile_update p dt) = projectile_height_at (pj_time p + dt)
     \<and> pj_v (Projectile_update p dt) = projectile_velocity_at (pj_time p + dt)
     \<and> \<not> pj_finished (Projectile_update p dt)"
  using assms
  by (auto simp add: Projectile_update_def Let_def projectile_height_at_def
      projectile_velocity_at_def)

lemma Projectile_update_landing:
  assumes "\<not> pj_finished p"
    "projectile_height_at (pj_time p + dt) \<le> 0" "pj_time p + dt > 0.1"
  shows "pj_time (Projectile_update p dt) = pj_time p + dt
     \<and> pj_y (Projectile_update p dt) = 0
     \<and> pj_v (Projectile_update p dt) = CONFIG_ke_v0
     \<and> pj_finished (Projectile_update p dt)"
  using assms
  by (auto simp add: Projectile_update_def Let_def projectile_height_at_def)

lemma Projectile_update_time:
  "pj_time (Projectile_update p dt) = (if pj_finished p then pj_time p else pj_time p + dt)"
  by (simp add: Projectile_update_def Let_def)

lemma Projectile_update_clamped:
  assumes "\<not> pj_finished p" "0 \<le> pj_time p" "0 \<le> dt"
  shows "pj_y (Projectile_update p dt) = max 0 (projectile_height_at (pj_time p + dt))"
proof (cases "projectile_height_at (pj_time p + dt) \<le> 0 \<and> pj_time p + dt > 0.1")
  case True
  then show ?thesis using Projectile_update_landing [of p dt] assms by simp
next
  case False
  have "0 \<le> projectile_height_at (pj_time p + dt)"
  proof (cases "0.1 < pj_time p + dt")
    case True with False show ?thesis by simp
  next
    case nl: False
    with assms have "0 \<le> 4 * (pj_time p + dt) - 0.5 * 10 * (pj_time p + dt) * (pj_time p + dt)"
      by (intro early_height_nonneg) simp_all
    then show ?thesis by (simp add: projectile_height_at_def CONFIG_ke_v0_def CONFIG_ke_g_def)
  qed
  with False show ?thesis using Projectile_update_flying [of p dt] assms by simp
qed

subsection \<open>Falling stones\<close>

lemma stone_update_grounded: "sn_reachedGround st \<Longrightarrow> stone_update g d st = st"
  by (simp add: stone_update_def)

lemma stone_update_falling:
  assumes "\<not> sn_reachedGround st"
  shows "sn_time (stone_update g d st) = sn_time st + d
     \<and> sn_height (stone_update g d st)
         = max 0 (sn_initialHeight st - 0.5 * g * (sn_time st + d) * (sn_time st + d))
     \<and> sn_reachedGround (stone_update g d st)
         = (sn_initialHeight st - 0.5 * g * (sn_time st + d) * (sn_time st + d) \<le> 0)"
  using assms by (simp add: stone_update_def Let_def)

lemma stone_update_closed_form:
  assumes "stone_closed_form g t st"
  shows "stone_closed_form g (t + d) (stone_update g d st)"
  using assms by (simp add: stone_closed_form_def stone_update_def Let_def split: if_splits)

lemma FallingStones_step_closed_form:
  assumes "fs_closed_form s"
  shows "fs_closed_form (FallingStones_step s i)"
  using assms
  by (simp add: fs_closed_form_def FallingStones_step_def FallingStonesSimulation_update_def
      Let_def list_all_iff stone_update_closed_form)

lemma FallingStones_new_closed_form: "fs_closed_form FallingStonesSimulation_new"
  by (simp add: fs_closed_form_def FallingStonesSimulation_new_def stone_new_def
      stone_closed_form_def Let_def)

lemma fallingstones_run_closed_form:
  "list_all fs_closed_form (states_after FallingStones_step FallingStonesSimulation_new fs)"
proof -
  have "list_all (\<lambda>i. True) fs" by (simp add: list_all_iff)
  then show ?thesis
    by (intro states_after_inv [where I = fs_closed_form and P = "\<lambda>i. True"])
      (simp_all add: FallingStones_step_closed_form FallingStones_new_closed_form)
qed

lemma fallingstones_terminal_update:
  assumes "list_all sn_reachedGround (fs_stones s)"
  shows "FallingStonesSimulation_update s dt k = (s\<lparr> fs_time := fs_time s + dt * k \<rparr>, True)"
proof -
  have "map (stone_update (fs_g s) (dt * k)) (fs_stones s) = fs_stones s"
    using assms by (intro map_idI) (simp add: stone_update_grounded list_all_iff)
  with assms show ?thesis
    by (simp add: FallingStonesSimulation_update_def Let_def)
qed

lemma FallingStones_step_time:
  "fs_time (FallingStones_step s i) = fs_time s + fst i * snd i"
  by (simp add: FallingStones_step_def FallingStonesSimulation_update_def Let_def)

lemma FallingStones_step_stones:
  "fs_stones (FallingStones_step s i) = map (stone_update (fs_g s) (fst i * snd i)) (fs_stones s)"
  by (simp add: FallingStones_step_def FallingStonesSimulation_update_def Let_def)

lemma stone_update_time:
  "sn_time (stone_update g d st) = (if sn_reachedGround st then sn_time st else sn_time st + d)"
  by (simp add: stone_update_def Let_def)

subsection \<open>Ball-throw\<close>

lemma BallThrow_step_closed_form:
  assumes "ballthrow_closed_form s"
  shows "ballthrow_closed_form (BallThrow_step s i)"
  using assms
  by (cases "ba_phase s")
    (simp_all add: ballthrow_closed_form_def BallThrow_step_def BallThrowSimulation_update_def
      Let_def)

lemma BallThrow_new_closed_form: "ballthrow_closed_form BallThrowSimulation_new"
  by (simp add: ballthrow_closed_form_def BallThrowSimulation_new_def
      BallThrowSimulation_reset_def Let_def)

lemma ballthrow_run_closed_form:
  "list_all ballthrow_closed_form (states_after BallThrow_step BallThrowSimulation_new bs)"
proof -
  have "list_all (\<lambda>i. True) bs" by (simp add: list_all_iff)
  then show ?thesis
    by (intro states_after_inv [where I = ballthrow_closed_form and P = "\<lambda>i. True"])
      (simp_all add: BallThrow_step_closed_form BallThrow_new_closed_form)
qed

lemma BallThrow_complete_update:
  "ba_phase s = Complete \<Longrightarrow> BallThrowSimulation_update s dt k = (s, ba_completed s)"
  by (simp add: BallThrowSimulation_update_def Let_def)

lemma BallThrow_step_ascending:
  assumes "ba_phase s = Ascending"
  shows "(ba_time s + fst i * snd i < ba_totalAscentTime s \<longrightarrow>
            ba_phase (BallThrow_step s i) = Ascending
          \<and> ba_time (BallThrow_step s i) = ba_time s + fst i * snd i
          \<and> ba_height (BallThrow_step s i)
              = ba_u s * (ba_time s + fst i * snd i)
                - 0.5 * ba_g s * (ba_time s + fst i * snd i) * (ba_time s + fst i * snd i))
     \<and> (ba_totalAscentTime s \<le> ba_time s + fst i * snd i \<longrightarrow>
            ba_phase (BallThrow_step s i) = Descending
          \<and> ba_time (BallThrow_step s i) = 0
          \<and> ba_velocity (BallThrow_step s i) = 0
          \<and> ba_height (BallThrow_step s i) = ba_maxHeight s)"
  using assms
  by (simp add: BallThrow_step_def BallThrowSimulation_update_def Let_def)

lemma BallThrow_step_descending:
  assumes "ba_phase s = Descending"
  shows "ba_time (BallThrow_step s i) = ba_time s + fst i * snd i
     \<and> ba_height (BallThrow_step s i)
         = max 0 (ba_maxHeight s
                  - 0.5 * ba_g s * (ba_time s + fst i * snd i) * (ba_time s + fst i * snd i))
     \<and> (ba_phase (BallThrow_step s i) = Complete)
         = (ba_maxHeight s
            - 0.5 * ba_g s * (ba_time s + fst i * snd i) * (ba_time s + fst i * snd i) \<le> 0)"
  using assms
  by (simp add: BallThrow_step_def BallThrowSimulation_update_def Let_def)

lemma BallThrow_step_complete: "ba_phase s = Complete \<Longrightarrow> BallThrow_step s i = s"
  by (simp add: BallThrow_step_def BallThrow_complete_update)

subsection \<open>Falling ball\<close>

lemma FallingBall_update_finished: "fb_finished b \<Longrightarrow> FallingBall_update b t = b"
  by (simp add: FallingBall_update_def)

lemma FallingBall_update_closed:
  assumes "\<not> fb_finished b"
  shows "fb_y (FallingBall_update b t)
           = 0.5 * CONFIG_freefall_g * min t CONFIG_freefall_totalTime
               * min t CONFIG_freefall_totalTime
     \<and> fb_velocity (FallingBall_update b t) = CONFIG_freefall_g * min t CONFIG_freefall_totalTime
     \<and> fb_finished (FallingBall_update b t) = (CONFIG_freefall_totalTime \<le> t)"
  using assms by (simp add: FallingBall_update_def Let_def min_def)

section \<open>Some runs of the other pages\<close>

lemma stonethrow_new_times:
  "st_totalTime StoneThrowSimulation_new = 10 + sqrt (2 * 500 / 9.8)"
  "st_time StoneThrowSimulation_new = 0"
  by (simp_all add: StoneThrowSimulation_new_def Let_def)

lemma stonethrow_landing_run:
  "StoneThrowSimulation_update StoneThrowSimulation_new 30
     = (StoneThrowSimulation_new\<lparr> st_time := st_totalTime StoneThrowSimulation_new,
          st_height := 0, st_velocity := 0, st_phase := Landed \<rparr>, True)"
proof -
  have "st_totalTime StoneThrowSimulation_new \<le> st_time StoneThrowSimulation_new + 30"
    using sqrt_stone_bounds by (simp add: StoneThrowSimulation_new_def Let_def)
  then show ?thesis by (rule StoneThrow_update_landing)
qed

lemmas ballthrow_eval = BallThrowSimulation_new_def BallThrowSimulation_reset_def
  BallThrow_step_def BallThrowSimulation_update_def ballthrow_push_trail_def Let_def

lemmas fallingstones_eval = FallingStonesSimulation_new_def stone_new_def FallingStones_step_def
  FallingStonesSimulation_update_def stone_update_def Let_def

lemmas airres_eval = AirResistanceSimulation_new_def AirResistance_step_def
  AirResistanceSimulation_update_def Let_def

lemma ballthrow_split_runs:
  "ba_height (foldl BallThrow_step BallThrowSimulation_new [(2, 1), (1, 1)]) = 15"
  "ba_height (foldl BallThrow_step BallThrowSimulation_new [(2.5, 1), (0.5, 1)]) = 18.75"
  "ba_phase (foldl BallThrow_step BallThrowSimulation_new [(2, 1), (1, 1)]) = Descending"
  "ba_phase (foldl BallThrow_step BallThrowSimulation_new [(2.5, 1), (0.5, 1)]) = Descending"
  by (simp_all add: ballthrow_eval)

section \<open>Closed-form equivalence\<close>

lemma BrickThrow_step_rising:
  assumes "bt_phase (BrickThrow_step s i) = ascending \<or> bt_phase (BrickThrow_step s i) = continuing"
  shows "bt_height (BrickThrow_step s i)
           = bt_initialVelocity s * bt_time (BrickThrow_step s i)
             - 0.5 * bt_g s * bt_time (BrickThrow_step s i) * bt_time (BrickThrow_step s i)
         \<and> bt_velocity (BrickThrow_step s i)
           = bt_initialVelocity s - bt_g s * bt_time (BrickThrow_step s i)"
  using assms brick_move_rising [of "brick_advance s (fst i * snd i)"]
  by (simp add: BrickThrow_step_stages)

lemma BrickThrow_step_falling:
  assumes "bt_phase (BrickThrow_step s i) = descending"
  shows "bt_height (BrickThrow_step s i)
           = bt_maxHeight s
             - 0.5 * bt_g s * bt_time (BrickThrow_step s i) * bt_time (BrickThrow_step s i)
         \<and> bt_velocity (BrickThrow_step s i) = - bt_g s * bt_time (BrickThrow_step s i)"
  using assms brick_move_falling [of "brick_advance s (fst i * snd i)"]
  by (simp add: BrickThrow_step_stages)

lemma BrickThrow_step_frozen:
  assumes "bt_phase s = at_target \<or> bt_phase s = at_max"
  shows "bt_height (BrickThrow_step s i) = bt_height s
     \<and> bt_velocity (BrickThrow_step s i) = bt_velocity s
     \<and> bt_phase (BrickThrow_step s i) = bt_phase s
     \<and> bt_time (BrickThrow_step s i) = bt_time s + fst i * snd i"
  using assms by (auto simp add: BrickThrow_step_stages brick_move_def brick_advance_phase)

lemma BrickThrow_step_pinned:
  assumes "bt_phase s \<noteq> at_max" "bt_phase (BrickThrow_step s i) = at_max"
  shows "bt_height (BrickThrow_step s i) = bt_maxHeight s \<and> bt_velocity (BrickThrow_step s i) = 0"
proof -
  have "bt_phase (brick_advance s (fst i * snd i)) \<noteq> at_max"
    using assms(1) by (simp add: brick_advance_def Let_def)
  with assms(2) show ?thesis
    using brick_move_pinned [of "brick_advance s (fst i * snd i)"]
    by (simp add: BrickThrow_step_stages)
qed

lemma halfesc_frames_angle:
  "he_isPlaying h \<Longrightarrow> he_angle (halfesc_frames n h) = he_angle h + 0.02 * real n"
proof (induction n arbitrary: h)
  case 0
  then show ?case by simp
next
  case (Suc n)
  have "he_isPlaying (halfesc_animate h)" using Suc.prems by (simp add: halfesc_animate_def)
  then have "he_angle (halfesc_frames n (halfesc_animate h))
               = he_angle (halfesc_animate h) + 0.02 * real n"
    by (rule Suc.IH)
  with Suc.prems show ?case by (simp add: halfesc_animate_def algebra_simps)
qed

lemma dualball_run_closed_form:
  assumes "list_all nonneg_delta ds"
  shows "list_all dualball_closed_form (states_after DualBall_step DualBallSimulation_new ds)"
proof -
  have "list_all db_inv (states_after DualBall_step DualBallSimulation_new ds)"
    using assms
    by (intro states_after_inv [where I = db_inv and P = nonneg_delta])
      (simp_all add: DualBall_step_inv DualBall_new_inv)
  then show ?thesis by (simp add: list_all_iff db_inv_closed_form)
qed

text \<open>
  C1, as stated, fails: what a stepper holds is not always the closed form at its time.

  \<^item> Brick-throw.  Two runs reach the same elapsed time 1.1 in the same phase \<open>at_target\<close>
    with different heights: the run that reached the target at time 1 and was then called
    once more holds the height of time 1, not \<open>u t - \<onehalf> g t\<^sup>2\<close> at its time 1.1.
  \<^item> Dual-ball.  After \<open>update(5, 1)\<close> both balls are on the ground; \<open>update(-1, 1)\<close> takes
    the time back to 4 and leaves them there, where the closed form is above the ground.
  \<^item> Stone-throw.  The call that lands the stone sets the velocity to 0, where the closed
    form has the impact velocity; a call that takes the time to \<open>-1\<close> holds the height 0,
    where the closed form is negative.
  \<^item> Air-resistance.  At time \<open>-1\<close> the ideal height is 0, where the closed form is
    negative.
  \<^item> Projectile.  The call that lands it at time 1 sets the velocity back to \<open>v\<^sub>0 = 4\<close>,
    where the closed form is \<open>-6\<close>.
  \<^item> Falling stones.  After \<open>update(3, 1)\<close> both stones are at height 0 with their time at
    3, where the closed form is \<open>-25\<close> and \<open>-15\<close>.
  \<^item> Ball-throw.  The time starts again from 0 at the top and the rest of that call is
    dropped: two runs of 3 s in all end at the heights 15 and 18.75.
  \<^item> Falling ball.  \<open>update(5)\<close> holds \<open>y = 80\<close>, the value at \<open>totalTime = 4\<close>, not 125; and
    after it has finished, \<open>update(1)\<close> leaves \<open>y = 80\<close>, where a fresh ball has 5.
  \<^item> Half-escape.  The frame callback takes no time and adds to the angle: 60 frames and
    120 frames, which two displays run in the same second, leave different angles.
\<close>

theorem C1_counterexample:
  "bt_time (bw_sim (foldl brick_step brick_world_new [Update 0.4 1, Update 1 1, Update 0.1 1]))
     = 1.1
   \<and> bt_time (bw_sim (foldl brick_step brick_world_new [Update 0.4 1, Update 1.1 1])) = 1.1
   \<and> bt_phase (bw_sim (foldl brick_step brick_world_new [Update 0.4 1, Update 1 1, Update 0.1 1]))
     = at_target
   \<and> bt_phase (bw_sim (foldl brick_step brick_world_new [Update 0.4 1, Update 1.1 1])) = at_target
   \<and> bt_height (bw_sim (foldl brick_step brick_world_new [Update 0.4 1, Update 1 1, Update 0.1 1]))
     \<noteq> bt_height (bw_sim (foldl brick_step brick_world_new [Update 0.4 1, Update 1.1 1]))
   \<and> bt_height (bw_sim (foldl brick_step brick_world_new [Update 0.4 1, Update 1 1, Update 0.1 1]))
     \<noteq> bt_initialVelocity BrickThrowSimulation_new * 1.1
         - 0.5 * bt_g BrickThrowSimulation_new * 1.1 * 1.1
   \<and> db_time (foldl DualBall_step DualBallSimulation_new [(5, 1), (- 1, 1)]) = 4
   \<and> map b_height (db_balls (foldl DualBall_step DualBallSimulation_new [(5, 1), (- 1, 1)]))
       = [0, 0]
   \<and> \<not> dualball_closed_form (foldl DualBall_step DualBallSimulation_new [(5, 1), (- 1, 1)])
   \<and> snd (StoneThrowSimulation_update StoneThrowSimulation_new 30)
   \<and> st_velocity (StoneThrow_step StoneThrowSimulation_new 30) = 0
   \<and> stonethrow_velocity_at StoneThrowSimulation_new
        (st_time (StoneThrow_step StoneThrowSimulation_new 30)) < 0
   \<and> pj_time (Projectile_update Projectile_reset 1) = 1
   \<and> pj_v (Projectile_update Projectile_reset 1) = 4
   \<and> projectile_velocity_at 1 = - 6
   \<and> map sn_time (fs_stones (FallingStones_step FallingStonesSimulation_new (3, 1))) = [3, 3]
   \<and> map sn_height (fs_stones (FallingStones_step FallingStonesSimulation_new (3, 1))) = [0, 0]
   \<and> map (\<lambda>st. sn_initialHeight st - 0.5 * fs_g FallingStonesSimulation_new * 3 * 3)
         (fs_stones FallingStonesSimulation_new) = [- 25, - 15]
   \<and> ba_height (foldl BallThrow_step BallThrowSimulation_new [(2, 1), (1, 1)]) = 15
   \<and> ba_height (foldl BallThrow_step BallThrowSimulation_new [(2.5, 1), (0.5, 1)]) = 18.75
   \<and> fb_y (FallingBall_update (FallingBall_update FallingBall_reset 4) 1) = 80
   \<and> fb_y (FallingBall_update FallingBall_reset 1) = 5
   \<and> st_height (StoneThrow_step StoneThrowSimulation_new (- 1)) = 0
   \<and> stonethrow_height_at StoneThrowSimulation_new
        (st_time (StoneThrow_step StoneThrowSimulation_new (- 1))) < 0
   \<and> ar_idealHeight (AirResistance_step AirResistanceSimulation_new (- 1)) = 0
   \<and> airres_ideal_at AirResistanceSimulation_new
        (ar_time (AirResistance_step AirResistanceSimulation_new (- 1))) < 0
   \<and> fb_y (FallingBall_update FallingBall_reset 5) = 80
   \<and> 0.5 * CONFIG_freefall_g * 5 * 5 = 125
   \<and> he_angle (halfesc_frames 60 (HalfEscapeSimulation_play HalfEscapeSimulation_new))
       \<noteq> he_angle (halfesc_frames 120 (HalfEscapeSimulation_play HalfEscapeSimulation_new))"
proof -
  have brick:
    "bt_time (bw_sim (foldl brick_step brick_world_new [Update 0.4 1, Update 1 1, Update 0.1 1]))
       = 1.1
     \<and> bt_time (bw_sim (foldl brick_step brick_world_new [Update 0.4 1, Update 1.1 1])) = 1.1
     \<and> bt_phase (bw_sim (foldl brick_step brick_world_new [Update 0.4 1, Update 1 1, Update 0.1 1]))
       = at_target
     \<and> bt_phase (bw_sim (foldl brick_step brick_world_new [Update 0.4 1, Update 1.1 1])) = at_target
     \<and> bt_height (bw_sim (foldl brick_step brick_world_new [Update 0.4 1, Update 1 1, Update 0.1 1]))
       \<noteq> bt_height (bw_sim (foldl brick_step brick_world_new [Update 0.4 1, Update 1.1 1]))
     \<and> bt_height (bw_sim (foldl brick_step brick_world_new [Update 0.4 1, Update 1 1, Update 0.1 1]))
       \<noteq> bt_initialVelocity BrickThrowSimulation_new * 1.1
           - 0.5 * bt_g BrickThrowSimulation_new * 1.1 * 1.1"
    unfolding pause_run direct_run using sqrt_236_bounds by (simp add: brick_new_constants)
  have dual:
    "db_time (foldl DualBall_step DualBallSimulation_new [(5, 1), (- 1, 1)]) = 4
     \<and> map b_height (db_balls (foldl DualBall_step DualBallSimulation_new [(5, 1), (- 1, 1)]))
         = [0, 0]
     \<and> \<not> dualball_closed_form (foldl DualBall_step DualBallSimulation_new [(5, 1), (- 1, 1)])"
    by (simp add: dualball_eval dualball_closed_form_def ball_closed_form_def)
  have stone:
    "snd (StoneThrowSimulation_update StoneThrowSimulation_new 30)
     \<and> st_velocity (StoneThrow_step StoneThrowSimulation_new 30) = 0
     \<and> stonethrow_velocity_at StoneThrowSimulation_new
          (st_time (StoneThrow_step StoneThrowSimulation_new 30)) < 0"
    using sqrt_stone_bounds
    by (simp add: StoneThrow_step_def stonethrow_landing_run stonethrow_velocity_at_def)
      (simp add: StoneThrowSimulation_new_def Let_def)
  have proj:
    "pj_time (Projectile_update Projectile_reset 1) = 1
     \<and> pj_v (Projectile_update Projectile_reset 1) = 4
     \<and> projectile_velocity_at 1 = - 6"
    by (simp add: Projectile_update_def Projectile_reset_def projectile_velocity_at_def
        CONFIG_ke_v0_def CONFIG_ke_g_def Let_def)
  have stones:
    "map sn_time (fs_stones (FallingStones_step FallingStonesSimulation_new (3, 1))) = [3, 3]
     \<and> map sn_height (fs_stones (FallingStones_step FallingStonesSimulation_new (3, 1))) = [0, 0]
     \<and> map (\<lambda>st. sn_initialHeight st - 0.5 * fs_g FallingStonesSimulation_new * 3 * 3)
           (fs_stones FallingStonesSimulation_new) = [- 25, - 15]"
    by (simp add: fallingstones_eval)
  have ball:
    "fb_y (FallingBall_update (FallingBall_update FallingBall_reset 4) 1) = 80
     \<and> fb_y (FallingBall_update FallingBall_reset 1) = 5"
    by (simp add: FallingBall_update_def FallingBall_reset_def CONFIG_freefall_g_def
        CONFIG_freefall_totalTime_def CONFIG_freefall_storeyHeight_def Let_def)
  have extra:
    "st_height (StoneThrow_step StoneThrowSimulation_new (- 1)) = 0
     \<and> stonethrow_height_at StoneThrowSimulation_new
          (st_time (StoneThrow_step StoneThrowSimulation_new (- 1))) < 0
     \<and> ar_idealHeight (AirResistance_step AirResistanceSimulation_new (- 1)) = 0
     \<and> airres_ideal_at AirResistanceSimulation_new
          (ar_time (AirResistance_step AirResistanceSimulation_new (- 1))) < 0
     \<and> fb_y (FallingBall_update FallingBall_reset 5) = 80
     \<and> 0.5 * CONFIG_freefall_g * 5 * 5 = 125"
  proof -
    have f: "\<not> st_totalTime StoneThrowSimulation_new \<le> st_time StoneThrowSimulation_new + (- 1)"
      using sqrt_stone_bounds unfolding stonethrow_new_times by linarith
    have "st_height (StoneThrow_step StoneThrowSimulation_new (- 1)) = 0
     \<and> stonethrow_height_at StoneThrowSimulation_new
          (st_time (StoneThrow_step StoneThrowSimulation_new (- 1))) < 0"
      using StoneThrow_update_flying [OF f]
      by (simp add: stonethrow_height_at_def) (simp add: StoneThrowSimulation_new_def Let_def)
    moreover have "ar_idealHeight (AirResistance_step AirResistanceSimulation_new (- 1)) = 0
     \<and> airres_ideal_at AirResistanceSimulation_new
          (ar_time (AirResistance_step AirResistanceSimulation_new (- 1))) < 0"
      by (simp add: airres_eval airres_ideal_at_def)
    moreover have "fb_y (FallingBall_update FallingBall_reset 5) = 80
     \<and> 0.5 * CONFIG_freefall_g * 5 * 5 = 125"
      by (simp add: FallingBall_update_def FallingBall_reset_def CONFIG_freefall_g_def
          CONFIG_freefall_totalTime_def CONFIG_freefall_storeyHeight_def Let_def)
    ultimately show ?thesis by blast
  qed
  have playing: "he_isPlaying (HalfEscapeSimulation_play HalfEscapeSimulation_new)"
    by (simp add: HalfEscapeSimulation_play_def HalfEscapeSimulation_new_def halfesc_animate_def
        Let_def)
  have orbit:
    "he_angle (halfesc_frames 60 (HalfEscapeSimulation_play HalfEscapeSimulation_new))
       \<noteq> he_angle (halfesc_frames 120 (HalfEscapeSimulation_play HalfEscapeSimulation_new))"
    by (simp add: halfesc_frames_angle [OF playing])
  from brick dual stone proj stones ballthrow_split_runs(1,2) ball extra orbit show ?thesis
    by (intro conjI) (erule conjE | assumption)+
qed

text \<open>
  C1, amended.

  \<^item> Dual-ball: after every call of a run with non-negative scaled deltas from the
    constructed state, each ball's height and velocity are the closed form
    \<open>h\<^sub>0 - \<onehalf> g tau\<^sup>2\<close> and \<open>g tau\<close> at \<open>tau = max 0 (t - dropTime)\<close>, with \<open>t\<close> the stepper's
    time.
  \<^item> Brick-throw, for any state and arguments: a call that leaves the phase \<open>ascending\<close>
    or \<open>continuing\<close> leaves height \<open>u t - \<onehalf> g t\<^sup>2\<close> and velocity \<open>u - g t\<close> at the new
    phase-relative time \<open>t\<close>; one that leaves the phase \<open>descending\<close> leaves
    \<open>maxHeight - \<onehalf> g t\<^sup>2\<close> and \<open>- g t\<close>; in the phases \<open>at_target\<close> and \<open>at_max\<close> a call keeps
    height and velocity while the time advances; a call that enters \<open>at_max\<close> sets the
    height to \<open>maxHeight\<close> and the velocity to 0.
  \<^item> Half-escape: each frame adds 0.02 to the angle, so after \<open>n\<close> frames the angle has
    grown by \<open>0.02 n\<close>, whatever time has passed.
  \<^item> Stone-throw, for any state and argument: a call that takes the time to \<open>totalTime\<close> or
    beyond sets the time to \<open>totalTime\<close>, height and velocity to 0, the phase to \<open>Landed\<close>
    and returns \<open>true\<close>; any other call leaves the height of the trajectory at the new
    time, not below 0, and its velocity.  Along every run with non-negative deltas from
    the constructed state the stone is exactly on its trajectory until it has landed.
  \<^item> Air-resistance, for any state and argument: the two heights are those of the two
    trajectories at the new time, not below 0.  Along every run with non-negative deltas
    from the constructed state they are exactly those of the trajectories.
  \<^item> Projectile: once finished, a call changes nothing; before, a call that does not land
    leaves \<open>v\<^sub>0 t - \<onehalf> g t\<^sup>2\<close> and \<open>v\<^sub>0 - g t\<close> at the new time, and a call that lands (closed
    form at or below 0 after more than 0.1 s) leaves height 0 and velocity \<open>v\<^sub>0\<close>.
  \<^item> Falling stones, in every state of a run from the constructed state: a stone in the
    air is on its closed form at the time of the page, a stone on the ground is at 0
    with its theoretical final speed.
  \<^item> Ball-throw, in every state of a run from the constructed state: the closed form of
    the phase at the phase-relative time.
  \<^item> Falling ball: once finished, a call changes nothing; before, \<open>update(t)\<close> leaves
    \<open>\<onehalf> g tau\<^sup>2\<close> and \<open>g tau\<close> at \<open>tau = min t totalTime\<close>.
\<close>

theorem C1_closed_form_amended:
  "(list_all nonneg_delta ds \<longrightarrow>
      list_all dualball_closed_form (states_after DualBall_step DualBallSimulation_new ds))
   \<and> (bt_phase (BrickThrow_step s1 i1) = ascending \<or> bt_phase (BrickThrow_step s1 i1) = continuing
      \<longrightarrow> bt_height (BrickThrow_step s1 i1)
             = bt_initialVelocity s1 * bt_time (BrickThrow_step s1 i1)
               - 0.5 * bt_g s1 * bt_time (BrickThrow_step s1 i1) * bt_time (BrickThrow_step s1 i1)
          \<and> bt_velocity (BrickThrow_step s1 i1)
             = bt_initialVelocity s1 - bt_g s1 * bt_time (BrickThrow_step s1 i1))
   \<and> (bt_phase (BrickThrow_step s2 i2) = descending
      \<longrightarrow> bt_height (BrickThrow_step s2 i2)
             = bt_maxHeight s2
               - 0.5 * bt_g s2 * bt_time (BrickThrow_step s2 i2) * bt_time (BrickThrow_step s2 i2)
          \<and> bt_velocity (BrickThrow_step s2 i2) = - bt_g s2 * bt_time (BrickThrow_step s2 i2))
   \<and> (bt_phase s3 = at_target \<or> bt_phase s3 = at_max
      \<longrightarrow> bt_height (BrickThrow_step s3 i3) = bt_height s3
          \<and> bt_velocity (BrickThrow_step s3 i3) = bt_velocity s3
          \<and> bt_phase (BrickThrow_step s3 i3) = bt_phase s3
          \<and> bt_time (BrickThrow_step s3 i3) = bt_time s3 + fst i3 * snd i3)
   \<and> (bt_phase s4 \<noteq> at_max \<and> bt_phase (BrickThrow_step s4 i4) = at_max
      \<longrightarrow> bt_height (BrickThrow_step s4 i4) = bt_maxHeight s4
          \<and> bt_velocity (BrickThrow_step s4 i4) = 0)
   \<and> (he_isPlaying h \<longrightarrow> he_angle (halfesc_frames n h) = he_angle h + 0.02 * real n)
   \<and> (st_totalTime s5 \<le> st_time s5 + d5 \<longrightarrow>
        StoneThrowSimulation_update s5 d5
          = (s5\<lparr> st_time := st_totalTime s5, st_height := 0, st_velocity := 0,
                 st_phase := Landed \<rparr>, True))
   \<and> (\<not> st_totalTime s6 \<le> st_time s6 + d6 \<longrightarrow>
        \<not> snd (StoneThrowSimulation_update s6 d6)
      \<and> st_time (StoneThrow_step s6 d6) = st_time s6 + d6
      \<and> st_height (StoneThrow_step s6 d6) = max 0 (stonethrow_height_at s6 (st_time s6 + d6))
      \<and> st_velocity (StoneThrow_step s6 d6) = stonethrow_velocity_at s6 (st_time s6 + d6)
      \<and> st_phase (StoneThrow_step s6 d6) \<noteq> Landed)
   \<and> (list_all (\<lambda>dt. 0 \<le> dt) ts \<longrightarrow>
        list_all stonethrow_closed_form
          (states_after StoneThrow_step StoneThrowSimulation_new ts))
   \<and> ar_time (AirResistance_step s7 d7) = ar_time s7 + d7
   \<and> ar_idealHeight (AirResistance_step s7 d7) = max 0 (airres_ideal_at s7 (ar_time s7 + d7))
   \<and> ar_realHeight (AirResistance_step s7 d7) = max 0 (airres_real_at s7 (ar_time s7 + d7))
   \<and> (list_all (\<lambda>dt. 0 \<le> dt) as \<longrightarrow>
        list_all airres_closed_form
          (states_after AirResistance_step AirResistanceSimulation_new as))
   \<and> (pj_finished p1 \<longrightarrow> Projectile_update p1 e1 = p1)
   \<and> (\<not> pj_finished p2
        \<and> \<not> (projectile_height_at (pj_time p2 + e2) \<le> 0 \<and> pj_time p2 + e2 > 0.1) \<longrightarrow>
        pj_time (Projectile_update p2 e2) = pj_time p2 + e2
      \<and> pj_y (Projectile_update p2 e2) = projectile_height_at (pj_time p2 + e2)
      \<and> pj_v (Projectile_update p2 e2) = projectile_velocity_at (pj_time p2 + e2)
      \<and> \<not> pj_finished (Projectile_update p2 e2))
   \<and> (\<not> pj_finished p3 \<and> projectile_height_at (pj_time p3 + e3) \<le> 0 \<and> pj_time p3 + e3 > 0.1
        \<longrightarrow>
        pj_time (Projectile_update p3 e3) = pj_time p3 + e3
      \<and> pj_y (Projectile_update p3 e3) = 0
      \<and> pj_v (Projectile_update p3 e3) = CONFIG_ke_v0
      \<and> pj_finished (Projectile_update p3 e3))
   \<and> list_all fs_closed_form (states_after FallingStones_step FallingStonesSimulation_new fs)
   \<and> list_all ballthrow_closed_form (states_after BallThrow_step BallThrowSimulation_new bs)
   \<and> (fb_finished b1 \<longrightarrow> FallingBall_update b1 t1 = b1)
   \<and> (\<not> fb_finished b2 \<longrightarrow>
        fb_y (FallingBall_update b2 t2)
          = 0.5 * CONFIG_freefall_g * min t2 CONFIG_freefall_totalTime
              * min t2 CONFIG_freefall_totalTime
      \<and> fb_velocity (FallingBall_update b2 t2)
          = CONFIG_freefall_g * min t2 CONFIG_freefall_totalTime
      \<and> fb_finished (FallingBall_update b2 t2) = (CONFIG_freefall_totalTime \<le> t2))"
  apply (intro conjI)
  subgoal using dualball_run_closed_form [of ds] by blast
  subgoal using BrickThrow_step_rising [of s1 i1] by blast
  subgoal using BrickThrow_step_falling [of s2 i2] by blast
  subgoal using BrickThrow_step_frozen [of s3 i3] by blast
  subgoal using BrickThrow_step_pinned [of s4 i4] by blast
  subgoal using halfesc_frames_angle [of h n] by blast
  subgoal using StoneThrow_update_landing [of s5 d5] by blast
  subgoal using StoneThrow_update_flying [of s6 d6] by blast
  subgoal using stonethrow_run_closed_form [of ts] by blast
  subgoal using AirResistance_step_closed [of s7 d7] by blast
  subgoal using AirResistance_step_closed [of s7 d7] by blast
  subgoal using AirResistance_step_closed [of s7 d7] by blast
  subgoal using airres_run_closed_form [of as] by blast
  subgoal using Projectile_update_finished [of p1 e1] by blast
  subgoal using Projectile_update_flying [of p2 e2] by blast
  subgoal using Projectile_update_landing [of p3 e3] by blast
  subgoal by (rule fallingstones_run_closed_form)
  subgoal by (rule ballthrow_run_closed_form)
  subgoal using FallingBall_update_finished [of b1 t1] by blast
  subgoal using FallingBall_update_closed [of b2 t2] by blast
  done

theorem C1_closed_form_amended_witness:
  "list_all nonneg_delta [(0.1, 1), (0.1, 2)]
   \<and> list_all dualball_closed_form
        (states_after DualBall_step DualBallSimulation_new [(0.1, 1), (0.1, 2)])
   \<and> bt_phase (BrickThrow_step (bw_sim (foldl brick_step brick_world_new [Update 0.4 1]))
        (0.5, 1)) = ascending
   \<and> bt_time (BrickThrow_step (bw_sim (foldl brick_step brick_world_new [Update 0.4 1]))
        (0.5, 1)) = 0.5
   \<and> bt_height (BrickThrow_step (bw_sim (foldl brick_step brick_world_new [Update 0.4 1]))
        (0.5, 1))
       = bt_initialVelocity (bw_sim (foldl brick_step brick_world_new [Update 0.4 1]))
           * bt_time (BrickThrow_step (bw_sim (foldl brick_step brick_world_new [Update 0.4 1]))
               (0.5, 1))
         - 0.5 * bt_g (bw_sim (foldl brick_step brick_world_new [Update 0.4 1]))
           * bt_time (BrickThrow_step (bw_sim (foldl brick_step brick_world_new [Update 0.4 1]))
               (0.5, 1))
           * bt_time (BrickThrow_step (bw_sim (foldl brick_step brick_world_new [Update 0.4 1]))
               (0.5, 1))
   \<and> bt_phase (BrickThrow_step (bw_sim (foldl brick_step brick_world_new
          [Update 0.4 1, Update 2 1, Update 0.1 1, Fire Timeout_at_max])) (0.1, 1)) = descending
   \<and> bt_velocity (BrickThrow_step (bw_sim (foldl brick_step brick_world_new
          [Update 0.4 1, Update 2 1, Update 0.1 1, Fire Timeout_at_max])) (0.1, 1))
       = - bt_g (bw_sim (foldl brick_step brick_world_new
             [Update 0.4 1, Update 2 1, Update 0.1 1, Fire Timeout_at_max]))
         * bt_time (BrickThrow_step (bw_sim (foldl brick_step brick_world_new
             [Update 0.4 1, Update 2 1, Update 0.1 1, Fire Timeout_at_max])) (0.1, 1))
   \<and> bt_phase (bw_sim (foldl brick_step brick_world_new [Update 0.4 1, Update 1 1])) = at_target
   \<and> bt_height (BrickThrow_step
          (bw_sim (foldl brick_step brick_world_new [Update 0.4 1, Update 1 1])) (0.1, 1))
       = bt_height (bw_sim (foldl brick_step brick_world_new [Update 0.4 1, Update 1 1]))
   \<and> bt_phase (bw_sim (foldl brick_step brick_world_new [Update 0.4 1])) \<noteq> at_max
   \<and> bt_phase (BrickThrow_step (bw_sim (foldl brick_step brick_world_new [Update 0.4 1])) (2, 1))
       = at_max
   \<and> bt_height (BrickThrow_step (bw_sim (foldl brick_step brick_world_new [Update 0.4 1])) (2, 1))
       = bt_maxHeight (bw_sim (foldl brick_step brick_world_new [Update 0.4 1]))
   \<and> he_isPlaying (HalfEscapeSimulation_play HalfEscapeSimulation_new)
   \<and> he_angle (halfesc_frames 3 (HalfEscapeSimulation_play HalfEscapeSimulation_new))
       = he_angle (HalfEscapeSimulation_play HalfEscapeSimulation_new) + 0.02 * real (3::nat)
   \<and> st_totalTime StoneThrowSimulation_new \<le> st_time StoneThrowSimulation_new + 30
   \<and> StoneThrowSimulation_update StoneThrowSimulation_new 30
       = (StoneThrowSimulation_new\<lparr> st_time := st_totalTime StoneThrowSimulation_new,
            st_height := 0, st_velocity := 0, st_phase := Landed \<rparr>, True)
   \<and> \<not> st_totalTime StoneThrowSimulation_new \<le> st_time StoneThrowSimulation_new + 1
   \<and> st_height (StoneThrow_step StoneThrowSimulation_new 1)
       = max 0 (stonethrow_height_at StoneThrowSimulation_new
                  (st_time StoneThrowSimulation_new + 1))
   \<and> st_velocity (StoneThrow_step StoneThrowSimulation_new 1)
       = stonethrow_velocity_at StoneThrowSimulation_new (st_time StoneThrowSimulation_new + 1)
   \<and> list_all (\<lambda>dt. 0 \<le> dt) [1, 12, 30 :: real]
   \<and> list_all stonethrow_closed_form
        (states_after StoneThrow_step StoneThrowSimulation_new [1, 12, 30])
   \<and> list_all (\<lambda>dt. 0 \<le> dt) [1, 2, 5 :: real]
   \<and> list_all airres_closed_form
        (states_after AirResistance_step AirResistanceSimulation_new [1, 2, 5])
   \<and> pj_finished (Projectile_update Projectile_reset 1)
   \<and> Projectile_update (Projectile_update Projectile_reset 1) 0.5
       = Projectile_update Projectile_reset 1
   \<and> \<not> pj_finished Projectile_reset
   \<and> \<not> (projectile_height_at (pj_time Projectile_reset + 0.2) \<le> 0
         \<and> pj_time Projectile_reset + 0.2 > 0.1)
   \<and> pj_y (Projectile_update Projectile_reset 0.2)
       = projectile_height_at (pj_time Projectile_reset + 0.2)
   \<and> pj_v (Projectile_update Projectile_reset 0.2)
       = projectile_velocity_at (pj_time Projectile_reset + 0.2)
   \<and> projectile_height_at (pj_time Projectile_reset + 1) \<le> 0
   \<and> pj_time Projectile_reset + 1 > 0.1
   \<and> pj_y (Projectile_update Projectile_reset 1) = 0
   \<and> pj_v (Projectile_update Projectile_reset 1) = CONFIG_ke_v0
   \<and> fb_finished (FallingBall_update FallingBall_reset 4)
   \<and> FallingBall_update (FallingBall_update FallingBall_reset 4) 1
       = FallingBall_update FallingBall_reset 4
   \<and> \<not> fb_finished FallingBall_reset
   \<and> fb_y (FallingBall_update FallingBall_reset 1)
       = 0.5 * CONFIG_freefall_g * min 1 CONFIG_freefall_totalTime
           * min 1 CONFIG_freefall_totalTime"
proof -
  let ?apex = "bw_sim (foldl brick_step brick_world_new
          [Update 0.4 1, Update 2 1, Update 0.1 1, Fire Timeout_at_max])"
  let ?target = "bw_sim (foldl brick_step brick_world_new [Update 0.4 1, Update 1 1])"
  let ?launch = "bw_sim (foldl brick_step brick_world_new [Update 0.4 1])"
  let ?play = "HalfEscapeSimulation_play HalfEscapeSimulation_new"
  have h0: "list_all nonneg_delta [(0.1, 1), (0.1, 2)]" by (simp add: nonneg_delta_def)
  have h1: "bt_phase (BrickThrow_step ?launch (0.5, 1)) = ascending"
    "bt_time (BrickThrow_step ?launch (0.5, 1)) = 0.5"
    unfolding launch_run using sqrt_236_bounds by (simp_all add: BrickThrow_step_def brick_eval)
  have h2: "bt_phase (BrickThrow_step ?apex (0.1, 1)) = descending"
    unfolding apex_run by (simp add: BrickThrow_step_def brick_eval)
  have h3: "bt_phase ?target = at_target" unfolding target_run by simp
  have h4: "bt_phase ?launch \<noteq> at_max" unfolding launch_run by simp
  have h4': "bt_phase (BrickThrow_step ?launch (2, 1)) = at_max"
    unfolding launch_run using sqrt_236_bounds by (simp add: BrickThrow_step_def brick_eval)
  have h5: "he_isPlaying ?play"
    by (simp add: HalfEscapeSimulation_play_def HalfEscapeSimulation_new_def halfesc_animate_def
        Let_def)
  have h6: "st_totalTime StoneThrowSimulation_new \<le> st_time StoneThrowSimulation_new + 30"
    "\<not> st_totalTime StoneThrowSimulation_new \<le> st_time StoneThrowSimulation_new + 1"
    using sqrt_stone_bounds unfolding stonethrow_new_times by linarith+
  have h7: "pj_finished (Projectile_update Projectile_reset 1)"
    "\<not> pj_finished Projectile_reset"
    "\<not> (projectile_height_at (pj_time Projectile_reset + 0.2) \<le> 0
         \<and> pj_time Projectile_reset + 0.2 > 0.1)"
    "projectile_height_at (pj_time Projectile_reset + 1) \<le> 0"
    "pj_time Projectile_reset + 1 > 0.1"
    by (simp_all add: Projectile_update_def Projectile_reset_def projectile_height_at_def
        CONFIG_ke_v0_def CONFIG_ke_g_def Let_def)
  have h8: "fb_finished (FallingBall_update FallingBall_reset 4)"
    "\<not> fb_finished FallingBall_reset"
    by (simp_all add: FallingBall_update_def FallingBall_reset_def CONFIG_freefall_totalTime_def
        Let_def)
  have h9: "list_all (\<lambda>dt. 0 \<le> dt) [1, 12, 30 :: real]"
    "list_all (\<lambda>dt. 0 \<le> dt) [1, 2, 5 :: real]"
    by simp_all
  show ?thesis
    using C1_closed_form_amended [where ds = "[(0.1, 1), (0.1, 2)]"
        and ts = "[1, 12, 30]" and as = "[1, 2, 5]"
        and ?s1.0 = ?launch and ?i1.0 = "(0.5, 1)" and ?s2.0 = ?apex and ?i2.0 = "(0.1, 1)"
        and ?s3.0 = ?target and ?i3.0 = "(0.1, 1)" and ?s4.0 = ?launch and ?i4.0 = "(2, 1)"
        and h = ?play and n = 3
        and ?s5.0 = StoneThrowSimulation_new and ?d5.0 = 30
        and ?s6.0 = StoneThrowSimulation_new and ?d6.0 = 1
        and ?s7.0 = AirResistanceSimulation_new and ?d7.0 = 1
        and ?p1.0 = "Projectile_update Projectile_reset 1" and ?e1.0 = "0.5"
        and ?p2.0 = Projectile_reset and ?e2.0 = "0.2"
        and ?p3.0 = Projectile_reset and ?e3.0 = 1
        and fs = "[(1, 1)]" and bs = "[(1, 1)]"
        and ?b1.0 = "FallingBall_update FallingBall_reset 4" and ?t1.0 = 1
        and ?b2.0 = FallingBall_reset and ?t2.0 = 1]
      h0 h1 h2 h3 h4 h4' h5 h6 h7 h8 h9
    by blast
qed

section \<open>After the terminal condition\<close>

lemma brick_landed_step:
  assumes "bt_phase s = landed"
  shows "bt_height (BrickThrow_step s i) = bt_height s
     \<and> bt_velocity (BrickThrow_step s i) = bt_velocity s
     \<and> bt_phase (BrickThrow_step s i) = landed
     \<and> bt_trail (BrickThrow_step s i) = bt_trail s
     \<and> bt_reachedTarget (BrickThrow_step s i) = bt_reachedTarget s
     \<and> bt_reachedMax (BrickThrow_step s i) = bt_reachedMax s
     \<and> bt_time (BrickThrow_step s i) = bt_time s + fst i * snd i"
proof -
  have "brick_move (brick_advance s (fst i * snd i)) = brick_advance s (fst i * snd i)"
    using assms by (simp add: brick_move_def brick_advance_phase)
  with assms show ?thesis by (simp add: BrickThrow_step_stages brick_advance_phase)
qed

lemma dualball_landed_update:
  assumes inv: "db_inv sim" and l: "list_all b_landed (db_balls sim)" and d: "nonneg_delta i"
  shows "DualBallSimulation_update sim (fst i) (snd i) = (sim, True)"
proof -
  from inv obtain b where "b \<in> set (db_balls sim)" by (cases "db_balls sim") (auto simp: db_inv_def)
  with inv l have "db_time sim = db_totalTime sim"
    by (auto simp add: db_inv_def ball_inv_def list_all_iff)
  with d have t: "(if db_time sim + fst i * snd i > db_totalTime sim then db_totalTime sim
                   else db_time sim + fst i * snd i) = db_time sim"
    by (simp add: nonneg_delta_def)
  have "map (ball_update sim) (db_balls sim) = db_balls sim"
    using l by (intro map_idI) (simp add: ball_update_def list_all_iff)
  with t l show ?thesis
    by (simp add: DualBallSimulation_update_def Let_def)
qed

lemma dualball_landed_balls:
  assumes "list_all b_landed (db_balls sim)"
  shows "DualBallSimulation_update sim dt k
           = (sim\<lparr> db_time := (if db_time sim + dt * k > db_totalTime sim then db_totalTime sim
                                 else db_time sim + dt * k) \<rparr>, True)"
proof -
  have "map (ball_update sim') (db_balls sim) = db_balls sim" for sim'
    using assms by (intro map_idI) (simp add: ball_update_def list_all_iff)
  with assms show ?thesis
    by (simp add: DualBallSimulation_update_def Let_def)
qed

text \<open>
  C2, as stated, fails.

  \<^item> Brick-throw.  In a run that has reached the phase \<open>landed\<close> at time 2, one more call
    \<open>update(0.1, 1)\<close> moves the elapsed time to 2.1.
  \<^item> Dual-ball.  With both balls on the ground at time 5, \<open>update(-1, 1)\<close> moves the time
    to 4.
  \<^item> Air-resistance.  \<open>update(4)\<close> returns \<open>true\<close> at time 4; \<open>update(0.1)\<close> then moves the
    time to 4.1.
  \<^item> Falling stones.  \<open>update(3, 1)\<close> returns \<open>true\<close> at time 3; \<open>update(0.1, 1)\<close> then moves
    the time of the page to 3.1.
  \<^item> Stone-throw.  \<open>update(30)\<close> returns \<open>true\<close> in phase \<open>Landed\<close>; \<open>update(-1)\<close> then takes
    the stone back into the air.
\<close>

theorem C2_counterexample:
  "bt_phase (bw_sim (foldl brick_step brick_world_new
      [Update 0.4 1, Update 2 1, Update 0.1 1, Fire Timeout_at_max, Update 2 1])) = landed
   \<and> bt_time (bw_sim (foldl brick_step brick_world_new
      [Update 0.4 1, Update 2 1, Update 0.1 1, Fire Timeout_at_max, Update 2 1])) = 2
   \<and> bt_time (fst (BrickThrowSimulation_update (bw_sim (foldl brick_step brick_world_new
      [Update 0.4 1, Update 2 1, Update 0.1 1, Fire Timeout_at_max, Update 2 1])) 0.1 1)) = 2.1
   \<and> fst (BrickThrowSimulation_update (bw_sim (foldl brick_step brick_world_new
      [Update 0.4 1, Update 2 1, Update 0.1 1, Fire Timeout_at_max, Update 2 1])) 0.1 1)
      \<noteq> bw_sim (foldl brick_step brick_world_new
      [Update 0.4 1, Update 2 1, Update 0.1 1, Fire Timeout_at_max, Update 2 1])
   \<and> list_all b_landed (db_balls (foldl DualBall_step DualBallSimulation_new [(5, 1)]))
   \<and> db_time (foldl DualBall_step DualBallSimulation_new [(5, 1)]) = 5
   \<and> db_time (fst (DualBallSimulation_update
        (foldl DualBall_step DualBallSimulation_new [(5, 1)]) (- 1) 1)) = 4
   \<and> snd (AirResistanceSimulation_update AirResistanceSimulation_new 4)
   \<and> ar_time (AirResistance_step AirResistanceSimulation_new 4) = 4
   \<and> ar_time (AirResistance_step (AirResistance_step AirResistanceSimulation_new 4) 0.1) = 4.1
   \<and> snd (FallingStonesSimulation_update FallingStonesSimulation_new 3 1)
   \<and> fs_time (FallingStones_step FallingStonesSimulation_new (3, 1)) = 3
   \<and> fs_time (FallingStones_step (FallingStones_step FallingStonesSimulation_new (3, 1)) (0.1, 1))
       = 3.1
   \<and> snd (StoneThrowSimulation_update StoneThrowSimulation_new 30)
   \<and> st_phase (StoneThrow_step StoneThrowSimulation_new 30) = Landed
   \<and> st_phase (StoneThrow_step (StoneThrow_step StoneThrowSimulation_new 30) (- 1)) \<noteq> Landed"
proof -
  let ?s = "bw_sim (foldl brick_step brick_world_new
      [Update 0.4 1, Update 2 1, Update 0.1 1, Fire Timeout_at_max, Update 2 1])"
  have p: "bt_phase ?s = landed" and t: "bt_time ?s = 2"
    unfolding landed_run
    by (simp_all add: BrickThrowSimulation_new_def BrickThrowSimulation_reset_def Let_def)
  have "bt_time (BrickThrow_step ?s (0.1, 1))
          = bt_time ?s + fst (0.1::real, 1::real) * snd (0.1::real, 1::real)"
    using brick_landed_step [OF p, of "(0.1, 1)"] by simp
  then have t': "bt_time (fst (BrickThrowSimulation_update ?s 0.1 1)) = 2.1"
    using t by (simp add: BrickThrow_step_def)
  then have "fst (BrickThrowSimulation_update ?s 0.1 1) \<noteq> ?s" using t by auto
  with p t t' have brick:
    "bt_phase ?s = landed \<and> bt_time ?s = 2
     \<and> bt_time (fst (BrickThrowSimulation_update ?s 0.1 1)) = 2.1
     \<and> fst (BrickThrowSimulation_update ?s 0.1 1) \<noteq> ?s"
    by simp
  have dual:
    "list_all b_landed (db_balls (foldl DualBall_step DualBallSimulation_new [(5, 1)]))
     \<and> db_time (foldl DualBall_step DualBallSimulation_new [(5, 1)]) = 5
     \<and> db_time (fst (DualBallSimulation_update
          (foldl DualBall_step DualBallSimulation_new [(5, 1)]) (- 1) 1)) = 4"
    by (simp add: dualball_eval)
  have air:
    "snd (AirResistanceSimulation_update AirResistanceSimulation_new 4)
     \<and> ar_time (AirResistance_step AirResistanceSimulation_new 4) = 4
     \<and> ar_time (AirResistance_step (AirResistance_step AirResistanceSimulation_new 4) 0.1) = 4.1"
    by (simp add: airres_eval)
  have stones:
    "snd (FallingStonesSimulation_update FallingStonesSimulation_new 3 1)
     \<and> fs_time (FallingStones_step FallingStonesSimulation_new (3, 1)) = 3
     \<and> fs_time (FallingStones_step (FallingStones_step FallingStonesSimulation_new (3, 1))
          (0.1, 1)) = 3.1"
    by (simp add: fallingstones_eval)
  have l: "StoneThrow_step StoneThrowSimulation_new 30
             = StoneThrowSimulation_new\<lparr> st_time := st_totalTime StoneThrowSimulation_new,
                 st_height := 0, st_velocity := 0, st_phase := Landed \<rparr>"
    by (simp add: StoneThrow_step_def stonethrow_landing_run)
  have "\<not> st_totalTime (StoneThrow_step StoneThrowSimulation_new 30)
           \<le> st_time (StoneThrow_step StoneThrowSimulation_new 30) + (- 1)"
    unfolding l by simp
  then have "st_phase (StoneThrow_step (StoneThrow_step StoneThrowSimulation_new 30) (- 1))
               \<noteq> Landed"
    using StoneThrow_update_flying [of "StoneThrow_step StoneThrowSimulation_new 30" "- 1"]
    by blast
  then have stone:
    "snd (StoneThrowSimulation_update StoneThrowSimulation_new 30)
     \<and> st_phase (StoneThrow_step StoneThrowSimulation_new 30) = Landed
     \<and> st_phase (StoneThrow_step (StoneThrow_step StoneThrowSimulation_new 30) (- 1)) \<noteq> Landed"
    by (simp add: l stonethrow_landing_run)
  from brick dual air stones stone show ?thesis
    by (intro conjI) (erule conjE | assumption)+
qed

text \<open>
  C2, amended.

  \<^item> Dual-ball: in every state reached from the constructed one by calls with
    non-negative scaled delta, once all balls have landed a further call with non-negative
    scaled delta returns \<open>true\<close> and leaves the whole state, the time included, unchanged.
    In any state with all balls landed a call, with any arguments, returns \<open>true\<close> and
    changes nothing but the time, which it advances and caps at \<open>totalTime\<close>.
  \<^item> Brick-throw: in phase \<open>landed\<close> a further call, with any arguments, leaves height,
    velocity, phase, trail and the two flags unchanged and adds the scaled delta to the
    elapsed time.
  \<^item> Stone-throw: after a call that has returned \<open>true\<close>, a further call with a
    non-negative delta returns \<open>true\<close> and leaves the whole state unchanged.
  \<^item> Air-resistance: in every state reached from the constructed one whose time has
    reached both total times, a further call with a non-negative delta returns \<open>true\<close> and
    changes nothing but the time, to which it adds the delta.
  \<^item> Projectile: once finished, a call with any argument leaves the whole state
    unchanged.
  \<^item> Falling stones: once all stones have reached the ground a call, with any arguments,
    returns \<open>true\<close> and changes nothing but the time of the page, to which it adds the
    scaled delta.
  \<^item> Ball-throw: in phase \<open>Complete\<close> a call, with any arguments, leaves the whole state
    unchanged and returns the \<open>completed\<close> flag.
  \<^item> Falling ball: once finished, a call with any argument leaves the whole state
    unchanged.
\<close>

theorem C2_terminal_amended:
  "(list_all nonneg_delta ds \<and> nonneg_delta i
      \<and> list_all b_landed (db_balls (foldl DualBall_step DualBallSimulation_new ds)) \<longrightarrow>
      DualBallSimulation_update (foldl DualBall_step DualBallSimulation_new ds) (fst i) (snd i)
        = (foldl DualBall_step DualBallSimulation_new ds, True))
   \<and> (list_all b_landed (db_balls sim) \<longrightarrow>
        DualBallSimulation_update sim dt k
          = (sim\<lparr> db_time := (if db_time sim + dt * k > db_totalTime sim then db_totalTime sim
                                else db_time sim + dt * k) \<rparr>, True))
   \<and> (bt_phase s = landed \<longrightarrow>
        bt_height (BrickThrow_step s j) = bt_height s
      \<and> bt_velocity (BrickThrow_step s j) = bt_velocity s
      \<and> bt_phase (BrickThrow_step s j) = landed
      \<and> bt_trail (BrickThrow_step s j) = bt_trail s
      \<and> bt_reachedTarget (BrickThrow_step s j) = bt_reachedTarget s
      \<and> bt_reachedMax (BrickThrow_step s j) = bt_reachedMax s
      \<and> bt_time (BrickThrow_step s j) = bt_time s + fst j * snd j)
   \<and> (snd (StoneThrowSimulation_update s5 d0) \<and> 0 \<le> d5 \<longrightarrow>
        StoneThrowSimulation_update (StoneThrow_step s5 d0) d5 = (StoneThrow_step s5 d0, True))
   \<and> (max (ar_idealTotalTime (foldl AirResistance_step AirResistanceSimulation_new ts))
           (ar_realTotalTime (foldl AirResistance_step AirResistanceSimulation_new ts))
         \<le> ar_time (foldl AirResistance_step AirResistanceSimulation_new ts)
       \<and> 0 \<le> d7 \<longrightarrow>
        AirResistanceSimulation_update
            (foldl AirResistance_step AirResistanceSimulation_new ts) d7
          = ((foldl AirResistance_step AirResistanceSimulation_new ts)
               \<lparr> ar_time := ar_time (foldl AirResistance_step AirResistanceSimulation_new ts)
                             + d7 \<rparr>, True))
   \<and> (pj_finished p \<longrightarrow> Projectile_update p e = p)
   \<and> (list_all sn_reachedGround (fs_stones s8) \<longrightarrow>
        FallingStonesSimulation_update s8 d8 k8 = (s8\<lparr> fs_time := fs_time s8 + d8 * k8 \<rparr>, True))
   \<and> (ba_phase s9 = Complete \<longrightarrow>
        BallThrowSimulation_update s9 d9 k9 = (s9, ba_completed s9))
   \<and> (fb_finished b \<longrightarrow> FallingBall_update b t = b)"
  using dualball_landed_update [OF dualball_run_inv, of ds i] dualball_landed_balls [of sim dt k]
    brick_landed_step [of s j] StoneThrow_landed_again [of s5 d0 d5]
    airres_terminal_run [of ts d7] Projectile_update_finished [of p e]
    fallingstones_terminal_update [of s8 d8 k8] BallThrow_complete_update [of s9 d9 k9]
    FallingBall_update_finished [of b t]
  by blast

theorem C2_terminal_amended_witness:
  "list_all nonneg_delta [(5, 1)] \<and> nonneg_delta (0.1, 1)
   \<and> list_all b_landed (db_balls (foldl DualBall_step DualBallSimulation_new [(5, 1)]))
   \<and> DualBallSimulation_update (foldl DualBall_step DualBallSimulation_new [(5, 1)])
        (fst (0.1::real, 1::real)) (snd (0.1::real, 1::real))
        = (foldl DualBall_step DualBallSimulation_new [(5, 1)], True)
   \<and> DualBallSimulation_update (foldl DualBall_step DualBallSimulation_new [(5, 1)]) (- 1) 1
        = ((foldl DualBall_step DualBallSimulation_new [(5, 1)])
             \<lparr> db_time :=
                 (if db_time (foldl DualBall_step DualBallSimulation_new [(5, 1)]) + - 1 * 1
                       > db_totalTime (foldl DualBall_step DualBallSimulation_new [(5, 1)])
                  then db_totalTime (foldl DualBall_step DualBallSimulation_new [(5, 1)])
                  else db_time (foldl DualBall_step DualBallSimulation_new [(5, 1)]) + - 1 * 1) \<rparr>,
           True)
   \<and> bt_phase (bw_sim (foldl brick_step brick_world_new
        [Update 0.4 1, Update 2 1, Update 0.1 1, Fire Timeout_at_max, Update 2 1])) = landed
   \<and> bt_height (BrickThrow_step (bw_sim (foldl brick_step brick_world_new
        [Update 0.4 1, Update 2 1, Update 0.1 1, Fire Timeout_at_max, Update 2 1])) (0.1, 2))
      = bt_height (bw_sim (foldl brick_step brick_world_new
        [Update 0.4 1, Update 2 1, Update 0.1 1, Fire Timeout_at_max, Update 2 1]))
   \<and> bt_time (BrickThrow_step (bw_sim (foldl brick_step brick_world_new
        [Update 0.4 1, Update 2 1, Update 0.1 1, Fire Timeout_at_max, Update 2 1])) (0.1, 2))
      = bt_time (bw_sim (foldl brick_step brick_world_new
        [Update 0.4 1, Update 2 1, Update 0.1 1, Fire Timeout_at_max, Update 2 1]))
        + fst (0.1::real, 2::real) * snd (0.1::real, 2::real)
   \<and> snd (StoneThrowSimulation_update StoneThrowSimulation_new 30) \<and> (0::real) \<le> 1
   \<and> StoneThrowSimulation_update (StoneThrow_step StoneThrowSimulation_new 30) 1
        = (StoneThrow_step StoneThrowSimulation_new 30, True)
   \<and> max (ar_idealTotalTime (foldl AirResistance_step AirResistanceSimulation_new [3, 2]))
          (ar_realTotalTime (foldl AirResistance_step AirResistanceSimulation_new [3, 2]))
        \<le> ar_time (foldl AirResistance_step AirResistanceSimulation_new [3, 2])
   \<and> (0::real) \<le> 0.1
   \<and> AirResistanceSimulation_update
          (foldl AirResistance_step AirResistanceSimulation_new [3, 2]) 0.1
        = ((foldl AirResistance_step AirResistanceSimulation_new [3, 2])
             \<lparr> ar_time := ar_time (foldl AirResistance_step AirResistanceSimulation_new [3, 2])
                           + 0.1 \<rparr>, True)
   \<and> pj_finished (Projectile_update Projectile_reset 1)
   \<and> Projectile_update (Projectile_update Projectile_reset 1) 0.5
        = Projectile_update Projectile_reset 1
   \<and> list_all sn_reachedGround
        (fs_stones (FallingStones_step FallingStonesSimulation_new (3, 1)))
   \<and> FallingStonesSimulation_update (FallingStones_step FallingStonesSimulation_new (3, 1)) 0.1 2
        = ((FallingStones_step FallingStonesSimulation_new (3, 1))
             \<lparr> fs_time := fs_time (FallingStones_step FallingStonesSimulation_new (3, 1))
                           + 0.1 * 2 \<rparr>, True)
   \<and> ba_phase (foldl BallThrow_step BallThrowSimulation_new [(2, 1), (2, 1)]) = Complete
   \<and> BallThrowSimulation_update
          (foldl BallThrow_step BallThrowSimulation_new [(2, 1), (2, 1)]) 0.1 1
        = (foldl BallThrow_step BallThrowSimulation_new [(2, 1), (2, 1)],
           ba_completed (foldl BallThrow_step BallThrowSimulation_new [(2, 1), (2, 1)]))
   \<and> fb_finished (FallingBall_update FallingBall_reset 4)
   \<and> FallingBall_update (FallingBall_update FallingBall_reset 4) 1
        = FallingBall_update FallingBall_reset 4"
proof -
  let ?s = "bw_sim (foldl brick_step brick_world_new
        [Update 0.4 1, Update 2 1, Update 0.1 1, Fire Timeout_at_max, Update 2 1])"
  have a: "list_all nonneg_delta [(5, 1)]" "nonneg_delta (0.1, 1)"
    by (simp_all add: nonneg_delta_def)
  have b: "list_all b_landed (db_balls (foldl DualBall_step DualBallSimulation_new [(5, 1)]))"
    by (simp add: dualball_eval)
  have c: "bt_phase ?s = landed" by (simp only: landed_run) simp
  have d: "snd (StoneThrowSimulation_update StoneThrowSimulation_new 30)"
    by (simp add: stonethrow_landing_run)
  have e: "max (ar_idealTotalTime (foldl AirResistance_step AirResistanceSimulation_new [3, 2]))
          (ar_realTotalTime (foldl AirResistance_step AirResistanceSimulation_new [3, 2]))
        \<le> ar_time (foldl AirResistance_step AirResistanceSimulation_new [3, 2])"
    by (simp add: airres_eval)
  have f: "pj_finished (Projectile_update Projectile_reset 1)"
    by (simp add: Projectile_update_def Projectile_reset_def CONFIG_ke_v0_def CONFIG_ke_g_def
        Let_def)
  have g: "list_all sn_reachedGround
        (fs_stones (FallingStones_step FallingStonesSimulation_new (3, 1)))"
    by (simp add: fallingstones_eval)
  have h: "ba_phase (foldl BallThrow_step BallThrowSimulation_new [(2, 1), (2, 1)]) = Complete"
    by (simp add: ballthrow_eval)
  have k: "fb_finished (FallingBall_update FallingBall_reset 4)"
    by (simp add: FallingBall_update_def FallingBall_reset_def CONFIG_freefall_totalTime_def
        Let_def)
  have n: "(0::real) \<le> 1" "(0::real) \<le> 0.1" by simp_all
  show ?thesis
    using C2_terminal_amended [where ds = "[(5, 1)]" and i = "(0.1, 1)"
        and sim = "foldl DualBall_step DualBallSimulation_new [(5, 1)]" and dt = "- 1" and k = 1
        and s = ?s and j = "(0.1, 2)"
        and ?s5.0 = StoneThrowSimulation_new and ?d0.0 = 30 and ?d5.0 = 1
        and ts = "[3, 2]" and ?d7.0 = "0.1"
        and p = "Projectile_update Projectile_reset 1" and e = "0.5"
        and ?s8.0 = "FallingStones_step FallingStonesSimulation_new (3, 1)" and ?d8.0 = "0.1"
        and ?k8.0 = 2
        and ?s9.0 = "foldl BallThrow_step BallThrowSimulation_new [(2, 1), (2, 1)]"
        and ?d9.0 = "0.1" and ?k9.0 = 1
        and b = "FallingBall_update FallingBall_reset 4" and t = 1]
      a b c d e f g h k n
    by blast
qed

section \<open>Frame deltas of the drivers\<close>

text \<open>
  C3, as stated, fails.  The free-fall page's callback computes
  \<open>(timestamp - lastTimestamp) / 1000\<close> without the cap: a frame 500 ms after the last one
  has the delta 0.5 and moves the simulated time by 0.5 s.
\<close>

theorem C3_counterexample:
  "freefall_frame_deltaTime 500 0 = 0.5
   \<and> freefall_frame_deltaTime 500 0 \<noteq> min ((500 - 0) / 1000) 0.1
   \<and> \<not> freefall_frame_deltaTime 500 0 \<le> 0.1
   \<and> fp_currentTime
        (freefall_animate
           \<lparr> fp_isPlaying = True, fp_speed = 1, fp_currentTime = 0, fp_ball = FallingBall_reset,
             fp_lastTimestamp = 0, fp_completedIntervals = {} \<rparr> 500) = 0.5"
  by (simp add: freefall_frame_deltaTime_def freefall_animate_def CONFIG_freefall_totalTime_def
      Let_def)

lemma dualball_animate_sim:
  "dp_isPlaying st \<Longrightarrow>
     dp_simulation (fst (dualball_animate st timestamp))
       = fst (DualBallSimulation_update (dp_simulation st)
                (dualball_frame_deltaTime timestamp (dp_lastTimestamp st)) (dp_speedMultiplier st))"
  by (simp add: dualball_animate_def Let_def split_beta)

lemma brick_animate_sim:
  "bp_isPlaying st \<Longrightarrow>
     bp_simulation (fst (brick_animate st timestamp))
       = fst (BrickThrowSimulation_update (bp_simulation st)
                (brick_frame_deltaTime timestamp (bp_lastTimestamp st)) (bp_speedMultiplier st))"
  by (simp add: brick_animate_def Let_def split_beta)

lemma freefall_animate_time:
  "fp_isPlaying st \<Longrightarrow>
     fp_currentTime (freefall_animate st timestamp)
       = min (fp_currentTime st + (timestamp - fp_lastTimestamp st) / 1000 * fp_speed st)
             CONFIG_freefall_totalTime"
  by (simp add: freefall_animate_def freefall_frame_deltaTime_def Let_def min_def)

lemma frame_delta_capped:
  "dualball_frame_deltaTime t l \<le> 0.1" "brick_frame_deltaTime t l \<le> 0.1"
  by (simp_all add: dualball_frame_deltaTime_def brick_frame_deltaTime_def)

text \<open>
  C3, amended.  In the callbacks of the dual-ball and brick-throw pages the delta passed
  to \<open>update\<close> is \<open>min ((timestamp - lastTimestamp) / 1000) 0.1\<close>, at most 0.1.  The
  free-fall page's callback uses \<open>(timestamp - lastTimestamp) / 1000\<close> as it is and caps the
  accumulated \<open>currentTime\<close> at \<open>totalTime\<close> instead.
\<close>

theorem C3_frame_delta_amended:
  "dualball_frame_deltaTime t1 l1 = min ((t1 - l1) / 1000) 0.1
   \<and> dualball_frame_deltaTime t1 l1 \<le> 0.1
   \<and> (dp_isPlaying st1 \<longrightarrow>
        dp_simulation (fst (dualball_animate st1 t1))
          = fst (DualBallSimulation_update (dp_simulation st1)
                   (dualball_frame_deltaTime t1 (dp_lastTimestamp st1)) (dp_speedMultiplier st1)))
   \<and> brick_frame_deltaTime t2 l2 = min ((t2 - l2) / 1000) 0.1
   \<and> brick_frame_deltaTime t2 l2 \<le> 0.1
   \<and> (bp_isPlaying st2 \<longrightarrow>
        bp_simulation (fst (brick_animate st2 t2))
          = fst (BrickThrowSimulation_update (bp_simulation st2)
                   (brick_frame_deltaTime t2 (bp_lastTimestamp st2)) (bp_speedMultiplier st2)))
   \<and> freefall_frame_deltaTime t3 l3 = (t3 - l3) / 1000
   \<and> (fp_isPlaying st3 \<longrightarrow>
        fp_currentTime (freefall_animate st3 t3)
          = min (fp_currentTime st3 + (t3 - fp_lastTimestamp st3) / 1000 * fp_speed st3)
                CONFIG_freefall_totalTime)"
  using dualball_animate_sim [of st1 t1] brick_animate_sim [of st2 t2]
    freefall_animate_time [of st3 t3] frame_delta_capped [of t1 l1] frame_delta_capped [of t2 l2]
    dualball_frame_deltaTime_def [of t1 l1] brick_frame_deltaTime_def [of t2 l2]
    freefall_frame_deltaTime_def [of t3 l3]
  by blast

theorem C3_frame_delta_amended_witness:
  "dp_isPlaying \<lparr> dp_isPlaying = True, dp_speedMultiplier = 1, dp_lastTimestamp = 0,
                  dp_simulation = DualBallSimulation_new \<rparr>
   \<and> dualball_frame_deltaTime 500 0 = 0.1
   \<and> dp_simulation (fst (dualball_animate
        \<lparr> dp_isPlaying = True, dp_speedMultiplier = 1, dp_lastTimestamp = 0,
          dp_simulation = DualBallSimulation_new \<rparr> 500))
      = fst (DualBallSimulation_update DualBallSimulation_new (dualball_frame_deltaTime 500 0) 1)
   \<and> bp_isPlaying \<lparr> bp_isPlaying = True, bp_speedMultiplier = 0.5, bp_lastTimestamp = 0,
                    bp_simulation = BrickThrowSimulation_new \<rparr>
   \<and> bp_simulation (fst (brick_animate
        \<lparr> bp_isPlaying = True, bp_speedMultiplier = 0.5, bp_lastTimestamp = 0,
          bp_simulation = BrickThrowSimulation_new \<rparr> 16))
      = fst (BrickThrowSimulation_update BrickThrowSimulation_new (brick_frame_deltaTime 16 0) 0.5)
   \<and> fp_isPlaying \<lparr> fp_isPlaying = True, fp_speed = 1, fp_currentTime = 0,
                    fp_ball = FallingBall_reset, fp_lastTimestamp = 0,
                    fp_completedIntervals = {} \<rparr>
   \<and> fp_currentTime (freefall_animate
        \<lparr> fp_isPlaying = True, fp_speed = 1, fp_currentTime = 0, fp_ball = FallingBall_reset,
          fp_lastTimestamp = 0, fp_completedIntervals = {} \<rparr> 500) = 0.5"
  using C3_frame_delta_amended [of 500 0
      "\<lparr> dp_isPlaying = True, dp_speedMultiplier = 1, dp_lastTimestamp = 0,
         dp_simulation = DualBallSimulation_new \<rparr>"
      16 0
      "\<lparr> bp_isPlaying = True, bp_speedMultiplier = 0.5, bp_lastTimestamp = 0,
         bp_simulation = BrickThrowSimulation_new \<rparr>"
      500 0
      "\<lparr> fp_isPlaying = True, fp_speed = 1, fp_currentTime = 0, fp_ball = FallingBall_reset,
         fp_lastTimestamp = 0, fp_completedIntervals = {} \<rparr>"]
  by (simp add: CONFIG_freefall_totalTime_def)


section \<open>Heights are never negative\<close>

lemma ball_update_clamps:
  assumes "db_time sim \<ge> b_dropTime b" "\<not> b_landed b"
    "b_initialHeight b
       - 0.5 * db_g sim * (db_time sim - b_dropTime b) * (db_time sim - b_dropTime b) \<le> 0"
  shows "b_height (ball_update sim b) = 0 \<and> b_landed (ball_update sim b)"
  using assms by (simp add: ball_update_def Let_def)

lemma BrickThrow_step_clamps:
  assumes "bt_phase s = descending"
    "bt_maxHeight s
       - 0.5 * bt_g s * (bt_time s + fst i * snd i) * (bt_time s + fst i * snd i) \<le> 0"
  shows "bt_height (BrickThrow_step s i) = 0 \<and> bt_phase (BrickThrow_step s i) = landed"
  using assms
  by (simp add: BrickThrow_step_stages brick_move_def brick_advance_phase brick_fall_def Let_def)

lemma dualball_heights:
  "list_all db_heights_ok (states_after DualBall_step DualBallSimulation_new ds)"
proof -
  have "list_all (\<lambda>i. True) ds" by (simp add: list_all_iff)
  then show ?thesis
    by (intro states_after_inv [where I = db_heights_ok and P = "\<lambda>i. True"])
      (simp_all add: DualBall_step_heights DualBall_new_heights)
qed

lemma brick_heights:
  assumes "list_all nonneg_event es"
  shows "list_all (\<lambda>w. 0 \<le> bt_height (bw_sim w)) (states_after brick_step brick_world_new es)"
proof -
  have "list_all (\<lambda>w. brick_inv (bw_sim w)) (states_after brick_step brick_world_new es)"
    using assms
    by (intro states_after_inv [where I = "\<lambda>w. brick_inv (bw_sim w)" and P = nonneg_event])
      (simp_all add: brick_step_inv brick_new_inv)
  then show ?thesis by (simp add: list_all_iff brick_inv_def)
qed

lemma stonethrow_heights:
  "list_all (\<lambda>s. 0 \<le> st_height s) (states_after StoneThrow_step StoneThrowSimulation_new ts)"
  by (rule states_after_all) (rule StoneThrow_step_height)

lemma airres_heights:
  "list_all (\<lambda>s. 0 \<le> ar_idealHeight s \<and> 0 \<le> ar_realHeight s)
     (states_after AirResistance_step AirResistanceSimulation_new ts)"
  by (rule states_after_all) (rule AirResistance_step_height)

lemma projectile_heights:
  assumes "list_all (\<lambda>dt. 0 \<le> dt) ps"
  shows "list_all (\<lambda>p. 0 \<le> pj_y p) (states_after Projectile_update Projectile_reset ps)"
proof -
  have "list_all projectile_inv (states_after Projectile_update Projectile_reset ps)"
    using assms
    by (intro states_after_inv [where I = projectile_inv and P = "\<lambda>dt. 0 \<le> dt"])
      (simp_all add: Projectile_update_inv Projectile_reset_inv)
  then show ?thesis by (simp add: list_all_iff projectile_inv_def)
qed

lemma fallingstones_heights:
  "list_all fs_heights_ok (states_after FallingStones_step FallingStonesSimulation_new fs)"
proof -
  have "list_all (\<lambda>i. True) fs" by (simp add: list_all_iff)
  then show ?thesis
    by (intro states_after_inv [where I = fs_heights_ok and P = "\<lambda>i. True"])
      (simp_all add: FallingStones_step_heights FallingStones_new_heights)
qed

lemma ballthrow_heights:
  assumes "list_all nonneg_delta bs"
  shows "list_all (\<lambda>s. 0 \<le> ba_height s) (states_after BallThrow_step BallThrowSimulation_new bs)"
proof -
  have "list_all ballthrow_inv (states_after BallThrow_step BallThrowSimulation_new bs)"
    using assms
    by (intro states_after_inv [where I = ballthrow_inv and P = nonneg_delta])
      (simp_all add: BallThrow_step_inv BallThrow_new_inv)
  then show ?thesis by (simp add: list_all_iff ballthrow_inv_def)
qed

lemma BrickThrow_step_rise:
  assumes "bt_phase s = ascending \<or> bt_phase s = continuing"
  shows "(bt_initialVelocity s - bt_g s * (bt_time s + fst i * snd i) \<le> 0 \<longrightarrow>
            bt_height (BrickThrow_step s i) = bt_maxHeight s
          \<and> bt_phase (BrickThrow_step s i) = at_max)
     \<and> (\<not> bt_initialVelocity s - bt_g s * (bt_time s + fst i * snd i) \<le> 0 \<longrightarrow>
            bt_height (BrickThrow_step s i)
              = bt_initialVelocity s * (bt_time s + fst i * snd i)
                - 0.5 * bt_g s * (bt_time s + fst i * snd i) * (bt_time s + fst i * snd i))"
proof -
  have a: "brick_advance s (fst i * snd i) = s\<lparr> bt_time := bt_time s + fst i * snd i \<rparr>"
    using assms by (auto simp add: brick_advance_def Let_def)
  show ?thesis
    using assms by (auto simp add: BrickThrow_step_stages a brick_move_def brick_rise_def Let_def)
qed

lemma BrickThrow_step_fall:
  assumes "bt_phase s = descending"
  shows "bt_height (BrickThrow_step s i)
           = max 0 (bt_maxHeight s
                    - 0.5 * bt_g s * (bt_time s + fst i * snd i) * (bt_time s + fst i * snd i))"
  using assms
  by (simp add: BrickThrow_step_stages brick_move_def brick_advance_phase brick_fall_def Let_def)

lemma ball_update_clamped:
  assumes "db_time sim \<ge> b_dropTime b" "\<not> b_landed b"
  shows "b_height (ball_update sim b)
           = max 0 (b_initialHeight b
                    - 0.5 * db_g sim * (db_time sim - b_dropTime b) * (db_time sim - b_dropTime b))"
  using assms by (simp add: ball_update_def Let_def)

text \<open>
  C4, as stated, fails in its second half: a stepper does not set the height to 0
  whenever the closed form would be below the ground.

  \<^item> Brick-throw.  With the brick ascending at time 0, \<open>update(10, 1)\<close> takes the time to 10,
    where \<open>u t - \<onehalf> g t\<^sup>2\<close> is negative; the call finds the velocity at or below 0, takes
    this for the top and sets the height to \<open>maxHeight = 11.8\<close>.
  \<^item> Ball-throw.  From the constructed state \<open>update(10, 1)\<close> passes \<open>totalAscentTime\<close>; the
    closed form at time 10 is \<open>-300\<close>, and the call sets the height to \<open>maxHeight = 20\<close>.
\<close>

theorem C4_counterexample:
  "bt_phase (bw_sim (foldl brick_step brick_world_new [Update 0.4 1])) = ascending
   \<and> bt_time (bw_sim (foldl brick_step brick_world_new [Update 0.4 1])) = 0
   \<and> bt_initialVelocity BrickThrowSimulation_new * 10
        - 0.5 * bt_g BrickThrowSimulation_new * 10 * 10 < 0
   \<and> bt_time (bw_sim (foldl brick_step brick_world_new [Update 0.4 1, Update 10 1])) = 10
   \<and> bt_height (bw_sim (foldl brick_step brick_world_new [Update 0.4 1, Update 10 1])) = 11.8
   \<and> bt_height (bw_sim (foldl brick_step brick_world_new [Update 0.4 1, Update 10 1])) \<noteq> 0
   \<and> ba_u BallThrowSimulation_new * 10 - 0.5 * ba_g BallThrowSimulation_new * 10 * 10 = - 300
   \<and> ba_height (BallThrow_step BallThrowSimulation_new (10, 1)) = 20
   \<and> ba_height (BallThrow_step BallThrowSimulation_new (10, 1)) \<noteq> 0"
proof -
  have brick:
    "bt_phase (bw_sim (foldl brick_step brick_world_new [Update 0.4 1])) = ascending
     \<and> bt_time (bw_sim (foldl brick_step brick_world_new [Update 0.4 1])) = 0
     \<and> bt_initialVelocity BrickThrowSimulation_new * 10
          - 0.5 * bt_g BrickThrowSimulation_new * 10 * 10 < 0
     \<and> bt_time (bw_sim (foldl brick_step brick_world_new [Update 0.4 1, Update 10 1])) = 10
     \<and> bt_height (bw_sim (foldl brick_step brick_world_new [Update 0.4 1, Update 10 1])) = 11.8
     \<and> bt_height (bw_sim (foldl brick_step brick_world_new [Update 0.4 1, Update 10 1])) \<noteq> 0"
    unfolding brick_overshoot_run launch_run using sqrt_236_bounds
    by (simp add: brick_new_constants)
  have ball:
    "ba_u BallThrowSimulation_new * 10 - 0.5 * ba_g BallThrowSimulation_new * 10 * 10 = - 300
     \<and> ba_height (BallThrow_step BallThrowSimulation_new (10, 1)) = 20
     \<and> ba_height (BallThrow_step BallThrowSimulation_new (10, 1)) \<noteq> 0"
    by (simp add: ballthrow_eval)
  from brick ball show ?thesis by (intro conjI) (erule conjE | assumption)+
qed

text \<open>
  C4, amended.  The height observed after each \<open>update\<close> call is never negative, for
  every stepper with an \<open>update\<close> that takes a time delta: dual-ball, brick-throw (with its
  timeouts firing anywhere in the run), stone-throw, air-resistance, the kinetic-energy
  projectile, falling-stones and ball-throw.  The brick-throw, projectile and ball-throw
  steppers need the deltas of the run to be non-negative; the others hold it for any
  arguments.

  The height is set to exactly 0 where a fall would end at or below the ground: the
  falling ball of dual-ball, the descending brick, the falling stone and the descending
  ball of ball-throw are left at the closed form of the fall, not below 0; so are the
  stone of stone-throw before its total time (at 0 from then on), the two heights of
  air-resistance, and the projectile in a run with non-negative deltas.

  A rise is not: the call that finds the rising brick with a velocity at or below 0 sets
  its height to \<open>maxHeight\<close> and the phase to \<open>at_max\<close>, and the call that takes the ascending
  ball of ball-throw to \<open>totalAscentTime\<close> or beyond sets its height to \<open>maxHeight\<close> and the
  phase to \<open>Descending\<close>, whatever the closed form of the rise is at that time; before
  that, both are left at the closed form of the rise.
\<close>

theorem C4_height_never_negative:
  "list_all (\<lambda>sim. list_all (\<lambda>b. 0 \<le> b_height b) (db_balls sim))
     (states_after DualBall_step DualBallSimulation_new ds)
   \<and> (list_all nonneg_event es \<longrightarrow>
        list_all (\<lambda>w. 0 \<le> bt_height (bw_sim w)) (states_after brick_step brick_world_new es))
   \<and> list_all (\<lambda>s. 0 \<le> st_height s) (states_after StoneThrow_step StoneThrowSimulation_new ts)
   \<and> list_all (\<lambda>s. 0 \<le> ar_idealHeight s \<and> 0 \<le> ar_realHeight s)
        (states_after AirResistance_step AirResistanceSimulation_new as)
   \<and> (list_all (\<lambda>dt. 0 \<le> dt) ps \<longrightarrow>
        list_all (\<lambda>p. 0 \<le> pj_y p) (states_after Projectile_update Projectile_reset ps))
   \<and> list_all (\<lambda>s. list_all (\<lambda>st. 0 \<le> sn_height st) (fs_stones s))
        (states_after FallingStones_step FallingStonesSimulation_new fs)
   \<and> (list_all nonneg_delta bs \<longrightarrow>
        list_all (\<lambda>s. 0 \<le> ba_height s) (states_after BallThrow_step BallThrowSimulation_new bs))
   \<and> (db_time sim \<ge> b_dropTime b \<and> \<not> b_landed b
        \<and> b_initialHeight b
            - 0.5 * db_g sim * (db_time sim - b_dropTime b) * (db_time sim - b_dropTime b) \<le> 0
      \<longrightarrow> b_height (ball_update sim b) = 0 \<and> b_landed (ball_update sim b))
   \<and> (bt_phase s = descending
        \<and> bt_maxHeight s
            - 0.5 * bt_g s * (bt_time s + fst i * snd i) * (bt_time s + fst i * snd i) \<le> 0
      \<longrightarrow> bt_height (BrickThrow_step s i) = 0 \<and> bt_phase (BrickThrow_step s i) = landed)
   \<and> (db_time sim1 \<ge> b_dropTime c1 \<and> \<not> b_landed c1 \<longrightarrow>
        b_height (ball_update sim1 c1)
          = max 0 (b_initialHeight c1
                   - 0.5 * db_g sim1 * (db_time sim1 - b_dropTime c1)
                     * (db_time sim1 - b_dropTime c1)))
   \<and> (bt_phase r1 = descending \<longrightarrow>
        bt_height (BrickThrow_step r1 j1)
          = max 0 (bt_maxHeight r1
                   - 0.5 * bt_g r1 * (bt_time r1 + fst j1 * snd j1)
                     * (bt_time r1 + fst j1 * snd j1)))
   \<and> ((bt_phase r2 = ascending \<or> bt_phase r2 = continuing)
        \<and> bt_initialVelocity r2 - bt_g r2 * (bt_time r2 + fst j2 * snd j2) \<le> 0 \<longrightarrow>
        bt_height (BrickThrow_step r2 j2) = bt_maxHeight r2
      \<and> bt_phase (BrickThrow_step r2 j2) = at_max)
   \<and> ((bt_phase r3 = ascending \<or> bt_phase r3 = continuing)
        \<and> \<not> bt_initialVelocity r3 - bt_g r3 * (bt_time r3 + fst j3 * snd j3) \<le> 0 \<longrightarrow>
        bt_height (BrickThrow_step r3 j3)
          = bt_initialVelocity r3 * (bt_time r3 + fst j3 * snd j3)
            - 0.5 * bt_g r3 * (bt_time r3 + fst j3 * snd j3) * (bt_time r3 + fst j3 * snd j3))
   \<and> (st_totalTime s5 \<le> st_time s5 + d5 \<longrightarrow> st_height (StoneThrow_step s5 d5) = 0)
   \<and> (\<not> st_totalTime s6 \<le> st_time s6 + d6 \<longrightarrow>
        st_height (StoneThrow_step s6 d6) = max 0 (stonethrow_height_at s6 (st_time s6 + d6)))
   \<and> ar_idealHeight (AirResistance_step s7 d7) = max 0 (airres_ideal_at s7 (ar_time s7 + d7))
   \<and> ar_realHeight (AirResistance_step s7 d7) = max 0 (airres_real_at s7 (ar_time s7 + d7))
   \<and> (\<not> pj_finished p1 \<and> 0 \<le> pj_time p1 \<and> 0 \<le> e1 \<longrightarrow>
        pj_y (Projectile_update p1 e1) = max 0 (projectile_height_at (pj_time p1 + e1)))
   \<and> (pj_finished p2 \<longrightarrow> pj_y (Projectile_update p2 e2) = pj_y p2)
   \<and> fs_stones (FallingStones_step s8 i8)
       = map (stone_update (fs_g s8) (fst i8 * snd i8)) (fs_stones s8)
   \<and> (\<not> sn_reachedGround n1 \<longrightarrow>
        sn_height (stone_update g1 c n1)
          = max 0 (sn_initialHeight n1 - 0.5 * g1 * (sn_time n1 + c) * (sn_time n1 + c)))
   \<and> (sn_reachedGround n2 \<longrightarrow> stone_update g2 c2 n2 = n2)
   \<and> (ba_phase s9 = Descending \<longrightarrow>
        ba_height (BallThrow_step s9 i9)
          = max 0 (ba_maxHeight s9
                   - 0.5 * ba_g s9 * (ba_time s9 + fst i9 * snd i9)
                     * (ba_time s9 + fst i9 * snd i9)))
   \<and> (ba_phase s10 = Ascending \<and> ba_time s10 + fst i10 * snd i10 < ba_totalAscentTime s10 \<longrightarrow>
        ba_height (BallThrow_step s10 i10)
          = ba_u s10 * (ba_time s10 + fst i10 * snd i10)
            - 0.5 * ba_g s10 * (ba_time s10 + fst i10 * snd i10)
              * (ba_time s10 + fst i10 * snd i10))
   \<and> (ba_phase s11 = Ascending \<and> ba_totalAscentTime s11 \<le> ba_time s11 + fst i11 * snd i11
        \<longrightarrow>
        ba_height (BallThrow_step s11 i11) = ba_maxHeight s11
      \<and> ba_phase (BallThrow_step s11 i11) = Descending)"
  using dualball_heights [of ds, unfolded db_heights_ok_def] brick_heights [of es]
    stonethrow_heights [of ts] airres_heights [of as] projectile_heights [of ps]
    fallingstones_heights [of fs, unfolded fs_heights_ok_def]
    ballthrow_heights [of bs] ball_update_clamps [of b sim] BrickThrow_step_clamps [of s i]
    ball_update_clamped [of c1 sim1] BrickThrow_step_fall [of r1 j1]
    BrickThrow_step_rise [of r2 j2] BrickThrow_step_rise [of r3 j3]
    StoneThrow_step_clamped [of s5 d5] StoneThrow_step_clamped [of s6 d6]
    AirResistance_step_closed [of s7 d7] Projectile_update_clamped [of p1 e1]
    Projectile_update_finished [of p2 e2] FallingStones_step_stones [of s8 i8]
    stone_update_falling [of n1 g1 c] stone_update_grounded [of n2 g2 c2]
    BallThrow_step_descending [of s9 i9] BallThrow_step_ascending [of s10 i10]
    BallThrow_step_ascending [of s11 i11]
  by (intro conjI) (simp_all (no_asm_simp))

theorem C4_height_never_negative_witness:
  "list_all nonneg_event
     [Update 0.4 1, Update 2 1, Update 0.1 1, Fire Timeout_at_max, Update 2 1]
   \<and> list_all (\<lambda>w. 0 \<le> bt_height (bw_sim w))
        (states_after brick_step brick_world_new
           [Update 0.4 1, Update 2 1, Update 0.1 1, Fire Timeout_at_max, Update 2 1])
   \<and> list_all (\<lambda>dt. 0 \<le> dt) [0.1, 1 :: real]
   \<and> list_all (\<lambda>p. 0 \<le> pj_y p) (states_after Projectile_update Projectile_reset [0.1, 1])
   \<and> list_all nonneg_delta [(0.1, 0.5), (0.1, 2)]
   \<and> list_all (\<lambda>s. 0 \<le> ba_height s)
        (states_after BallThrow_step BallThrowSimulation_new [(0.1, 0.5), (0.1, 2)])
   \<and> db_time (DualBallSimulation_new\<lparr> db_time := 5 \<rparr>)
        \<ge> b_dropTime (hd (db_balls DualBallSimulation_new))
   \<and> \<not> b_landed (hd (db_balls DualBallSimulation_new))
   \<and> b_height (ball_update (DualBallSimulation_new\<lparr> db_time := 5 \<rparr>)
        (hd (db_balls DualBallSimulation_new))) = 0
   \<and> bt_phase (bw_sim (foldl brick_step brick_world_new
        [Update 0.4 1, Update 2 1, Update 0.1 1, Fire Timeout_at_max])) = descending
   \<and> bt_height (BrickThrow_step (bw_sim (foldl brick_step brick_world_new
        [Update 0.4 1, Update 2 1, Update 0.1 1, Fire Timeout_at_max])) (2, 1)) = 0
   \<and> db_time (DualBallSimulation_new\<lparr> db_time := 1 \<rparr>)
        \<ge> b_dropTime (hd (db_balls DualBallSimulation_new))
   \<and> b_height (ball_update (DualBallSimulation_new\<lparr> db_time := 1 \<rparr>)
        (hd (db_balls DualBallSimulation_new))) = 117.6
   \<and> bt_height (BrickThrow_step (bw_sim (foldl brick_step brick_world_new
        [Update 0.4 1, Update 2 1, Update 0.1 1, Fire Timeout_at_max])) (1, 1)) = 6.8
   \<and> (bt_phase (bw_sim (foldl brick_step brick_world_new [Update 0.4 1])) = ascending
        \<or> bt_phase (bw_sim (foldl brick_step brick_world_new [Update 0.4 1])) = continuing)
   \<and> bt_initialVelocity (bw_sim (foldl brick_step brick_world_new [Update 0.4 1]))
        - bt_g (bw_sim (foldl brick_step brick_world_new [Update 0.4 1]))
          * (bt_time (bw_sim (foldl brick_step brick_world_new [Update 0.4 1]))
             + fst (10::real, 1::real) * snd (10::real, 1::real)) \<le> 0
   \<and> bt_height (BrickThrow_step (bw_sim (foldl brick_step brick_world_new [Update 0.4 1]))
        (10, 1)) = 11.8
   \<and> \<not> bt_initialVelocity (bw_sim (foldl brick_step brick_world_new [Update 0.4 1]))
        - bt_g (bw_sim (foldl brick_step brick_world_new [Update 0.4 1]))
          * (bt_time (bw_sim (foldl brick_step brick_world_new [Update 0.4 1]))
             + fst (0.5::real, 1::real) * snd (0.5::real, 1::real)) \<le> 0
   \<and> bt_height (BrickThrow_step (bw_sim (foldl brick_step brick_world_new [Update 0.4 1]))
        (0.5, 1)) = sqrt 236 * 0.5 - 1.25
   \<and> st_totalTime StoneThrowSimulation_new \<le> st_time StoneThrowSimulation_new + 30
   \<and> st_height (StoneThrow_step StoneThrowSimulation_new 30) = 0
   \<and> \<not> st_totalTime StoneThrowSimulation_new \<le> st_time StoneThrowSimulation_new + 1
   \<and> st_height (StoneThrow_step StoneThrowSimulation_new 1) = 93.1
   \<and> ar_idealHeight (AirResistance_step AirResistanceSimulation_new 5) = 0
   \<and> ar_realHeight (AirResistance_step AirResistanceSimulation_new 5) = 0
   \<and> \<not> pj_finished Projectile_reset \<and> 0 \<le> pj_time Projectile_reset \<and> (0::real) \<le> 1
   \<and> projectile_height_at (pj_time Projectile_reset + 1) = - 1
   \<and> pj_y (Projectile_update Projectile_reset 1) = 0
   \<and> pj_finished (Projectile_update Projectile_reset 1)
   \<and> pj_y (Projectile_update (Projectile_update Projectile_reset 1) 0.5)
       = pj_y (Projectile_update Projectile_reset 1)
   \<and> \<not> sn_reachedGround (stone_new 10 1 20)
   \<and> sn_height (stone_update 10 3 (stone_new 10 1 20)) = 0
   \<and> sn_reachedGround (stone_update 10 3 (stone_new 10 1 20))
   \<and> stone_update 10 1 (stone_update 10 3 (stone_new 10 1 20))
       = stone_update 10 3 (stone_new 10 1 20)
   \<and> ba_phase (BallThrow_step BallThrowSimulation_new (2, 1)) = Descending
   \<and> ba_height (BallThrow_step (BallThrow_step BallThrowSimulation_new (2, 1)) (3, 1)) = 0
   \<and> ba_phase BallThrowSimulation_new = Ascending
   \<and> ba_time BallThrowSimulation_new + fst (1::real, 1::real) * snd (1::real, 1::real)
        < ba_totalAscentTime BallThrowSimulation_new
   \<and> ba_height (BallThrow_step BallThrowSimulation_new (1, 1)) = 15
   \<and> ba_totalAscentTime BallThrowSimulation_new
        \<le> ba_time BallThrowSimulation_new + fst (10::real, 1::real) * snd (10::real, 1::real)
   \<and> ba_height (BallThrow_step BallThrowSimulation_new (10, 1))
       = ba_maxHeight BallThrowSimulation_new"
proof -
  let ?es = "[Update 0.4 1, Update 2 1, Update 0.1 1, Fire Timeout_at_max, Update 2 1]"
  let ?apex = "bw_sim (foldl brick_step brick_world_new
        [Update 0.4 1, Update 2 1, Update 0.1 1, Fire Timeout_at_max])"
  let ?launch = "bw_sim (foldl brick_step brick_world_new [Update 0.4 1])"
  let ?sim = "DualBallSimulation_new\<lparr> db_time := 5 \<rparr>"
  let ?sim1 = "DualBallSimulation_new\<lparr> db_time := 1 \<rparr>"
  let ?b = "hd (db_balls DualBallSimulation_new)"
  let ?n = "stone_new 10 1 20"
  have h1: "list_all nonneg_event ?es" by (simp add: nonneg_delta_def)
  have h2: "list_all (\<lambda>dt. 0 \<le> dt) [0.1, 1 :: real]" by simp
  have h3: "list_all nonneg_delta [(0.1, 0.5), (0.1, 2)]" by (simp add: nonneg_delta_def)
  have h4: "db_time ?sim \<ge> b_dropTime ?b \<and> \<not> b_landed ?b
     \<and> b_initialHeight ?b
         - 0.5 * db_g ?sim * (db_time ?sim - b_dropTime ?b) * (db_time ?sim - b_dropTime ?b) \<le> 0"
    by (simp add: DualBallSimulation_new_def CONFIG_dualball_g_def Let_def)
  have h5: "bt_phase ?apex = descending
     \<and> bt_maxHeight ?apex
         - 0.5 * bt_g ?apex * (bt_time ?apex + fst (2::real, 1::real) * snd (2::real, 1::real))
           * (bt_time ?apex + fst (2::real, 1::real) * snd (2::real, 1::real)) \<le> 0"
    by (simp only: apex_run) (simp add: brick_new_constants)
  have h6: "db_time ?sim1 \<ge> b_dropTime ?b"
    "max 0 (b_initialHeight ?b
         - 0.5 * db_g ?sim1 * (db_time ?sim1 - b_dropTime ?b) * (db_time ?sim1 - b_dropTime ?b))
       = 117.6"
    by (simp_all add: DualBallSimulation_new_def CONFIG_dualball_g_def Let_def)
  have h7: "max 0 (bt_maxHeight ?apex
         - 0.5 * bt_g ?apex * (bt_time ?apex + fst (1::real, 1::real) * snd (1::real, 1::real))
           * (bt_time ?apex + fst (1::real, 1::real) * snd (1::real, 1::real))) = 6.8"
    by (simp only: apex_run) (simp add: brick_new_constants)
  have h8: "bt_phase ?launch = ascending \<or> bt_phase ?launch = continuing"
    "bt_initialVelocity ?launch
        - bt_g ?launch * (bt_time ?launch + fst (10::real, 1::real) * snd (10::real, 1::real)) \<le> 0"
    "\<not> bt_initialVelocity ?launch
        - bt_g ?launch * (bt_time ?launch + fst (0.5::real, 1::real) * snd (0.5::real, 1::real))
        \<le> 0"
    "bt_maxHeight ?launch = 11.8"
    "bt_initialVelocity ?launch * (bt_time ?launch + fst (0.5::real, 1::real) * snd (0.5::real, 1::real))
       - 0.5 * bt_g ?launch * (bt_time ?launch + fst (0.5::real, 1::real) * snd (0.5::real, 1::real))
         * (bt_time ?launch + fst (0.5::real, 1::real) * snd (0.5::real, 1::real))
       = sqrt 236 * 0.5 - 1.25"
    using sqrt_236_bounds by (simp_all only: launch_run) (simp_all add: brick_new_constants)
  have h9: "st_totalTime StoneThrowSimulation_new \<le> st_time StoneThrowSimulation_new + 30"
    "\<not> st_totalTime StoneThrowSimulation_new \<le> st_time StoneThrowSimulation_new + 1"
    using sqrt_stone_bounds unfolding stonethrow_new_times by linarith+
  have h9': "max 0 (stonethrow_height_at StoneThrowSimulation_new
                      (st_time StoneThrowSimulation_new + 1)) = 93.1"
    by (simp add: stonethrow_height_at_def StoneThrowSimulation_new_def Let_def)
  have h10: "max 0 (airres_ideal_at AirResistanceSimulation_new
                      (ar_time AirResistanceSimulation_new + 5)) = 0"
    "max 0 (airres_real_at AirResistanceSimulation_new
              (ar_time AirResistanceSimulation_new + 5)) = 0"
    by (simp_all add: airres_ideal_at_def airres_real_at_def AirResistanceSimulation_new_def
        Let_def)
  have h11: "\<not> pj_finished Projectile_reset" "0 \<le> pj_time Projectile_reset" "(0::real) \<le> 1"
    "projectile_height_at (pj_time Projectile_reset + 1) = - 1"
    "pj_finished (Projectile_update Projectile_reset 1)"
    "max 0 (projectile_height_at (pj_time Projectile_reset + 1)) = 0"
    by (simp_all add: Projectile_update_def Projectile_reset_def projectile_height_at_def
        CONFIG_ke_v0_def CONFIG_ke_g_def Let_def)
  have h12: "\<not> sn_reachedGround ?n" "sn_reachedGround (stone_update 10 3 ?n)"
    "max 0 (sn_initialHeight ?n - 0.5 * 10 * (sn_time ?n + 3) * (sn_time ?n + 3)) = 0"
    by (simp_all add: stone_new_def stone_update_def Let_def)
  have h13: "ba_phase (BallThrow_step BallThrowSimulation_new (2, 1)) = Descending"
    "max 0 (ba_maxHeight (BallThrow_step BallThrowSimulation_new (2, 1))
         - 0.5 * ba_g (BallThrow_step BallThrowSimulation_new (2, 1))
           * (ba_time (BallThrow_step BallThrowSimulation_new (2, 1))
              + fst (3::real, 1::real) * snd (3::real, 1::real))
           * (ba_time (BallThrow_step BallThrowSimulation_new (2, 1))
              + fst (3::real, 1::real) * snd (3::real, 1::real))) = 0"
    "ba_phase BallThrowSimulation_new = Ascending"
    "ba_time BallThrowSimulation_new + fst (1::real, 1::real) * snd (1::real, 1::real)
        < ba_totalAscentTime BallThrowSimulation_new"
    "ba_u BallThrowSimulation_new
         * (ba_time BallThrowSimulation_new + fst (1::real, 1::real) * snd (1::real, 1::real))
       - 0.5 * ba_g BallThrowSimulation_new
         * (ba_time BallThrowSimulation_new + fst (1::real, 1::real) * snd (1::real, 1::real))
         * (ba_time BallThrowSimulation_new + fst (1::real, 1::real) * snd (1::real, 1::real))
       = 15"
    "ba_totalAscentTime BallThrowSimulation_new
        \<le> ba_time BallThrowSimulation_new + fst (10::real, 1::real) * snd (10::real, 1::real)"
    by (simp_all add: ballthrow_eval)
  note inst = C4_height_never_negative [where ds = "[(1, 1)]" and es = ?es and ts = "[1]"
        and as = "[1]" and ps = "[0.1, 1]" and fs = "[(1, 1)]"
        and bs = "[(0.1, 0.5), (0.1, 2)]" and sim = ?sim and b = ?b and s = ?apex and i = "(2, 1)"
        and ?sim1.0 = ?sim1 and ?c1.0 = ?b and ?r1.0 = ?apex and ?j1.0 = "(1, 1)"
        and ?r2.0 = ?launch and ?j2.0 = "(10, 1)" and ?r3.0 = ?launch and ?j3.0 = "(0.5, 1)"
        and ?s5.0 = StoneThrowSimulation_new and ?d5.0 = 30
        and ?s6.0 = StoneThrowSimulation_new and ?d6.0 = 1
        and ?s7.0 = AirResistanceSimulation_new and ?d7.0 = 5
        and ?p1.0 = Projectile_reset and ?e1.0 = 1
        and ?p2.0 = "Projectile_update Projectile_reset 1" and ?e2.0 = "0.5"
        and ?s8.0 = FallingStonesSimulation_new and ?i8.0 = "(1, 1)"
        and ?n1.0 = ?n and ?g1.0 = 10 and c = 3
        and ?n2.0 = "stone_update 10 3 ?n" and ?g2.0 = 10 and ?c2.0 = 1
        and ?s9.0 = "BallThrow_step BallThrowSimulation_new (2, 1)" and ?i9.0 = "(3, 1)"
        and ?s10.0 = BallThrowSimulation_new and ?i10.0 = "(1, 1)"
        and ?s11.0 = BallThrowSimulation_new and ?i11.0 = "(10, 1)"]
  note inst' = inst [unfolded h6(2) h7 h8(4,5) h9' h10 h11(6) h12(3) h13(2,5)]
  show ?thesis
    using inst' h1 h2 h3 h4 h5 h6(1) h8(1-3) h9 h11(1-5) h12(1,2) h13(1,3,4,6)
    by blast
qed

section \<open>Elapsed time along a run\<close>


lemma DualBall_step_time:
  assumes "db_inv sim" "nonneg_delta i"
  shows "db_time sim \<le> db_time (DualBall_step sim i)"
  using assms
  by (simp add: DualBall_step_def DualBallSimulation_update_def Let_def db_inv_def nonneg_delta_def)

lemma dualball_time_sorted:
  assumes "list_all nonneg_delta ds"
  shows "sorted (map db_time
           (DualBallSimulation_new # states_after DualBall_step DualBallSimulation_new ds))"
  using assms
  by (intro states_after_sorted [where I = db_inv and P = nonneg_delta])
    (simp_all add: DualBall_step_inv DualBall_step_time DualBall_new_inv)

lemma BrickThrow_step_time:
  assumes "bt_phase s \<noteq> throwing"
  shows "bt_time (BrickThrow_step s i) = bt_time s + fst i * snd i"
  using assms by (simp add: BrickThrow_step_stages brick_move_def brick_advance_phase)

lemma BrickThrow_step_windup:
  assumes "bt_phase s = throwing" "\<not> bt_time s + fst i * snd i > 0.3"
  shows "bt_time (BrickThrow_step s i) = bt_time s + fst i * snd i
     \<and> bt_phase (BrickThrow_step s i) = throwing"
  using assms by (simp add: BrickThrow_step_stages brick_move_def brick_advance_def Let_def)

lemma BrickThrow_step_launch:
  assumes "bt_phase s = throwing" "bt_time s + fst i * snd i > 0.3"
  shows "bt_time (BrickThrow_step s i) = 0 \<and> bt_phase (BrickThrow_step s i) \<noteq> throwing"
proof -
  have a: "brick_advance s (fst i * snd i)
             = s\<lparr> bt_time := 0, bt_phase := ascending \<rparr>"
    using assms by (simp add: brick_advance_def Let_def)
  have "bt_phase (brick_rise (s\<lparr> bt_time := 0, bt_phase := ascending \<rparr>)) \<noteq> throwing"
    using brick_rise_phase [of "s\<lparr> bt_time := 0, bt_phase := ascending \<rparr>"] by auto
  then show ?thesis by (simp add: BrickThrow_step_stages a brick_move_def)
qed

lemma freefall_animate_monotone:
  assumes "fp_isPlaying st" "fp_currentTime st \<le> CONFIG_freefall_totalTime"
    "0 \<le> (timestamp - fp_lastTimestamp st) / 1000 * fp_speed st"
  shows "fp_currentTime st \<le> fp_currentTime (freefall_animate st timestamp)"
  using assms by (simp add: freefall_animate_time)

text \<open>
  C5, as stated, fails.

  \<^item> Brick-throw.  From the constructed state, \<open>update(0.1, 2)\<close> gives the elapsed time
    0.2, and a second \<open>update(0.1, 2)\<close> passes 0.3, starts the ascent and sets the elapsed
    time back to 0.
  \<^item> Ball-throw.  From the constructed state, \<open>update(1, 1)\<close> gives the time 1, and a
    second \<open>update(1, 1)\<close> reaches \<open>totalAscentTime = 2\<close>, starts the descent and sets the
    time back to 0.
\<close>

theorem C5_counterexample:
  "bt_time (bw_sim (foldl brick_step brick_world_new [Update 0.1 2])) = 0.2
   \<and> bt_time (bw_sim (foldl brick_step brick_world_new [Update 0.1 2, Update 0.1 2])) = 0
   \<and> \<not> bt_time (bw_sim (foldl brick_step brick_world_new [Update 0.1 2]))
        \<le> bt_time (bw_sim (foldl brick_step brick_world_new [Update 0.1 2, Update 0.1 2]))
   \<and> ba_time (foldl BallThrow_step BallThrowSimulation_new [(1, 1)]) = 1
   \<and> ba_time (foldl BallThrow_step BallThrowSimulation_new [(1, 1), (1, 1)]) = 0
   \<and> \<not> ba_time (foldl BallThrow_step BallThrowSimulation_new [(1, 1)])
        \<le> ba_time (foldl BallThrow_step BallThrowSimulation_new [(1, 1), (1, 1)])"
proof -
  have brick:
    "bt_time (bw_sim (foldl brick_step brick_world_new [Update 0.1 2])) = 0.2
     \<and> bt_time (bw_sim (foldl brick_step brick_world_new [Update 0.1 2, Update 0.1 2])) = 0
     \<and> \<not> bt_time (bw_sim (foldl brick_step brick_world_new [Update 0.1 2]))
          \<le> bt_time (bw_sim (foldl brick_step brick_world_new [Update 0.1 2, Update 0.1 2]))"
    by (simp add: brick_eval)
  have ball:
    "ba_time (foldl BallThrow_step BallThrowSimulation_new [(1, 1)]) = 1
     \<and> ba_time (foldl BallThrow_step BallThrowSimulation_new [(1, 1), (1, 1)]) = 0
     \<and> \<not> ba_time (foldl BallThrow_step BallThrowSimulation_new [(1, 1)])
          \<le> ba_time (foldl BallThrow_step BallThrowSimulation_new [(1, 1), (1, 1)])"
    by (simp add: ballthrow_eval)
  from brick ball show ?thesis by (intro conjI) (erule conjE | assumption)+
qed

text \<open>
  C5, amended.

  \<^item> Dual-ball: along every run with non-negative scaled deltas from the constructed
    state the elapsed time never decreases.
  \<^item> Brick-throw: the elapsed time is relative to the phase.  A call with non-negative
    scaled delta adds the delta to it, except the call that takes the phase \<open>throwing\<close>
    past 0.3 s, which starts the ascent at time 0; the \<open>at_max\<close> timeout starts the descent
    at time 0 as well.
  \<^item> Stone-throw: a call leaves the time at \<open>min (time + deltaTime) totalTime\<close>; along
    every run with non-negative deltas from the constructed state the time never
    decreases.
  \<^item> Air-resistance: a call adds its delta to the time; with a non-negative delta the
    time does not decrease.
  \<^item> Projectile: a call adds its delta to the time, or leaves it once finished; with a
    non-negative delta the time does not decrease.
  \<^item> Falling stones: a call adds the scaled delta to the time of the page and to the time
    of every stone in the air, and leaves the time of a stone on the ground; with a
    non-negative scaled delta the time of the page does not decrease.
  \<^item> Ball-throw: the time is relative to the phase.  Ascending, a call that stays below
    \<open>totalAscentTime\<close> adds the scaled delta, and the call that reaches it starts the descent
    at time 0; descending, a call adds the scaled delta; complete, a call changes nothing.
  \<^item> Free-fall page: a frame of the playing page whose scaled delta is non-negative does
    not decrease \<open>currentTime\<close>, as long as it is at most \<open>totalTime\<close>.
\<close>

theorem C5_time_monotone_amended:
  "(list_all nonneg_delta ds \<longrightarrow>
      sorted (map db_time
        (DualBallSimulation_new # states_after DualBall_step DualBallSimulation_new ds)))
   \<and> (bt_phase s1 \<noteq> throwing \<and> nonneg_delta i1 \<longrightarrow>
        bt_time (BrickThrow_step s1 i1) = bt_time s1 + fst i1 * snd i1
      \<and> bt_time s1 \<le> bt_time (BrickThrow_step s1 i1))
   \<and> (bt_phase s2 = throwing \<and> nonneg_delta i2 \<and> \<not> bt_time s2 + fst i2 * snd i2 > 0.3 \<longrightarrow>
        bt_time (BrickThrow_step s2 i2) = bt_time s2 + fst i2 * snd i2
      \<and> bt_time s2 \<le> bt_time (BrickThrow_step s2 i2)
      \<and> bt_phase (BrickThrow_step s2 i2) = throwing)
   \<and> (bt_phase s3 = throwing \<and> bt_time s3 + fst i3 * snd i3 > 0.3 \<longrightarrow>
        bt_time (BrickThrow_step s3 i3) = 0 \<and> bt_phase (BrickThrow_step s3 i3) \<noteq> throwing)
   \<and> (bt_phase s4 = at_max \<longrightarrow>
        bt_time (timeout_callback Timeout_at_max s4) = 0
      \<and> bt_phase (timeout_callback Timeout_at_max s4) = descending)
   \<and> st_time (StoneThrow_step s5 d5) = min (st_time s5 + d5) (st_totalTime s5)
   \<and> (list_all (\<lambda>dt. 0 \<le> dt) ts \<longrightarrow>
        sorted (map st_time
          (StoneThrowSimulation_new
             # states_after StoneThrow_step StoneThrowSimulation_new ts)))
   \<and> ar_time (AirResistance_step s6 d6) = ar_time s6 + d6
   \<and> (0 \<le> d7 \<longrightarrow> ar_time s7 \<le> ar_time (AirResistance_step s7 d7))
   \<and> pj_time (Projectile_update p1 e1) = (if pj_finished p1 then pj_time p1 else pj_time p1 + e1)
   \<and> (0 \<le> e2 \<longrightarrow> pj_time p2 \<le> pj_time (Projectile_update p2 e2))
   \<and> fs_time (FallingStones_step s8 i8) = fs_time s8 + fst i8 * snd i8
   \<and> (nonneg_delta i9 \<longrightarrow> fs_time s9 \<le> fs_time (FallingStones_step s9 i9))
   \<and> sn_time (stone_update g c n1)
       = (if sn_reachedGround n1 then sn_time n1 else sn_time n1 + c)
   \<and> (ba_phase s10 = Ascending \<and> ba_time s10 + fst i10 * snd i10 < ba_totalAscentTime s10 \<longrightarrow>
        ba_phase (BallThrow_step s10 i10) = Ascending
      \<and> ba_time (BallThrow_step s10 i10) = ba_time s10 + fst i10 * snd i10)
   \<and> (ba_phase s11 = Ascending \<and> ba_totalAscentTime s11 \<le> ba_time s11 + fst i11 * snd i11
        \<longrightarrow>
        ba_phase (BallThrow_step s11 i11) = Descending
      \<and> ba_time (BallThrow_step s11 i11) = 0)
   \<and> (ba_phase s12 = Descending \<longrightarrow>
        ba_time (BallThrow_step s12 i12) = ba_time s12 + fst i12 * snd i12)
   \<and> (ba_phase s13 = Complete \<longrightarrow> BallThrow_step s13 i13 = s13)
   \<and> (fp_isPlaying st \<and> fp_currentTime st \<le> CONFIG_freefall_totalTime
        \<and> 0 \<le> (timestamp - fp_lastTimestamp st) / 1000 * fp_speed st \<longrightarrow>
        fp_currentTime st \<le> fp_currentTime (freefall_animate st timestamp))"
proof -
  have brick1: "bt_phase s1 \<noteq> throwing \<and> nonneg_delta i1 \<longrightarrow>
        bt_time (BrickThrow_step s1 i1) = bt_time s1 + fst i1 * snd i1
      \<and> bt_time s1 \<le> bt_time (BrickThrow_step s1 i1)"
    by (simp add: BrickThrow_step_time nonneg_delta_def)
  have brick2: "bt_phase s2 = throwing \<and> nonneg_delta i2 \<and> \<not> bt_time s2 + fst i2 * snd i2 > 0.3
      \<longrightarrow> bt_time (BrickThrow_step s2 i2) = bt_time s2 + fst i2 * snd i2
      \<and> bt_time s2 \<le> bt_time (BrickThrow_step s2 i2)
      \<and> bt_phase (BrickThrow_step s2 i2) = throwing"
    using BrickThrow_step_windup [of s2 i2] by (simp add: nonneg_delta_def)
  have brick3: "bt_phase s3 = throwing \<and> bt_time s3 + fst i3 * snd i3 > 0.3 \<longrightarrow>
        bt_time (BrickThrow_step s3 i3) = 0 \<and> bt_phase (BrickThrow_step s3 i3) \<noteq> throwing"
    using BrickThrow_step_launch [of s3 i3] by simp
  have brick4: "bt_phase s4 = at_max \<longrightarrow>
        bt_time (timeout_callback Timeout_at_max s4) = 0
      \<and> bt_phase (timeout_callback Timeout_at_max s4) = descending"
    by simp
  have dual: "list_all nonneg_delta ds \<longrightarrow>
      sorted (map db_time
        (DualBallSimulation_new # states_after DualBall_step DualBallSimulation_new ds))"
    using dualball_time_sorted [of ds] by blast
  have stone1: "st_time (StoneThrow_step s5 d5) = min (st_time s5 + d5) (st_totalTime s5)"
    by (rule StoneThrow_step_time)
  have stone2: "list_all (\<lambda>dt. 0 \<le> dt) ts \<longrightarrow>
        sorted (map st_time
          (StoneThrowSimulation_new
             # states_after StoneThrow_step StoneThrowSimulation_new ts))"
    using stonethrow_time_sorted [of ts] by blast
  have air1: "ar_time (AirResistance_step s6 d6) = ar_time s6 + d6"
    using AirResistance_step_closed [of s6 d6] by simp
  have air2: "0 \<le> d7 \<longrightarrow> ar_time s7 \<le> ar_time (AirResistance_step s7 d7)"
    using AirResistance_step_closed [of s7 d7] by simp
  have proj1: "pj_time (Projectile_update p1 e1)
                 = (if pj_finished p1 then pj_time p1 else pj_time p1 + e1)"
    by (rule Projectile_update_time)
  have proj2: "0 \<le> e2 \<longrightarrow> pj_time p2 \<le> pj_time (Projectile_update p2 e2)"
    by (simp add: Projectile_update_time)
  have stones1: "fs_time (FallingStones_step s8 i8) = fs_time s8 + fst i8 * snd i8"
    by (rule FallingStones_step_time)
  have stones2: "nonneg_delta i9 \<longrightarrow> fs_time s9 \<le> fs_time (FallingStones_step s9 i9)"
    by (simp add: FallingStones_step_time nonneg_delta_def)
  have stones3: "sn_time (stone_update g c n1)
       = (if sn_reachedGround n1 then sn_time n1 else sn_time n1 + c)"
    by (rule stone_update_time)
  have ball1: "ba_phase s10 = Ascending
        \<and> ba_time s10 + fst i10 * snd i10 < ba_totalAscentTime s10 \<longrightarrow>
        ba_phase (BallThrow_step s10 i10) = Ascending
      \<and> ba_time (BallThrow_step s10 i10) = ba_time s10 + fst i10 * snd i10"
    using BallThrow_step_ascending [of s10 i10] by blast
  have ball2: "ba_phase s11 = Ascending
        \<and> ba_totalAscentTime s11 \<le> ba_time s11 + fst i11 * snd i11 \<longrightarrow>
        ba_phase (BallThrow_step s11 i11) = Descending
      \<and> ba_time (BallThrow_step s11 i11) = 0"
    using BallThrow_step_ascending [of s11 i11] by blast
  have ball3: "ba_phase s12 = Descending \<longrightarrow>
        ba_time (BallThrow_step s12 i12) = ba_time s12 + fst i12 * snd i12"
    using BallThrow_step_descending [of s12 i12] by blast
  have ball4: "ba_phase s13 = Complete \<longrightarrow> BallThrow_step s13 i13 = s13"
    using BallThrow_step_complete [of s13 i13] by blast
  have page: "fp_isPlaying st \<and> fp_currentTime st \<le> CONFIG_freefall_totalTime
        \<and> 0 \<le> (timestamp - fp_lastTimestamp st) / 1000 * fp_speed st \<longrightarrow>
        fp_currentTime st \<le> fp_currentTime (freefall_animate st timestamp)"
    using freefall_animate_monotone [of st timestamp] by blast
  show ?thesis
    by (intro conjI dual brick1 brick2 brick3 brick4 stone1 stone2 air1 air2 proj1 proj2
        stones1 stones2 stones3 ball1 ball2 ball3 ball4 page)
qed

theorem C5_time_monotone_amended_witness:
  "list_all nonneg_delta [(0.1, 1), (0.1, 2)]
   \<and> sorted (map db_time (DualBallSimulation_new
        # states_after DualBall_step DualBallSimulation_new [(0.1, 1), (0.1, 2)]))
   \<and> bt_phase (bw_sim (foldl brick_step brick_world_new [Update 0.4 1])) \<noteq> throwing
   \<and> nonneg_delta (0.1, 1)
   \<and> bt_time (bw_sim (foldl brick_step brick_world_new [Update 0.4 1]))
        \<le> bt_time (BrickThrow_step (bw_sim (foldl brick_step brick_world_new [Update 0.4 1]))
             (0.1, 1))
   \<and> bt_phase BrickThrowSimulation_new = throwing
   \<and> nonneg_delta (0.1, 2)
   \<and> \<not> bt_time BrickThrowSimulation_new + fst (0.1::real, 2::real) * snd (0.1::real, 2::real) > 0.3
   \<and> bt_time BrickThrowSimulation_new \<le> bt_time (BrickThrow_step BrickThrowSimulation_new (0.1, 2))
   \<and> bt_phase (bw_sim (foldl brick_step brick_world_new [Update 0.1 2])) = throwing
   \<and> bt_time (bw_sim (foldl brick_step brick_world_new [Update 0.1 2]))
        + fst (0.1::real, 2::real) * snd (0.1::real, 2::real) > 0.3
   \<and> bt_time (BrickThrow_step (bw_sim (foldl brick_step brick_world_new [Update 0.1 2]))
        (0.1, 2)) = 0
   \<and> bt_phase (bw_sim (foldl brick_step brick_world_new [Update 0.4 1, Update 2 1])) = at_max
   \<and> bt_time (timeout_callback Timeout_at_max
        (bw_sim (foldl brick_step brick_world_new [Update 0.4 1, Update 2 1]))) = 0
   \<and> list_all (\<lambda>dt. 0 \<le> dt) [1, 30, 1 :: real]
   \<and> sorted (map st_time
        (StoneThrowSimulation_new
           # states_after StoneThrow_step StoneThrowSimulation_new [1, 30, 1]))
   \<and> (0::real) \<le> 0.5
   \<and> ar_time AirResistanceSimulation_new
        \<le> ar_time (AirResistance_step AirResistanceSimulation_new 0.5)
   \<and> pj_time Projectile_reset \<le> pj_time (Projectile_update Projectile_reset 0.5)
   \<and> nonneg_delta (0.5, 2)
   \<and> fs_time FallingStonesSimulation_new
        \<le> fs_time (FallingStones_step FallingStonesSimulation_new (0.5, 2))
   \<and> ba_phase BallThrowSimulation_new = Ascending
   \<and> ba_time BallThrowSimulation_new + fst (1::real, 1::real) * snd (1::real, 1::real)
        < ba_totalAscentTime BallThrowSimulation_new
   \<and> ba_time (BallThrow_step BallThrowSimulation_new (1, 1))
       = ba_time BallThrowSimulation_new + fst (1::real, 1::real) * snd (1::real, 1::real)
   \<and> ba_phase (BallThrow_step BallThrowSimulation_new (1, 1)) = Ascending
   \<and> ba_totalAscentTime (BallThrow_step BallThrowSimulation_new (1, 1))
        \<le> ba_time (BallThrow_step BallThrowSimulation_new (1, 1))
           + fst (1::real, 1::real) * snd (1::real, 1::real)
   \<and> ba_time (BallThrow_step (BallThrow_step BallThrowSimulation_new (1, 1)) (1, 1)) = 0
   \<and> ba_phase (BallThrow_step BallThrowSimulation_new (2, 1)) = Descending
   \<and> ba_time (BallThrow_step (BallThrow_step BallThrowSimulation_new (2, 1)) (1, 1))
       = ba_time (BallThrow_step BallThrowSimulation_new (2, 1))
         + fst (1::real, 1::real) * snd (1::real, 1::real)
   \<and> ba_phase (foldl BallThrow_step BallThrowSimulation_new [(2, 1), (2, 1)]) = Complete
   \<and> BallThrow_step (foldl BallThrow_step BallThrowSimulation_new [(2, 1), (2, 1)]) (1, 1)
       = foldl BallThrow_step BallThrowSimulation_new [(2, 1), (2, 1)]
   \<and> fp_isPlaying \<lparr> fp_isPlaying = True, fp_speed = 1, fp_currentTime = 0,
                    fp_ball = FallingBall_reset, fp_lastTimestamp = 0,
                    fp_completedIntervals = {} \<rparr>
   \<and> fp_currentTime \<lparr> fp_isPlaying = True, fp_speed = 1, fp_currentTime = 0,
                    fp_ball = FallingBall_reset, fp_lastTimestamp = 0,
                    fp_completedIntervals = {} \<rparr>
        \<le> fp_currentTime (freefall_animate
             \<lparr> fp_isPlaying = True, fp_speed = 1, fp_currentTime = 0,
               fp_ball = FallingBall_reset, fp_lastTimestamp = 0,
               fp_completedIntervals = {} \<rparr> 500)"
proof -
  let ?launch = "bw_sim (foldl brick_step brick_world_new [Update 0.4 1])"
  let ?windup = "bw_sim (foldl brick_step brick_world_new [Update 0.1 2])"
  let ?top = "bw_sim (foldl brick_step brick_world_new [Update 0.4 1, Update 2 1])"
  let ?page = "\<lparr> fp_isPlaying = True, fp_speed = 1, fp_currentTime = 0,
                 fp_ball = FallingBall_reset, fp_lastTimestamp = 0,
                 fp_completedIntervals = {} \<rparr>"
  let ?up = "BallThrow_step BallThrowSimulation_new (1, 1)"
  have h0: "list_all nonneg_delta [(0.1, 1), (0.1, 2)]" "nonneg_delta (0.1, 1)"
    "nonneg_delta (0.1, 2)" "nonneg_delta (0.5, 2)"
    by (simp_all add: nonneg_delta_def)
  have h1: "bt_phase ?launch \<noteq> throwing" by (simp only: launch_run) simp
  have h2: "bt_phase BrickThrowSimulation_new = throwing"
    "\<not> bt_time BrickThrowSimulation_new + fst (0.1::real, 2::real) * snd (0.1::real, 2::real) > 0.3"
    by (simp_all add: brick_new_constants)
  have h3: "bt_phase ?windup = throwing"
    "bt_time ?windup + fst (0.1::real, 2::real) * snd (0.1::real, 2::real) > 0.3"
    by (simp_all add: brick_eval)
  have h4: "bt_phase ?top = at_max"
    using sqrt_236_bounds by (simp add: brick_eval)
  have h5: "list_all (\<lambda>dt. 0 \<le> dt) [1, 30, 1 :: real]" "(0::real) \<le> 0.5" by simp_all
  have h6: "ba_phase BallThrowSimulation_new = Ascending"
    "ba_time BallThrowSimulation_new + fst (1::real, 1::real) * snd (1::real, 1::real)
        < ba_totalAscentTime BallThrowSimulation_new"
    "ba_totalAscentTime ?up \<le> ba_time ?up + fst (1::real, 1::real) * snd (1::real, 1::real)"
    "ba_phase (BallThrow_step BallThrowSimulation_new (2, 1)) = Descending"
    "ba_phase (foldl BallThrow_step BallThrowSimulation_new [(2, 1), (2, 1)]) = Complete"
    by (simp_all add: ballthrow_eval)
  have h7: "fp_isPlaying ?page" "fp_currentTime ?page \<le> CONFIG_freefall_totalTime"
    "0 \<le> (500 - fp_lastTimestamp ?page) / 1000 * fp_speed ?page"
    by (simp_all add: CONFIG_freefall_totalTime_def)
  show ?thesis
    using C5_time_monotone_amended [where ds = "[(0.1, 1), (0.1, 2)]" and ?s1.0 = ?launch
        and ?i1.0 = "(0.1, 1)" and ?s2.0 = BrickThrowSimulation_new and ?i2.0 = "(0.1, 2)"
        and ?s3.0 = ?windup and ?i3.0 = "(0.1, 2)" and ?s4.0 = ?top
        and ?s5.0 = StoneThrowSimulation_new and ?d5.0 = 1 and ts = "[1, 30, 1]"
        and ?s6.0 = AirResistanceSimulation_new and ?d6.0 = "0.5"
        and ?s7.0 = AirResistanceSimulation_new and ?d7.0 = "0.5"
        and ?p1.0 = Projectile_reset and ?e1.0 = "0.5"
        and ?p2.0 = Projectile_reset and ?e2.0 = "0.5"
        and ?s8.0 = FallingStonesSimulation_new and ?i8.0 = "(0.5, 2)"
        and ?s9.0 = FallingStonesSimulation_new and ?i9.0 = "(0.5, 2)"
        and g = 10 and c = 1 and ?n1.0 = "stone_new 10 1 20"
        and ?s10.0 = BallThrowSimulation_new and ?i10.0 = "(1, 1)"
        and ?s11.0 = ?up and ?i11.0 = "(1, 1)"
        and ?s12.0 = "BallThrow_step BallThrowSimulation_new (2, 1)" and ?i12.0 = "(1, 1)"
        and ?s13.0 = "foldl BallThrow_step BallThrowSimulation_new [(2, 1), (2, 1)]"
        and ?i13.0 = "(1, 1)" and st = ?page and timestamp = 500]
      h0 h1 h2 h3 h4 h5 h6 h7
    by blast
qed

section \<open>Determinism\<close>

lemma brick_states_snoc:
  "brick_states w (es @ [Update dt k])
     = brick_states w es @ [bw_sim (foldl brick_step w (es @ [Update dt k]))]"
proof (induction es arbitrary: w)
  case Nil
  then show ?case by (simp add: Let_def)
next
  case (Cons e es)
  then show ?case by (cases e) (simp_all add: Let_def)
qed

lemma brick_states_last:
  "last (brick_states w (es @ [Update dt k])) = bw_sim (foldl brick_step w (es @ [Update dt k]))"
  by (simp only: brick_states_snoc last_snoc)

lemma race_run_early:
  "bw_sim (foldl brick_step brick_world_new
      [Update 0.4 1, Update 2 1, Update 0.1 1, Fire Timeout_at_max, Update 0.1 1])
   = BrickThrowSimulation_new \<lparr> bt_time := 0.1, bt_height := 11.75, bt_velocity := - 1,
       bt_phase := descending, bt_reachedTarget := True, bt_reachedMax := True,
       bt_trail := [0, sqrt 236 * 2 - 20, 11.75],
       bt_currentKE := Some 0.5, bt_currentPE := Some 117.5, bt_currentTotal := Some 118 \<rparr>"
  using sqrt_236_bounds by (simp add: brick_eval)

lemma race_run_late:
  "bw_sim (foldl brick_step brick_world_new
      [Update 0.4 1, Update 2 1, Update 0.1 1, Update 0.1 1])
   = BrickThrowSimulation_new \<lparr> bt_time := 2.2, bt_height := 11.8, bt_velocity := 0,
       bt_phase := at_max, bt_reachedTarget := True, bt_reachedMax := True,
       bt_trail := [0, sqrt 236 * 2 - 20],
       bt_currentKE := Some 0, bt_currentPE := Some 118, bt_currentTotal := Some 118 \<rparr>"
  using sqrt_236_bounds by (simp add: brick_eval)

lemma race_pending:
  "bw_pending (foldl brick_step brick_world_new [Update 0.4 1, Update 2 1, Update 0.1 1])
     = [Timeout_at_max]"
  using sqrt_236_bounds by (simp_all add: brick_eval)

lemma race_states_differ:
  "brick_states brick_world_new
        [Update 0.4 1, Update 2 1, Update 0.1 1, Fire Timeout_at_max, Update 0.1 1]
      \<noteq> brick_states brick_world_new [Update 0.4 1, Update 2 1, Update 0.1 1, Update 0.1 1]"
proof -
  let ?A = "[Update 0.4 1, Update 2 1, Update 0.1 1, Fire Timeout_at_max, Update 0.1 1]"
  let ?B = "[Update 0.4 1, Update 2 1, Update 0.1 1, Update 0.1 1]"
  have pa: "bt_phase (bw_sim (foldl brick_step brick_world_new ?A)) = descending"
    by (simp only: race_run_early) simp
  have pb: "bt_phase (bw_sim (foldl brick_step brick_world_new ?B)) = at_max"
    by (simp only: race_run_late) simp
  have la: "last (brick_states brick_world_new ?A) = bw_sim (foldl brick_step brick_world_new ?A)"
    using brick_states_last
      [of brick_world_new "[Update 0.4 1, Update 2 1, Update 0.1 1, Fire Timeout_at_max]" "0.1" 1]
    by (simp only: append.simps)
  have lb: "last (brick_states brick_world_new ?B) = bw_sim (foldl brick_step brick_world_new ?B)"
    using brick_states_last [of brick_world_new "[Update 0.4 1, Update 2 1, Update 0.1 1]" "0.1" 1]
    by (simp only: append.simps)
  show ?thesis
  proof
    assume e: "brick_states brick_world_new ?A = brick_states brick_world_new ?B"
    have "bt_phase (last (brick_states brick_world_new ?A))
            = bt_phase (last (brick_states brick_world_new ?B))"
      by (simp only: e)
    then have "descending = at_max" by (simp only: la lb pa pb)
    then show False by simp
  qed
qed

text \<open>
  C6, as stated, fails.  Two runs of the brick-throw page with the same
  \<open>(deltaTime, speedMultiplier)\<close> inputs differ after the fourth call: in one the pending
  \<open>at_max\<close> timeout has fired before that call and the brick descends, in the other it
  has not fired yet and the brick still hangs at the top.
\<close>

theorem C6_counterexample:
  "brick_inputs [Update 0.4 1, Update 2 1, Update 0.1 1, Fire Timeout_at_max, Update 0.1 1]
     = brick_inputs [Update 0.4 1, Update 2 1, Update 0.1 1, Update 0.1 1]
   \<and> Timeout_at_max \<in> set (bw_pending (foldl brick_step brick_world_new
        [Update 0.4 1, Update 2 1, Update 0.1 1]))
   \<and> bt_phase (bw_sim (foldl brick_step brick_world_new
        [Update 0.4 1, Update 2 1, Update 0.1 1, Fire Timeout_at_max, Update 0.1 1])) = descending
   \<and> bt_phase (bw_sim (foldl brick_step brick_world_new
        [Update 0.4 1, Update 2 1, Update 0.1 1, Update 0.1 1])) = at_max
   \<and> brick_states brick_world_new
        [Update 0.4 1, Update 2 1, Update 0.1 1, Fire Timeout_at_max, Update 0.1 1]
      \<noteq> brick_states brick_world_new [Update 0.4 1, Update 2 1, Update 0.1 1, Update 0.1 1]"
proof -
  let ?A = "[Update 0.4 1, Update 2 1, Update 0.1 1, Fire Timeout_at_max, Update 0.1 1]"
  let ?B = "[Update 0.4 1, Update 2 1, Update 0.1 1, Update 0.1 1]"
  have pa: "bt_phase (bw_sim (foldl brick_step brick_world_new ?A)) = descending"
    by (simp only: race_run_early) simp
  have pb: "bt_phase (bw_sim (foldl brick_step brick_world_new ?B)) = at_max"
    by (simp only: race_run_late) simp
  have inp: "brick_inputs ?A = brick_inputs ?B" by simp
  have pend: "Timeout_at_max \<in> set (bw_pending (foldl brick_step brick_world_new
        [Update 0.4 1, Update 2 1, Update 0.1 1]))"
    by (simp only: race_pending) simp
  from inp pend pa pb race_states_differ show ?thesis by (intro conjI)
qed

lemma dualball_frame_stopped:
  "\<not> dp_isPlaying st \<Longrightarrow> map dp_simulation (states_after dualball_frame st ts)
      = replicate (length ts) (dp_simulation st)"
  by (induction ts) (simp_all add: dualball_frame_def dualball_animate_def)

lemma dualball_frame_deltas_length: "length (dualball_frame_deltas l ts) = length ts"
  by (induction ts arbitrary: l) simp_all

lemma dualball_frame_playing:
  "dp_isPlaying st \<Longrightarrow>
     dp_lastTimestamp (dualball_frame st t) = t
     \<and> dp_speedMultiplier (dualball_frame st t) = dp_speedMultiplier st
     \<and> dp_simulation (dualball_frame st t)
         = fst (DualBallSimulation_update (dp_simulation st)
                  (dualball_frame_deltaTime t (dp_lastTimestamp st)) (dp_speedMultiplier st))
     \<and> dp_isPlaying (dualball_frame st t)
         = (\<not> snd (DualBallSimulation_update (dp_simulation st)
                  (dualball_frame_deltaTime t (dp_lastTimestamp st)) (dp_speedMultiplier st)))"
  by (simp add: dualball_frame_def dualball_animate_def Let_def split_beta)

lemma dualball_frames_determined:
  assumes "dp_isPlaying st1 = dp_isPlaying st2"
    "dp_speedMultiplier st1 = dp_speedMultiplier st2"
    "dp_simulation st1 = dp_simulation st2"
    "dualball_frame_deltas (dp_lastTimestamp st1) ts1
       = dualball_frame_deltas (dp_lastTimestamp st2) ts2"
  shows "map dp_simulation (states_after dualball_frame st1 ts1)
           = map dp_simulation (states_after dualball_frame st2 ts2)"
proof (cases "dp_isPlaying st1")
  case False
  have "length ts1 = length ts2"
    using assms(4) dualball_frame_deltas_length [of "dp_lastTimestamp st1" ts1]
      dualball_frame_deltas_length [of "dp_lastTimestamp st2" ts2] by simp
  with False assms show ?thesis by (simp add: dualball_frame_stopped)
next
  case True
  then show ?thesis using assms
  proof (induction ts1 arbitrary: st1 st2 ts2)
    case Nil
    then show ?case by (cases ts2) simp_all
  next
    case (Cons t ts1)
    from Cons.prems obtain t' ts2' where ts2: "ts2 = t' # ts2'" by (cases ts2) simp_all
    from Cons.prems ts2 have
      d: "dualball_frame_deltaTime t (dp_lastTimestamp st1)
            = dualball_frame_deltaTime t' (dp_lastTimestamp st2)"
      and r: "dualball_frame_deltas t ts1 = dualball_frame_deltas t' ts2'"
      by simp_all
    from Cons.prems have p2: "dp_isPlaying st2" by simp
    note f1 = dualball_frame_playing [OF Cons.prems(1), of t]
    note f2 = dualball_frame_playing [OF p2, of t']
    have sim: "dp_simulation (dualball_frame st1 t) = dp_simulation (dualball_frame st2 t')"
      using f1 f2 d Cons.prems by simp
    have pl: "dp_isPlaying (dualball_frame st1 t) = dp_isPlaying (dualball_frame st2 t')"
      using f1 f2 d Cons.prems by simp
    have sp: "dp_speedMultiplier (dualball_frame st1 t) = dp_speedMultiplier (dualball_frame st2 t')"
      using f1 f2 Cons.prems by simp
    have ds: "dualball_frame_deltas (dp_lastTimestamp (dualball_frame st1 t)) ts1
                = dualball_frame_deltas (dp_lastTimestamp (dualball_frame st2 t')) ts2'"
      using f1 f2 r by simp
    have rest: "map dp_simulation (states_after dualball_frame (dualball_frame st1 t) ts1)
          = map dp_simulation (states_after dualball_frame (dualball_frame st2 t') ts2')"
    proof (cases "dp_isPlaying (dualball_frame st1 t)")
      case True
      then show ?thesis using pl sp sim ds by (rule Cons.IH)
    next
      case False
      have "length ts1 = length ts2'"
        using r dualball_frame_deltas_length [of t ts1] dualball_frame_deltas_length [of t' ts2']
        by simp
      with False pl sim show ?thesis by (simp add: dualball_frame_stopped)
    qed
    with sim ts2 show ?case by simp
  qed
qed

lemma brick_step_Update_sim:
  "bw_sim (brick_step w (Update dt k)) = BrickThrow_step (bw_sim w) (dt, k)"
  by (simp add: BrickThrow_step_def split_beta)

lemma brick_step_Update_pending:
  "bw_pending (brick_step w (Update dt k))
     = bw_pending w
       @ (case snd (snd (BrickThrowSimulation_update (bw_sim w) dt k)) of
            None \<Rightarrow> [] | Some t \<Rightarrow> [t])"
  by (simp add: split_beta)

lemma brick_step_Fire_quiet:
  "\<not> brick_paused (bw_sim w) \<Longrightarrow> bw_sim (brick_step w (Fire t)) = bw_sim w"
  by (cases t) (simp_all add: brick_paused_def)

lemma upto_pause_determined:
  "upto_pause (bw_sim w # brick_states w tr)
     = upto_pause (bw_sim w # states_after BrickThrow_step (bw_sim w) (brick_inputs tr))"
proof (induction tr arbitrary: w)
  case Nil
  then show ?case by simp
next
  case (Cons e tr)
  show ?case
  proof (cases "brick_paused (bw_sim w)")
    case True
    then show ?thesis by simp
  next
    case False
    show ?thesis
    proof (cases e)
      case (Update dt k)
      have "upto_pause (bw_sim (brick_step w (Update dt k))
                # brick_states (brick_step w (Update dt k)) tr)
            = upto_pause (bw_sim (brick_step w (Update dt k))
                # states_after BrickThrow_step (bw_sim (brick_step w (Update dt k)))
                    (brick_inputs tr))"
        by (rule Cons.IH)
      then show ?thesis
        using False unfolding Update
        by (simp only: brick_states.simps brick_inputs.simps states_after.simps Let_def
            upto_pause.simps brick_step_Update_sim if_False)
    next
      case (Fire t)
      have "upto_pause (bw_sim (brick_step w (Fire t)) # brick_states (brick_step w (Fire t)) tr)
            = upto_pause (bw_sim (brick_step w (Fire t))
                # states_after BrickThrow_step (bw_sim (brick_step w (Fire t)))
                    (brick_inputs tr))"
        by (rule Cons.IH)
      then show ?thesis
        unfolding Fire
        by (simp only: brick_states.simps brick_inputs.simps brick_step_Fire_quiet [OF False])
    qed
  qed
qed

lemma upto_pause_same_inputs:
  assumes "brick_inputs tr1 = brick_inputs tr2"
  shows "upto_pause (bw_sim w # brick_states w tr1) = upto_pause (bw_sim w # brick_states w tr2)"
  by (simp only: upto_pause_determined assms)

lemma brick_paused_step:
  assumes "brick_paused s"
  shows "BrickThrow_step s i = brick_energies (s\<lparr> bt_time := bt_time s + fst i * snd i \<rparr>)"
proof -
  have a: "brick_advance s (fst i * snd i) = s\<lparr> bt_time := bt_time s + fst i * snd i \<rparr>"
    using assms by (auto simp add: brick_advance_def brick_paused_def Let_def)
  show ?thesis
    using assms by (auto simp add: BrickThrow_step_stages a brick_move_def brick_paused_def)
qed

lemma brick_paused_run_from:
  assumes "brick_paused s"
  shows "foldl BrickThrow_step (brick_energies (s\<lparr> bt_time := T \<rparr>)) ins
           = brick_energies (s\<lparr> bt_time := T + scaled_total ins \<rparr>)"
proof (induction ins arbitrary: T)
  case Nil
  then show ?case by (simp add: scaled_total_def)
next
  case (Cons i ins)
  have p: "brick_paused (brick_energies (s\<lparr> bt_time := T \<rparr>))"
    using assms by (simp add: brick_paused_def)
  have "BrickThrow_step (brick_energies (s\<lparr> bt_time := T \<rparr>)) i
          = brick_energies (s\<lparr> bt_time := T + fst i * snd i \<rparr>)"
    by (simp add: brick_paused_step [OF p]) (simp add: brick_energies_def)
  then show ?case
    using Cons.IH [of "T + fst i * snd i"]
    by (simp add: scaled_total_def add.assoc)
qed

lemma brick_paused_run:
  assumes "brick_paused s"
  shows "foldl BrickThrow_step s (i # ins)
           = brick_energies (s\<lparr> bt_time := bt_time s + scaled_total (i # ins) \<rparr>)"
  using brick_paused_run_from [OF assms, of "bt_time s + fst i * snd i" ins]
  by (simp add: brick_paused_step [OF assms] scaled_total_def add.assoc)

lemma brick_updates_sim:
  "bw_sim (foldl brick_step w (brick_updates ins)) = foldl BrickThrow_step (bw_sim w) ins"
proof (induction ins arbitrary: w)
  case Nil
  then show ?case by (simp add: brick_updates_def)
next
  case (Cons i ins)
  have "bw_sim (foldl brick_step (brick_step w (Update (fst i) (snd i))) (brick_updates ins))
          = foldl BrickThrow_step (bw_sim (brick_step w (Update (fst i) (snd i)))) ins"
    by (rule Cons.IH)
  then show ?case
    by (simp only: brick_updates_def list.map foldl.simps brick_step_Update_sim prod.collapse)
qed

lemma brick_updates_pending_mono:
  "set (bw_pending w) \<subseteq> set (bw_pending (foldl brick_step w (brick_updates ins)))"
proof (induction ins arbitrary: w)
  case Nil
  then show ?case by (simp add: brick_updates_def)
next
  case (Cons i ins)
  have "set (bw_pending w) \<subseteq> set (bw_pending (brick_step w (Update (fst i) (snd i))))"
    by (simp only: brick_step_Update_pending set_append) simp
  also have "\<dots> \<subseteq> set (bw_pending (foldl brick_step (brick_step w (Update (fst i) (snd i)))
                                      (brick_updates ins)))"
    by (rule Cons.IH)
  finally show ?case by (simp only: brick_updates_def list.map foldl.simps)
qed

lemma brick_paused_pending:
  assumes "brick_paused (bw_sim w)"
  shows "(if bt_phase (bw_sim w) = at_target then Timeout_at_target else Timeout_at_max)
           \<in> set (bw_pending (foldl brick_step w (brick_updates (i # ins))))"
proof -
  have a: "bt_phase (brick_advance (bw_sim w) (fst i * snd i)) = bt_phase (bw_sim w)"
    using assms by (auto simp add: brick_advance_phase brick_paused_def)
  have "(if bt_phase (bw_sim w) = at_target then Timeout_at_target else Timeout_at_max)
          \<in> set (bw_pending (brick_step w (Update (fst i) (snd i))))"
    using assms
    by (simp only: brick_step_Update_pending brick_update_scheduled a)
      (auto simp add: brick_paused_def)
  then show ?thesis
    using brick_updates_pending_mono [of "brick_step w (Update (fst i) (snd i))" ins]
    by (auto simp only: brick_updates_def list.map foldl.simps)
qed

lemma apex_pause_erased:
  assumes "bt_phase (bw_sim w) = at_max"
  shows "bw_sim (brick_step (foldl brick_step w (brick_updates (i # ins))) (Fire Timeout_at_max))
           = (brick_energies (bw_sim w))\<lparr> bt_phase := descending, bt_time := 0 \<rparr>"
proof -
  have p: "brick_paused (bw_sim w)" using assms by (simp add: brick_paused_def)
  have pend: "Timeout_at_max \<in> set (bw_pending (foldl brick_step w (brick_updates (i # ins))))"
    using brick_paused_pending [OF p, of i ins] assms by simp
  have sim: "bw_sim (foldl brick_step w (brick_updates (i # ins)))
               = brick_energies ((bw_sim w)\<lparr> bt_time := bt_time (bw_sim w)
                                                   + scaled_total (i # ins) \<rparr>)"
    by (simp only: brick_updates_sim brick_paused_run [OF p])
  show ?thesis
    using pend assms by (simp add: sim) (simp add: brick_energies_def)
qed

lemma target_pause_clock:
  assumes "bt_phase (bw_sim w) = at_target"
  shows "bw_sim (brick_step (foldl brick_step w (brick_updates (i # ins)))
                   (Fire Timeout_at_target))
           = (brick_energies (bw_sim w))
               \<lparr> bt_phase := continuing,
                  bt_time := bt_time (bw_sim w) + scaled_total (i # ins) \<rparr>"
proof -
  have p: "brick_paused (bw_sim w)" using assms by (simp add: brick_paused_def)
  have pend: "Timeout_at_target
                \<in> set (bw_pending (foldl brick_step w (brick_updates (i # ins))))"
    using brick_paused_pending [OF p, of i ins] assms by simp
  have sim: "bw_sim (foldl brick_step w (brick_updates (i # ins)))
               = brick_energies ((bw_sim w)\<lparr> bt_time := bt_time (bw_sim w)
                                                   + scaled_total (i # ins) \<rparr>)"
    by (simp only: brick_updates_sim brick_paused_run [OF p])
  show ?thesis
    using pend assms by (simp add: sim) (simp add: brick_energies_def)
qed

lemma upto_pause_full:
  "upto_pause ys = xs \<Longrightarrow> list_all (\<lambda>s. \<not> brick_paused s) xs \<Longrightarrow> ys = xs"
proof (induction ys arbitrary: xs)
  case Nil
  then show ?case by simp
next
  case (Cons y ys)
  show ?case
  proof (cases "brick_paused y")
    case True
    with Cons.prems show ?thesis by auto
  next
    case False
    with Cons.prems obtain xs' where xs: "xs = y # xs'" and u: "upto_pause ys = xs'" by auto
    with Cons.prems have "list_all (\<lambda>s. \<not> brick_paused s) xs'" by simp
    with u have "ys = xs'" by (rule Cons.IH)
    with xs show ?thesis by simp
  qed
qed

lemma upto_pause_id: "list_all (\<lambda>s. \<not> brick_paused s) xs \<Longrightarrow> upto_pause xs = xs"
  by (induction xs) simp_all

lemma brick_quiet_run_determined:
  assumes "\<not> brick_paused (bw_sim w)"
    "list_all (\<lambda>s. \<not> brick_paused s) (states_after BrickThrow_step (bw_sim w) (brick_inputs tr))"
  shows "brick_states w tr = states_after BrickThrow_step (bw_sim w) (brick_inputs tr)"
proof -
  let ?ref = "states_after BrickThrow_step (bw_sim w) (brick_inputs tr)"
  have "upto_pause (bw_sim w # ?ref) = bw_sim w # ?ref"
    using assms by (intro upto_pause_id) simp
  then have "upto_pause (bw_sim w # brick_states w tr) = bw_sim w # ?ref"
    by (simp only: upto_pause_determined)
  moreover have "list_all (\<lambda>s. \<not> brick_paused s) (bw_sim w # ?ref)" using assms by simp
  ultimately have "bw_sim w # brick_states w tr = bw_sim w # ?ref" by (rule upto_pause_full)
  then show ?thesis by simp
qed

lemma stale_run:
  "bw_sim (foldl brick_step brick_world_new
      [Update 0.4 1, Update 2 1, Update 0.1 1, Update 0.1 1, Fire Timeout_at_max])
   = BrickThrowSimulation_new \<lparr> bt_time := 0, bt_height := 11.8, bt_velocity := 0,
       bt_phase := descending, bt_reachedTarget := True, bt_reachedMax := True,
       bt_trail := [0, sqrt 236 * 2 - 20],
       bt_currentKE := Some 0, bt_currentPE := Some 118, bt_currentTotal := Some 118 \<rparr>"
  "bw_pending (foldl brick_step brick_world_new
      [Update 0.4 1, Update 2 1, Update 0.1 1, Update 0.1 1, Fire Timeout_at_max])
   = [Timeout_at_max]"
  using sqrt_236_bounds by (simp_all add: brick_eval)

lemma stale_quiet:
  "\<not> brick_paused (bw_sim (foldl brick_step brick_world_new
      [Update 0.4 1, Update 2 1, Update 0.1 1, Update 0.1 1, Fire Timeout_at_max]))"
  "list_all (\<lambda>s. \<not> brick_paused s)
     (states_after BrickThrow_step (bw_sim (foldl brick_step brick_world_new
        [Update 0.4 1, Update 2 1, Update 0.1 1, Update 0.1 1, Fire Timeout_at_max]))
        (brick_inputs [Update 0.1 1, Fire Timeout_at_max, Update 0.1 1]))"
  "Timeout_at_max \<in> set (bw_pending (brick_step (foldl brick_step brick_world_new
        [Update 0.4 1, Update 2 1, Update 0.1 1, Update 0.1 1, Fire Timeout_at_max])
        (Update 0.1 1)))"
  unfolding stale_run brick_step_Update_pending
  by (simp_all add: brick_paused_def BrickThrow_step_def brick_eval)

text \<open>
  C6, amended.  A run of the brick-throw page is a sequence of \<open>update\<close> calls with the
  scheduled timeouts firing anywhere between them.

  \<^item> Whatever the timeouts do, the states of a run up to and including the first one
    that waits (phase \<open>at_target\<close> or \<open>at_max\<close>) are those of its inputs run without any
    timeout; so two runs from the same state with the same inputs agree up to and
    including the first state that waits, and a run whose inputs never make the brick
    wait is determined by its inputs.
  \<^item> From a state waiting at \<open>at_max\<close>, after one or more calls and the timeout, the brick
    starts its descent in the same state whatever the calls were: the calls made during
    the wait leave no trace.
  \<^item> From a state waiting at \<open>at_target\<close>, after one or more calls and the timeout, the
    brick continues in a state that depends on the calls only through the simulated time
    they add up to.
  \<^item> Dual-ball: two runs of the driver from page states that agree on the simulation,
    the speed and the playing flag, with frame timestamps that give the same frame
    deltas, produce the same simulation after each frame, whatever the timestamps are.

  The \<open>update\<close> methods of the other steppers set no timeout; they are functions of the
  state and the arguments here, which is the property.
\<close>

theorem C6_determinism_amended:
  "upto_pause (bw_sim w # brick_states w tr)
     = upto_pause (bw_sim w # states_after BrickThrow_step (bw_sim w) (brick_inputs tr))
   \<and> (brick_inputs tr1 = brick_inputs tr2 \<longrightarrow>
        upto_pause (bw_sim w0 # brick_states w0 tr1)
          = upto_pause (bw_sim w0 # brick_states w0 tr2))
   \<and> (\<not> brick_paused (bw_sim w3)
        \<and> list_all (\<lambda>s. \<not> brick_paused s)
              (states_after BrickThrow_step (bw_sim w3) (brick_inputs tr3)) \<longrightarrow>
        brick_states w3 tr3 = states_after BrickThrow_step (bw_sim w3) (brick_inputs tr3))
   \<and> (bt_phase (bw_sim w1) = at_max \<longrightarrow>
        bw_sim (brick_step (foldl brick_step w1 (brick_updates (i1 # ins1)))
                  (Fire Timeout_at_max))
          = (brick_energies (bw_sim w1))\<lparr> bt_phase := descending, bt_time := 0 \<rparr>)
   \<and> (bt_phase (bw_sim w2) = at_target \<longrightarrow>
        bw_sim (brick_step (foldl brick_step w2 (brick_updates (i2 # ins2)))
                  (Fire Timeout_at_target))
          = (brick_energies (bw_sim w2))
              \<lparr> bt_phase := continuing,
                 bt_time := bt_time (bw_sim w2) + scaled_total (i2 # ins2) \<rparr>)
   \<and> (dp_isPlaying st1 = dp_isPlaying st2
        \<and> dp_speedMultiplier st1 = dp_speedMultiplier st2
        \<and> dp_simulation st1 = dp_simulation st2
        \<and> dualball_frame_deltas (dp_lastTimestamp st1) ts1
            = dualball_frame_deltas (dp_lastTimestamp st2) ts2 \<longrightarrow>
      map dp_simulation (states_after dualball_frame st1 ts1)
        = map dp_simulation (states_after dualball_frame st2 ts2))"
proof -
  have a: "brick_inputs tr1 = brick_inputs tr2 \<longrightarrow>
        upto_pause (bw_sim w0 # brick_states w0 tr1)
          = upto_pause (bw_sim w0 # brick_states w0 tr2)"
    using upto_pause_same_inputs [of tr1 tr2 w0] by blast
  have q: "\<not> brick_paused (bw_sim w3)
        \<and> list_all (\<lambda>s. \<not> brick_paused s)
              (states_after BrickThrow_step (bw_sim w3) (brick_inputs tr3)) \<longrightarrow>
        brick_states w3 tr3 = states_after BrickThrow_step (bw_sim w3) (brick_inputs tr3)"
    using brick_quiet_run_determined [of w3 tr3] by blast
  have b: "bt_phase (bw_sim w1) = at_max \<longrightarrow>
        bw_sim (brick_step (foldl brick_step w1 (brick_updates (i1 # ins1)))
                  (Fire Timeout_at_max))
          = (brick_energies (bw_sim w1))\<lparr> bt_phase := descending, bt_time := 0 \<rparr>"
    using apex_pause_erased [of w1 i1 ins1] by blast
  have c: "bt_phase (bw_sim w2) = at_target \<longrightarrow>
        bw_sim (brick_step (foldl brick_step w2 (brick_updates (i2 # ins2)))
                  (Fire Timeout_at_target))
          = (brick_energies (bw_sim w2))
              \<lparr> bt_phase := continuing,
                 bt_time := bt_time (bw_sim w2) + scaled_total (i2 # ins2) \<rparr>"
    using target_pause_clock [of w2 i2 ins2] by blast
  have d: "dp_isPlaying st1 = dp_isPlaying st2
        \<and> dp_speedMultiplier st1 = dp_speedMultiplier st2
        \<and> dp_simulation st1 = dp_simulation st2
        \<and> dualball_frame_deltas (dp_lastTimestamp st1) ts1
            = dualball_frame_deltas (dp_lastTimestamp st2) ts2 \<longrightarrow>
      map dp_simulation (states_after dualball_frame st1 ts1)
        = map dp_simulation (states_after dualball_frame st2 ts2)"
    using dualball_frames_determined [of st1 st2 ts1 ts2] by blast
  show ?thesis
    by (intro conjI upto_pause_determined a q b c d)
qed

theorem C6_determinism_amended_witness:
  "brick_inputs [Update 0.4 1, Update 2 1, Update 0.1 1, Fire Timeout_at_max, Update 0.1 1]
     = brick_inputs [Update 0.4 1, Update 2 1, Update 0.1 1, Update 0.1 1]
   \<and> brick_states brick_world_new
        [Update 0.4 1, Update 2 1, Update 0.1 1, Fire Timeout_at_max, Update 0.1 1]
      \<noteq> brick_states brick_world_new [Update 0.4 1, Update 2 1, Update 0.1 1, Update 0.1 1]
   \<and> upto_pause (bw_sim brick_world_new # brick_states brick_world_new
        [Update 0.4 1, Update 2 1, Update 0.1 1, Fire Timeout_at_max, Update 0.1 1])
      = upto_pause (bw_sim brick_world_new # brick_states brick_world_new
        [Update 0.4 1, Update 2 1, Update 0.1 1, Update 0.1 1])
   \<and> \<not> brick_paused (bw_sim (foldl brick_step brick_world_new
        [Update 0.4 1, Update 2 1, Update 0.1 1, Update 0.1 1, Fire Timeout_at_max]))
   \<and> list_all (\<lambda>s. \<not> brick_paused s)
        (states_after BrickThrow_step (bw_sim (foldl brick_step brick_world_new
           [Update 0.4 1, Update 2 1, Update 0.1 1, Update 0.1 1, Fire Timeout_at_max]))
           (brick_inputs [Update 0.1 1, Fire Timeout_at_max, Update 0.1 1]))
   \<and> Timeout_at_max \<in> set (bw_pending (brick_step (foldl brick_step brick_world_new
        [Update 0.4 1, Update 2 1, Update 0.1 1, Update 0.1 1, Fire Timeout_at_max])
        (Update 0.1 1)))
   \<and> brick_states (foldl brick_step brick_world_new
        [Update 0.4 1, Update 2 1, Update 0.1 1, Update 0.1 1, Fire Timeout_at_max])
        [Update 0.1 1, Fire Timeout_at_max, Update 0.1 1]
      = states_after BrickThrow_step (bw_sim (foldl brick_step brick_world_new
           [Update 0.4 1, Update 2 1, Update 0.1 1, Update 0.1 1, Fire Timeout_at_max]))
          (brick_inputs [Update 0.1 1, Fire Timeout_at_max, Update 0.1 1])
   \<and> bt_phase (bw_sim (foldl brick_step brick_world_new [Update 0.4 1, Update 2 1])) = at_max
   \<and> bw_sim (brick_step
        (foldl brick_step (foldl brick_step brick_world_new [Update 0.4 1, Update 2 1])
           (brick_updates [(0.1, 1), (0.1, 1)]))
        (Fire Timeout_at_max))
      = (brick_energies (bw_sim (foldl brick_step brick_world_new [Update 0.4 1, Update 2 1])))
          \<lparr> bt_phase := descending, bt_time := 0 \<rparr>
   \<and> bt_phase (bw_sim (foldl brick_step brick_world_new [Update 0.4 1, Update 1 1])) = at_target
   \<and> bw_sim (brick_step
        (foldl brick_step (foldl brick_step brick_world_new [Update 0.4 1, Update 1 1])
           (brick_updates [(0.1, 1), (0.2, 1)]))
        (Fire Timeout_at_target))
      = (brick_energies (bw_sim (foldl brick_step brick_world_new [Update 0.4 1, Update 1 1])))
          \<lparr> bt_phase := continuing,
             bt_time := bt_time (bw_sim (foldl brick_step brick_world_new
                                          [Update 0.4 1, Update 1 1]))
                        + scaled_total [(0.1, 1), (0.2, 1)] \<rparr>
   \<and> dualball_frame_deltas 0 [16, 32] = dualball_frame_deltas 1000 [1016, 1032]
   \<and> map dp_simulation (states_after dualball_frame
        \<lparr> dp_isPlaying = True, dp_speedMultiplier = 1, dp_lastTimestamp = 0,
          dp_simulation = DualBallSimulation_new \<rparr> [16, 32])
     = map dp_simulation (states_after dualball_frame
        \<lparr> dp_isPlaying = True, dp_speedMultiplier = 1, dp_lastTimestamp = 1000,
          dp_simulation = DualBallSimulation_new \<rparr> [1016, 1032])"
proof -
  let ?A = "[Update 0.4 1, Update 2 1, Update 0.1 1, Fire Timeout_at_max, Update 0.1 1]"
  let ?B = "[Update 0.4 1, Update 2 1, Update 0.1 1, Update 0.1 1]"
  let ?top = "foldl brick_step brick_world_new [Update 0.4 1, Update 2 1]"
  let ?target = "foldl brick_step brick_world_new [Update 0.4 1, Update 1 1]"
  let ?st1 = "\<lparr> dp_isPlaying = True, dp_speedMultiplier = 1, dp_lastTimestamp = 0,
          dp_simulation = DualBallSimulation_new \<rparr>"
  let ?st2 = "\<lparr> dp_isPlaying = True, dp_speedMultiplier = 1, dp_lastTimestamp = 1000,
          dp_simulation = DualBallSimulation_new \<rparr>"
  have i: "brick_inputs ?A = brick_inputs ?B" by simp
  have p1: "bt_phase (bw_sim ?top) = at_max"
    using sqrt_236_bounds by (simp add: brick_eval)
  have p2: "bt_phase (bw_sim ?target) = at_target" by (simp only: target_run) simp
  have d: "dualball_frame_deltas 0 [16, 32] = dualball_frame_deltas 1000 [1016, 1032]"
    by (simp add: dualball_frame_deltaTime_def)
  have h: "dp_isPlaying ?st1 = dp_isPlaying ?st2 \<and> dp_speedMultiplier ?st1 = dp_speedMultiplier ?st2
     \<and> dp_simulation ?st1 = dp_simulation ?st2
     \<and> dualball_frame_deltas (dp_lastTimestamp ?st1) [16, 32]
         = dualball_frame_deltas (dp_lastTimestamp ?st2) [1016, 1032]"
    by (simp add: dualball_frame_deltaTime_def)
  show ?thesis
    using C6_determinism_amended [where w = brick_world_new and tr = ?A
        and ?w0.0 = brick_world_new and ?tr1.0 = ?A and ?tr2.0 = ?B
        and ?w3.0 = "foldl brick_step brick_world_new
              [Update 0.4 1, Update 2 1, Update 0.1 1, Update 0.1 1, Fire Timeout_at_max]"
        and ?tr3.0 = "[Update 0.1 1, Fire Timeout_at_max, Update 0.1 1]"
        and ?w1.0 = ?top and ?i1.0 = "(0.1, 1)" and ?ins1.0 = "[(0.1, 1)]"
        and ?w2.0 = ?target and ?i2.0 = "(0.1, 1)" and ?ins2.0 = "[(0.2, 1)]"
        and ?st1.0 = ?st1 and ?st2.0 = ?st2 and ?ts1.0 = "[16, 32]" and ?ts2.0 = "[1016, 1032]"]
      i race_states_differ stale_quiet p1 p2 d h
    by blast
qed

section \<open>Derived constants of the dual-ball model\<close>

text \<open>
  C7.  The dual-ball model constructed with \<open>g = 9.8\<close>, drop times \<open>0\<close> and \<open>2.0\<close> and
  total time \<open>5.0\<close> has initial heights \<open>122.5\<close> and \<open>44.1\<close> and height difference
  \<open>78.4\<close>, each within the tolerance \<open>0.05\<close> (here: exactly); the two balls start at
  these heights, and both are on the ground, and the run complete, once the clock shows
  \<open>5.0\<close> and not at \<open>4.9\<close>.
\<close>

theorem C7_dualball_heights:
  "db_g DualBallSimulation_new = 9.8
   \<and> db_totalTime DualBallSimulation_new = 5.0
   \<and> map b_dropTime (db_balls DualBallSimulation_new) = [0, 2.0]
   \<and> \<bar>db_ball1Height DualBallSimulation_new - 122.5\<bar> \<le> 0.05
   \<and> \<bar>db_ball2Height DualBallSimulation_new - 44.1\<bar> \<le> 0.05
   \<and> \<bar>db_heightDifference DualBallSimulation_new - 78.4\<bar> \<le> 0.05
   \<and> map b_height (db_balls DualBallSimulation_new)
       = [db_ball1Height DualBallSimulation_new, db_ball2Height DualBallSimulation_new]
   \<and> map b_initialHeight (db_balls DualBallSimulation_new)
       = [db_ball1Height DualBallSimulation_new, db_ball2Height DualBallSimulation_new]
   \<and> snd (DualBallSimulation_update DualBallSimulation_new 5 1)
   \<and> map b_height (db_balls (fst (DualBallSimulation_update DualBallSimulation_new 5 1)))
       = [0, 0]
   \<and> map b_landed (db_balls (fst (DualBallSimulation_update DualBallSimulation_new 5 1)))
       = [True, True]
   \<and> \<not> snd (DualBallSimulation_update DualBallSimulation_new 4.9 1)
   \<and> map b_landed (db_balls (fst (DualBallSimulation_update DualBallSimulation_new 4.9 1)))
       = [False, False]"
  by (simp add: DualBallSimulation_new_def DualBallSimulation_update_def ball_update_def
      CONFIG_dualball_g_def CONFIG_dualball_totalTime_def Let_def)


section \<open>Derived constants of the orbit models\<close>


text \<open>
  C9.  With \<open>R1 = 10\<^sup>1\<^sup>2\<close> and \<open>R2 = 10\<^sup>1\<^sup>0\<close> and the periods \<open>T = 2 \<pi> \<surd>(R\<^sup>3 / G M)\<close>, the
  ratio \<open>T1 / T2\<close> is within 1% of 1000 (over the reals it is 1000).
\<close>

theorem C9_kepler_ratio:
  "T1 = 2 * pi * sqrt (CONFIG_kepler_R1 ^ 3 / (CONFIG_kepler_G * CONFIG_kepler_M_sun))
   \<and> T2 = 2 * pi * sqrt (CONFIG_kepler_R2 ^ 3 / (CONFIG_kepler_G * CONFIG_kepler_M_sun))
   \<and> CONFIG_kepler_R1 = 10 ^ 12 \<and> CONFIG_kepler_R2 = 10 ^ 10
   \<and> PERIOD_RATIO = T1 / T2
   \<and> \<bar>PERIOD_RATIO - 1000\<bar> \<le> 0.01 * 1000"
proof -
  let ?c = "CONFIG_kepler_G * CONFIG_kepler_M_sun"
  have c: "0 < ?c" by (simp add: CONFIG_kepler_G_def CONFIG_kepler_M_sun_def)
  have "PERIOD_RATIO = sqrt (CONFIG_kepler_R1 ^ 3 / ?c) / sqrt (CONFIG_kepler_R2 ^ 3 / ?c)"
    by (simp add: PERIOD_RATIO_def T1_def T2_def calculatePeriod_def)
  also have "\<dots> = sqrt (CONFIG_kepler_R1 ^ 3 / CONFIG_kepler_R2 ^ 3)"
    using c by (intro sqrt_ratio) (simp_all add: CONFIG_kepler_R2_def)
  also have "CONFIG_kepler_R1 ^ 3 / CONFIG_kepler_R2 ^ 3 = (1000::real)\<^sup>2"
    by (simp add: CONFIG_kepler_R1_def CONFIG_kepler_R2_def)
  also have "sqrt ((1000::real)\<^sup>2) = 1000" by simp
  finally have "PERIOD_RATIO = 1000" .
  then show ?thesis
    by (simp add: T1_def T2_def calculatePeriod_def PERIOD_RATIO_def CONFIG_kepler_R1_def
        CONFIG_kepler_R2_def)
qed

end
